theory Spec2Isabelle
  imports Main "HOL-Library.Word"
begin

section \<open>JavaScript strings\<close>

text \<open>
  A JavaScript string is a sequence of UTF-16 code units. Every Devanagari code point
  (U+0900 to U+097F) is one code unit. A table key is written \<open>ascii ''ram''\<close>; a
  Devanagari value is written as the list of its code units.
\<close>

type_synonym jsstring = "16 word list"

definition ascii :: "string \<Rightarrow> jsstring" where
  "ascii s = map of_char s"

text \<open>
  \<open>String.prototype.trim\<close> removes the WhiteSpace and LineTerminator code points of
  ECMAScript from both ends.
\<close>

definition isWhiteSpace :: "16 word \<Rightarrow> bool" where
  "isWhiteSpace c =
     (c \<in> {0x09, 0x0A, 0x0B, 0x0C, 0x0D, 0x20, 0xA0, 0x1680, 0x2028, 0x2029,
            0x202F, 0x205F, 0x3000, 0xFEFF}
      \<or> (0x2000 \<le> c \<and> c \<le> 0x200A))"

definition trim :: "jsstring \<Rightarrow> jsstring" where
  "trim s = rev (dropWhile isWhiteSpace (rev (dropWhile isWhiteSpace s)))"

text \<open>
  \<open>String.prototype.toLowerCase\<close> belongs to the runtime: its Unicode case tables are
  not part of the repository. Every engine below takes it as its first argument, under
  the name \<open>toLowerCase\<close>, and a theorem states what it uses of it. On a string of
  ASCII characters it is \<open>asciiToLowerCase\<close>: the letters A to Z go to a to z and every
  other character is kept. Outside ASCII the two differ (the runtime lower-cases U+00C9
  to U+00E9 and the Kelvin sign U+212A to \<open>k\<close>): \<open>asciiToLowerCase\<close> is used in the
  closed examples only, whose inputs are ASCII, and a statement about every input is
  about every \<open>toLowerCase\<close>.
\<close>

definition isUpperAZ :: "16 word \<Rightarrow> bool" where
  "isUpperAZ c = (0x41 \<le> c \<and> c \<le> 0x5A)"

definition isLowerAZ :: "16 word \<Rightarrow> bool" where
  "isLowerAZ c = (0x61 \<le> c \<and> c \<le> 0x7A)"

definition isDevanagari :: "16 word \<Rightarrow> bool" where
  "isDevanagari c = (0x0900 \<le> c \<and> c \<le> 0x097F)"

definition asciiLowerUnit :: "16 word \<Rightarrow> 16 word" where
  "asciiLowerUnit c = (if isUpperAZ c then c + 0x20 else c)"

definition asciiToLowerCase :: "jsstring \<Rightarrow> jsstring" where
  "asciiToLowerCase s = map asciiLowerUnit s"

text \<open>
  What the theorems use of the runtime's \<open>toLowerCase\<close>. White space has no case
  mapping and no character lower-cases to white space or to nothing, so a blank string
  stays blank and a string that is not blank stays so (\<open>preservesBlank\<close>). Beyond that,
  lower-casing commutes with \<open>trim\<close>, lower-casing twice is lower-casing once, and only
  the empty string lower-cases to the empty string (\<open>lowerCasing\<close>).
\<close>

definition preservesBlank :: "(jsstring \<Rightarrow> jsstring) \<Rightarrow> bool" where
  "preservesBlank lc = (\<forall>s. (trim (lc s) = []) = (trim s = []))"

definition lowerCasing :: "(jsstring \<Rightarrow> jsstring) \<Rightarrow> bool" where
  "lowerCasing lc =
     ((\<forall>s. trim (lc s) = lc (trim s)) \<and> (\<forall>s. lc (lc s) = lc s)
      \<and> (\<forall>s. (lc s = []) = (s = [])))"

text \<open>\<open>s.substring(a, b)\<close> for non-negative indices: the bounds are clamped and swapped.\<close>

definition substring :: "jsstring \<Rightarrow> nat \<Rightarrow> nat \<Rightarrow> jsstring" where
  "substring s a b = take (max a b - min a b) (drop (min a b) s)"

text \<open>\<open>s.includes(t)\<close>: \<open>t\<close> occurs in \<open>s\<close> as a contiguous run.\<close>

fun startsWith :: "'a list \<Rightarrow> 'a list \<Rightarrow> bool" where
  "startsWith s [] = True"
| "startsWith [] (y # ys) = False"
| "startsWith (x # xs) (y # ys) = (x = y \<and> startsWith xs ys)"

fun str_includes :: "'a list \<Rightarrow> 'a list \<Rightarrow> bool" where
  "str_includes [] t = (t = [])"
| "str_includes (x # xs) t = (startsWith (x # xs) t \<or> str_includes xs t)"

section \<open>JavaScript values and objects\<close>

text \<open>
  The values these functions handle: a string, \<open>null\<close>, \<open>undefined\<close>, and a member
  that an object literal inherits from \<open>Object.prototype\<close> (a function, or for
  \<open>__proto__\<close> the prototype object itself), named by its property name.
\<close>

datatype jsvalue = Str jsstring | Inherited jsstring | Null | Undefined

fun truthy :: "jsvalue \<Rightarrow> bool" where
  "truthy (Str s) = (s \<noteq> [])"
| "truthy (Inherited n) = True"
| "truthy Null = False"
| "truthy Undefined = False"

definition objectPrototypeNames :: "jsstring list" where
  "objectPrototypeNames =
     [ascii ''constructor'', ascii ''__defineGetter__'', ascii ''__defineSetter__'',
      ascii ''hasOwnProperty'', ascii ''__lookupGetter__'', ascii ''__lookupSetter__'',
      ascii ''isPrototypeOf'', ascii ''propertyIsEnumerable'', ascii ''toString'',
      ascii ''valueOf'', ascii ''__proto__'', ascii ''toLocaleString'']"

text \<open>
  String conversion, as \<open>+=\<close> on a string applies it. An inherited function prints
  as native code under its function name (\<open>Object\<close> for \<open>constructor\<close>).
\<close>

fun toStr :: "jsvalue \<Rightarrow> jsstring" where
  "toStr (Str s) = s"
| "toStr Null = ascii ''null''"
| "toStr Undefined = ascii ''undefined''"
| "toStr (Inherited n) =
     (if n = ascii ''__proto__'' then ascii ''[object Object]''
      else ascii ''function '' @ (if n = ascii ''constructor'' then ascii ''Object'' else n)
           @ ascii ''() { [native code] }'')"

text \<open>
  An object made by an object literal with string values: the list of its own properties
  in insertion order. Evaluating the literal defines the properties from left to right; a
  key written twice keeps its first position and takes the later value.
\<close>

type_synonym jsobject = "(jsstring \<times> jsstring) list"

fun defineProperty :: "jsobject \<Rightarrow> jsstring \<times> jsstring \<Rightarrow> jsobject" where
  "defineProperty [] kv = [kv]"
| "defineProperty (p # ps) kv =
     (if fst p = fst kv then kv # ps else p # defineProperty ps kv)"

definition objectLiteral :: "(jsstring \<times> jsstring) list \<Rightarrow> jsobject" where
  "objectLiteral props = foldl defineProperty [] props"

definition objectEntries :: "jsobject \<Rightarrow> (jsstring \<times> jsstring) list" where
  "objectEntries obj = obj"

definition getOwn :: "jsobject \<Rightarrow> jsstring \<Rightarrow> jsstring option" where
  "getOwn obj k = map_of obj k"

text \<open>
  \<open>obj[k]\<close>: the own property when there is one, else the member of that name on
  \<open>Object.prototype\<close>, else \<open>undefined\<close>.
\<close>

definition getProp :: "jsobject \<Rightarrow> jsstring \<Rightarrow> jsvalue" where
  "getProp obj k =
     (case getOwn obj k of
        Some v \<Rightarrow> Str v
      | None \<Rightarrow> if k \<in> set objectPrototypeNames then Inherited k else Undefined)"

section \<open>The tables\<close>

definition nameMapping :: "jsobject" where
  "nameMapping = objectLiteral
    [(ascii ''ram'', [0x0930, 0x093E, 0x092E]),
     (ascii ''sita'', [0x0938, 0x0940, 0x0924, 0x093E]),
     (ascii ''krishna'', [0x0915, 0x0943, 0x0937, 0x094D, 0x0923]),
     (ascii ''radha'', [0x0930, 0x093E, 0x0927, 0x093E]),
     (ascii ''shiva'', [0x0936, 0x093F, 0x0935]),
     (ascii ''parvati'', [0x092A, 0x093E, 0x0930, 0x094D, 0x0935, 0x0924, 0x0940]),
     (ascii ''ganesh'', [0x0917, 0x0923, 0x0947, 0x0936]),
     (ascii ''lakshmi'', [0x0932, 0x0915, 0x094D, 0x0937, 0x094D, 0x092E, 0x0940]),
     (ascii ''vishnu'', [0x0935, 0x093F, 0x0937, 0x094D, 0x0923, 0x0942]),
     (ascii ''brahma'', [0x092C, 0x094D, 0x0930, 0x0939, 0x094D, 0x092E, 0x093E]),
     (ascii ''saraswati'', [0x0938, 0x0930, 0x0938, 0x094D, 0x0935, 0x0924, 0x0940]),
     (ascii ''hanuman'', [0x0939, 0x0928, 0x0941, 0x092E, 0x093E, 0x0928]),
     (ascii ''arjun'', [0x0905, 0x0930, 0x094D, 0x091C, 0x0941, 0x0928]),
     (ascii ''bhim'', [0x092D, 0x0940, 0x092E]),
     (ascii ''yudhishthir'', [0x092F, 0x0941, 0x0927, 0x093F, 0x0937, 0x094D, 0x0920, 0x093F, 0x0930]),
     (ascii ''nakul'', [0x0928, 0x0915, 0x0941, 0x0932]),
     (ascii ''sahadev'', [0x0938, 0x0939, 0x0926, 0x0947, 0x0935]),
     (ascii ''draupadi'', [0x0926, 0x094D, 0x0930, 0x094C, 0x092A, 0x0926, 0x0940]),
     (ascii ''kunti'', [0x0915, 0x0941, 0x0902, 0x0924, 0x0940]),
     (ascii ''gandhari'', [0x0917, 0x093E, 0x0902, 0x0927, 0x093E, 0x0930, 0x0940]),
     (ascii ''karna'', [0x0915, 0x0930, 0x094D, 0x0923]),
     (ascii ''duryodhan'', [0x0926, 0x0941, 0x0930, 0x094D, 0x092F, 0x094B, 0x0927, 0x0928]),
     (ascii ''bhishma'', [0x092D, 0x0940, 0x0937, 0x094D, 0x092E]),
     (ascii ''drona'', [0x0926, 0x094D, 0x0930, 0x094B, 0x0923]),
     (ascii ''ashwatthama'', [0x0905, 0x0936, 0x094D, 0x0935, 0x0924, 0x094D, 0x0925, 0x093E, 0x092E, 0x093E]),
     (ascii ''abhimanyu'', [0x0905, 0x092D, 0x093F, 0x092E, 0x0928, 0x094D, 0x092F, 0x0942]),
     (ascii ''subhadra'', [0x0938, 0x0941, 0x092D, 0x0926, 0x094D, 0x0930, 0x093E]),
     (ascii ''rukmini'', [0x0930, 0x0941, 0x0915, 0x094D, 0x092E, 0x093F, 0x0923, 0x0940]),
     (ascii ''meera'', [0x092E, 0x0940, 0x0930, 0x093E]),
     (ascii ''tukaram'', [0x0924, 0x0941, 0x0915, 0x093E, 0x0930, 0x093E, 0x092E]),
     (ascii ''namdev'', [0x0928, 0x093E, 0x092E, 0x0926, 0x0947, 0x0935]),
     (ascii ''eknath'', [0x090F, 0x0915, 0x0928, 0x093E, 0x0925]),
     (ascii ''dnyaneshwar'', [0x091C, 0x094D, 0x091E, 0x093E, 0x0928, 0x0947, 0x0936, 0x094D, 0x0935, 0x0930]),
     (ascii ''tukdoji'', [0x0924, 0x0941, 0x0915, 0x0921, 0x094B, 0x091C, 0x0940]),
     (ascii ''ramdas'', [0x0930, 0x093E, 0x092E, 0x0926, 0x093E, 0x0938]),
     (ascii ''shivaji'', [0x0936, 0x093F, 0x0935, 0x093E, 0x091C, 0x0940]),
     (ascii ''sambhaji'', [0x0938, 0x0902, 0x092D, 0x093E, 0x091C, 0x0940]),
     (ascii ''rajaram'', [0x0930, 0x093E, 0x091C, 0x093E, 0x0930, 0x093E, 0x092E]),
     (ascii ''tarabai'', [0x0924, 0x093E, 0x0930, 0x093E, 0x092C, 0x093E, 0x0908]),
     (ascii ''ahilyabai'', [0x0905, 0x0939, 0x093F, 0x0932, 0x094D, 0x092F, 0x093E, 0x092C, 0x093E, 0x0908]),
     (ascii ''bajirao'', [0x092C, 0x093E, 0x091C, 0x0940, 0x0930, 0x093E, 0x0935]),
     (ascii ''mastani'', [0x092E, 0x0938, 0x094D, 0x0924, 0x093E, 0x0928, 0x0940]),
     (ascii ''prithviraj'', [0x092A, 0x0943, 0x0925, 0x094D, 0x0935, 0x0940, 0x0930, 0x093E, 0x091C]),
     (ascii ''rani'', [0x0930, 0x093E, 0x0923, 0x0940]),
     (ascii ''maharaj'', [0x092E, 0x0939, 0x093E, 0x0930, 0x093E, 0x091C]),
     (ascii ''maharani'', [0x092E, 0x0939, 0x093E, 0x0930, 0x093E, 0x0923, 0x0940]),
     (ascii ''sharma'', [0x0936, 0x0930, 0x094D, 0x092E, 0x093E]),
     (ascii ''verma'', [0x0935, 0x0930, 0x094D, 0x092E, 0x093E]),
     (ascii ''gupta'', [0x0917, 0x0941, 0x092A, 0x094D, 0x0924, 0x093E]),
     (ascii ''agarwal'', [0x0905, 0x0917, 0x094D, 0x0930, 0x0935, 0x093E, 0x0932]),
     (ascii ''singh'', [0x0938, 0x093F, 0x0902, 0x0939]),
     (ascii ''kumar'', [0x0915, 0x0941, 0x092E, 0x093E, 0x0930]),
     (ascii ''patel'', [0x092A, 0x091F, 0x0947, 0x0932]),
     (ascii ''shah'', [0x0936, 0x093E, 0x0939]),
     (ascii ''jain'', [0x091C, 0x0948, 0x0928]),
     (ascii ''agrawal'', [0x0905, 0x0917, 0x094D, 0x0930, 0x0935, 0x093E, 0x0932]),
     (ascii ''bansal'', [0x092C, 0x0902, 0x0938, 0x0932]),
     (ascii ''goel'', [0x0917, 0x094B, 0x092F, 0x0932]),
     (ascii ''mittal'', [0x092E, 0x093F, 0x0924, 0x094D, 0x0924, 0x0932]),
     (ascii ''joshi'', [0x091C, 0x094B, 0x0936, 0x0940]),
     (ascii ''kulkarni'', [0x0915, 0x0941, 0x0932, 0x0915, 0x0930, 0x094D, 0x0923, 0x0940]),
     (ascii ''deshpande'', [0x0926, 0x0947, 0x0936, 0x092A, 0x093E, 0x0902, 0x0921, 0x0947]),
     (ascii ''patil'', [0x092A, 0x093E, 0x091F, 0x0940, 0x0932]),
     (ascii ''jadhav'', [0x091C, 0x093E, 0x0927, 0x0935]),
     (ascii ''pawar'', [0x092A, 0x0935, 0x093E, 0x0930]),
     (ascii ''more'', [0x092E, 0x094B, 0x0930, 0x0947]),
     (ascii ''shinde'', [0x0936, 0x093F, 0x0902, 0x0926, 0x0947]),
     (ascii ''gaikwad'', [0x0917, 0x093E, 0x092F, 0x0915, 0x0935, 0x093E, 0x0921]),
     (ascii ''bhosale'', [0x092D, 0x094B, 0x0938, 0x0932, 0x0947]),
     (ascii ''salunkhe'', [0x0938, 0x093E, 0x0932, 0x0941, 0x0902, 0x0916, 0x0947]),
     (ascii ''kadam'', [0x0915, 0x0926, 0x092E]),
     (ascii ''mane'', [0x092E, 0x093E, 0x0928, 0x0947]),
     (ascii ''sawant'', [0x0938, 0x093E, 0x0935, 0x0902, 0x0924]),
     (ascii ''raut'', [0x0930, 0x093E, 0x090A, 0x0924]),
     (ascii ''kale'', [0x0915, 0x093E, 0x0933, 0x0947]),
     (ascii ''mali'', [0x092E, 0x093E, 0x0933, 0x0940]),
     (ascii ''kamble'', [0x0915, 0x093E, 0x0902, 0x092C, 0x0933, 0x0947]),
     (ascii ''thorat'', [0x0925, 0x094B, 0x0930, 0x093E, 0x0924]),
     (ascii ''chavan'', [0x091A, 0x0935, 0x094D, 0x0939, 0x093E, 0x0923]),
     (ascii ''yadav'', [0x092F, 0x093E, 0x0926, 0x0935]),
     (ascii ''mahajan'', [0x092E, 0x0939, 0x093E, 0x091C, 0x0928]),
     (ascii ''desai'', [0x0926, 0x0947, 0x0938, 0x093E, 0x0908]),
     (ascii ''mehta'', [0x092E, 0x0947, 0x0939, 0x0924, 0x093E]),
     (ascii ''trivedi'', [0x0924, 0x094D, 0x0930, 0x093F, 0x0935, 0x0947, 0x0926, 0x0940]),
     (ascii ''pandey'', [0x092A, 0x093E, 0x0902, 0x0921, 0x0947]),
     (ascii ''mishra'', [0x092E, 0x093F, 0x0936, 0x094D, 0x0930, 0x093E]),
     (ascii ''tiwari'', [0x0924, 0x093F, 0x0935, 0x093E, 0x0930, 0x0940]),
     (ascii ''dubey'', [0x0926, 0x0941, 0x092C, 0x0947]),
     (ascii ''chaturvedi'', [0x091A, 0x0924, 0x0941, 0x0930, 0x094D, 0x0935, 0x0947, 0x0926, 0x0940]),
     (ascii ''shukla'', [0x0936, 0x0941, 0x0915, 0x094D, 0x0932, 0x093E]),
     (ascii ''srivastava'', [0x0936, 0x094D, 0x0930, 0x0940, 0x0935, 0x093E, 0x0938, 0x094D, 0x0924, 0x0935]),
     (ascii ''rajput'', [0x0930, 0x093E, 0x091C, 0x092A, 0x0942, 0x0924]),
     (ascii ''thakur'', [0x0920, 0x093E, 0x0915, 0x0942, 0x0930]),
     (ascii ''chouhan'', [0x091A, 0x094C, 0x0939, 0x093E, 0x0928]),
     (ascii ''rathore'', [0x0930, 0x093E, 0x0920, 0x094B, 0x0921]),
     (ascii ''solanki'', [0x0938, 0x094B, 0x0932, 0x0902, 0x0915, 0x0940]),
     (ascii ''parmar'', [0x092A, 0x0930, 0x092E, 0x093E, 0x0930]),
     (ascii ''prajapati'', [0x092A, 0x094D, 0x0930, 0x091C, 0x093E, 0x092A, 0x0924, 0x0940])]"

definition charMapping :: "jsobject" where
  "charMapping = objectLiteral
    [(ascii ''a'', [0x0905]),
     (ascii ''aa'', [0x0906]),
     (ascii ''i'', [0x0907]),
     (ascii ''ii'', [0x0908]),
     (ascii ''u'', [0x0909]),
     (ascii ''uu'', [0x090A]),
     (ascii ''e'', [0x090F]),
     (ascii ''ai'', [0x0910]),
     (ascii ''o'', [0x0913]),
     (ascii ''au'', [0x0914]),
     (ascii ''ka'', [0x0915]),
     (ascii ''kha'', [0x0916]),
     (ascii ''ga'', [0x0917]),
     (ascii ''gha'', [0x0918]),
     (ascii ''nga'', [0x0919]),
     (ascii ''cha'', [0x091A]),
     (ascii ''chha'', [0x091B]),
     (ascii ''ja'', [0x091C]),
     (ascii ''jha'', [0x091D]),
     (ascii ''nya'', [0x091E]),
     (ascii ''ta'', [0x091F]),
     (ascii ''tha'', [0x0920]),
     (ascii ''da'', [0x0921]),
     (ascii ''dha'', [0x0922]),
     (ascii ''na'', [0x0923]),
     (ascii ''taa'', [0x0924]),
     (ascii ''thaa'', [0x0925]),
     (ascii ''daa'', [0x0926]),
     (ascii ''dhaa'', [0x0927]),
     (ascii ''naa'', [0x0928]),
     (ascii ''pa'', [0x092A]),
     (ascii ''pha'', [0x092B]),
     (ascii ''ba'', [0x092C]),
     (ascii ''bha'', [0x092D]),
     (ascii ''ma'', [0x092E]),
     (ascii ''ya'', [0x092F]),
     (ascii ''ra'', [0x0930]),
     (ascii ''la'', [0x0932]),
     (ascii ''va'', [0x0935]),
     (ascii ''sha'', [0x0936]),
     (ascii ''shha'', [0x0937]),
     (ascii ''sa'', [0x0938]),
     (ascii ''ha'', [0x0939]),
     (ascii ''ksha'', [0x0915, 0x094D, 0x0937]),
     (ascii ''tra'', [0x0924, 0x094D, 0x0930]),
     (ascii ''gya'', [0x091C, 0x094D, 0x091E])]"

definition marathiMap :: "jsobject" where
  "marathiMap = objectLiteral
    [(ascii ''a'', [0x0905]),
     (ascii ''aa'', [0x0906]),
     (ascii ''i'', [0x0907]),
     (ascii ''ii'', [0x0908]),
     (ascii ''u'', [0x0909]),
     (ascii ''uu'', [0x090A]),
     (ascii ''e'', [0x090F]),
     (ascii ''ai'', [0x0910]),
     (ascii ''o'', [0x0913]),
     (ascii ''au'', [0x0914]),
     (ascii ''an'', [0x0905, 0x0902]),
     (ascii ''ah'', [0x0905, 0x0903]),
     (ascii ''ka'', [0x0915]),
     (ascii ''kha'', [0x0916]),
     (ascii ''ga'', [0x0917]),
     (ascii ''gha'', [0x0918]),
     (ascii ''nga'', [0x0919]),
     (ascii ''cha'', [0x091A]),
     (ascii ''chha'', [0x091B]),
     (ascii ''ja'', [0x091C]),
     (ascii ''jha'', [0x091D]),
     (ascii ''nya'', [0x091E]),
     (ascii ''ta'', [0x091F]),
     (ascii ''tha'', [0x0920]),
     (ascii ''da'', [0x0921]),
     (ascii ''dha'', [0x0922]),
     (ascii ''na'', [0x0923]),
     (ascii ''taa'', [0x0924]),
     (ascii ''thaa'', [0x0925]),
     (ascii ''daa'', [0x0926]),
     (ascii ''dhaa'', [0x0927]),
     (ascii ''naa'', [0x0928]),
     (ascii ''pa'', [0x092A]),
     (ascii ''pha'', [0x092B]),
     (ascii ''ba'', [0x092C]),
     (ascii ''bha'', [0x092D]),
     (ascii ''ma'', [0x092E]),
     (ascii ''ya'', [0x092F]),
     (ascii ''ra'', [0x0930]),
     (ascii ''la'', [0x0932]),
     (ascii ''va'', [0x0935]),
     (ascii ''wa'', [0x0935]),
     (ascii ''sha'', [0x0936]),
     (ascii ''shha'', [0x0937]),
     (ascii ''sa'', [0x0938]),
     (ascii ''ha'', [0x0939]),
     (ascii ''ksha'', [0x0915, 0x094D, 0x0937]),
     (ascii ''tra'', [0x0924, 0x094D, 0x0930]),
     (ascii ''gya'', [0x091C, 0x094D, 0x091E]),
     (ascii ''k'', [0x0915]),
     (ascii ''kh'', [0x0916]),
     (ascii ''g'', [0x0917]),
     (ascii ''gh'', [0x0918]),
     (ascii ''ch'', [0x091A]),
     (ascii ''j'', [0x091C]),
     (ascii ''jh'', [0x091D]),
     (ascii ''t'', [0x0924]),
     (ascii ''th'', [0x0925]),
     (ascii ''d'', [0x0926]),
     (ascii ''dh'', [0x0927]),
     (ascii ''n'', [0x0928]),
     (ascii ''p'', [0x092A]),
     (ascii ''ph'', [0x092B]),
     (ascii ''b'', [0x092C]),
     (ascii ''bh'', [0x092D]),
     (ascii ''m'', [0x092E]),
     (ascii ''y'', [0x092F]),
     (ascii ''r'', [0x0930]),
     (ascii ''l'', [0x0932]),
     (ascii ''v'', [0x0935]),
     (ascii ''w'', [0x0935]),
     (ascii ''sh'', [0x0936]),
     (ascii ''s'', [0x0938]),
     (ascii ''h'', [0x0939]),
     (ascii ''ram'', [0x0930, 0x093E, 0x092E]),
     (ascii ''rama'', [0x0930, 0x093E, 0x092E]),
     (ascii ''sita'', [0x0938, 0x0940, 0x0924, 0x093E]),
     (ascii ''krishna'', [0x0915, 0x0943, 0x0937, 0x094D, 0x0923]),
     (ascii ''radha'', [0x0930, 0x093E, 0x0927, 0x093E]),
     (ascii ''vishnu'', [0x0935, 0x093F, 0x0937, 0x094D, 0x0923, 0x0942]),
     (ascii ''shiva'', [0x0936, 0x093F, 0x0935]),
     (ascii ''ganesh'', [0x0917, 0x0923, 0x0947, 0x0936]),
     (ascii ''lakshmi'', [0x0932, 0x0915, 0x094D, 0x0937, 0x094D, 0x092E, 0x0940]),
     (ascii ''saraswati'', [0x0938, 0x0930, 0x0938, 0x094D, 0x0935, 0x0924, 0x0940]),
     (ascii ''durga'', [0x0926, 0x0941, 0x0930, 0x094D, 0x0917, 0x093E]),
     (ascii ''arjun'', [0x0905, 0x0930, 0x094D, 0x091C, 0x0941, 0x0928]),
     (ascii ''bhim'', [0x092D, 0x0940, 0x092E]),
     (ascii ''nakul'', [0x0928, 0x0915, 0x0941, 0x0932]),
     (ascii ''sahadev'', [0x0938, 0x0939, 0x0926, 0x0947, 0x0935]),
     (ascii ''samrat'', [0x0938, 0x092E, 0x0924, 0x094D]),
     (ascii ''shashikant'', [0x0936, 0x0936, 0x093F, 0x0915, 0x093E, 0x0902, 0x0924]),
     (ascii ''hoshing'', [0x0939, 0x094B, 0x0936, 0x0940, 0x0902, 0x0917]),
     (ascii ''ketan'', [0x0915, 0x0947, 0x0924, 0x0928]),
     (ascii ''prafulla'', [0x092A, 0x094D, 0x0930, 0x092B, 0x0941, 0x0932, 0x094D, 0x0932]),
     (ascii ''jitendra'', [0x091C, 0x093F, 0x0924, 0x0947, 0x0902, 0x0926, 0x094D, 0x0930]),
     (ascii ''suresh'', [0x0938, 0x0941, 0x0930, 0x0947, 0x0936]),
     (ascii ''mahesh'', [0x092E, 0x0939, 0x0947, 0x0936]),
     (ascii ''rajesh'', [0x0930, 0x093E, 0x091C, 0x0947, 0x0936]),
     (ascii ''dinesh'', [0x0926, 0x093F, 0x0928, 0x0947, 0x0936]),
     (ascii ''mukesh'', [0x092E, 0x0941, 0x0915, 0x0947, 0x0936]),
     (ascii ''hitesh'', [0x0939, 0x093F, 0x0924, 0x0947, 0x0936]),
     (ascii ''ritesh'', [0x0930, 0x093F, 0x0924, 0x0947, 0x0936]),
     (ascii ''umesh'', [0x0909, 0x092E, 0x0947, 0x0936]),
     (ascii ''ramesh'', [0x0930, 0x092E, 0x0947, 0x0936]),
     (ascii ''ganesh'', [0x0917, 0x0923, 0x0947, 0x0936]),
     (ascii ''naresh'', [0x0928, 0x0930, 0x0947, 0x0936]),
     (ascii ''yogesh'', [0x092F, 0x094B, 0x0917, 0x0947, 0x0936]),
     (ascii ''priya'', [0x092A, 0x094D, 0x0930, 0x093F, 0x092F, 0x093E]),
     (ascii ''pooja'', [0x092A, 0x0942, 0x091C, 0x093E]),
     (ascii ''sneha'', [0x0938, 0x094D, 0x0928, 0x0947, 0x0939, 0x093E]),
     (ascii ''kavita'', [0x0915, 0x0935, 0x093F, 0x0924, 0x093E]),
     (ascii ''sunita'', [0x0938, 0x0941, 0x0928, 0x0940, 0x0924, 0x093E]),
     (ascii ''anita'', [0x0905, 0x0928, 0x093F, 0x0924, 0x093E]),
     (ascii ''geeta'', [0x0917, 0x0940, 0x0924, 0x093E]),
     (ascii ''meera'', [0x092E, 0x0940, 0x0930, 0x093E]),
     (ascii ''sushma'', [0x0938, 0x0941, 0x0937, 0x094D, 0x092E, 0x093E]),
     (ascii ''rekha'', [0x0930, 0x0947, 0x0916, 0x093E]),
     (ascii ''maya'', [0x092E, 0x093E, 0x092F, 0x093E]),
     (ascii ''lata'', [0x0932, 0x0924, 0x093E]),
     (ascii ''sharma'', [0x0936, 0x0930, 0x094D, 0x092E, 0x093E]),
     (ascii ''verma'', [0x0935, 0x0930, 0x094D, 0x092E, 0x093E]),
     (ascii ''gupta'', [0x0917, 0x0941, 0x092A, 0x094D, 0x0924, 0x093E]),
     (ascii ''agarwal'', [0x0905, 0x0917, 0x094D, 0x0930, 0x0935, 0x093E, 0x0932]),
     (ascii ''patel'', [0x092A, 0x091F, 0x0947, 0x0932]),
     (ascii ''shah'', [0x0936, 0x093E, 0x0939]),
     (ascii ''joshi'', [0x091C, 0x094B, 0x0936, 0x0940]),
     (ascii ''mehta'', [0x092E, 0x0947, 0x0939, 0x0924, 0x093E]),
     (ascii ''kulkarni'', [0x0915, 0x0941, 0x0932, 0x0915, 0x0930, 0x094D, 0x0923, 0x0940]),
     (ascii ''deshpande'', [0x0926, 0x0947, 0x0936, 0x092A, 0x093E, 0x0902, 0x0921, 0x0947]),
     (ascii ''patil'', [0x092A, 0x093E, 0x091F, 0x0940, 0x0932]),
     (ascii ''jadhav'', [0x091C, 0x093E, 0x0927, 0x0935]),
     (ascii ''pawar'', [0x092A, 0x0935, 0x093E, 0x0930]),
     (ascii ''more'', [0x092E, 0x094B, 0x0930, 0x0947]),
     (ascii ''shinde'', [0x0936, 0x093F, 0x0902, 0x0926, 0x0947]),
     (ascii ''gaikwad'', [0x0917, 0x093E, 0x092F, 0x0915, 0x0935, 0x093E, 0x0921]),
     (ascii ''bhosale'', [0x092D, 0x094B, 0x0938, 0x0932, 0x0947]),
     (ascii ''salunkhe'', [0x0938, 0x093E, 0x0932, 0x0941, 0x0902, 0x0916, 0x0947]),
     (ascii ''kadam'', [0x0915, 0x0926, 0x092E]),
     (ascii ''mane'', [0x092E, 0x093E, 0x0928, 0x0947]),
     (ascii ''sawant'', [0x0938, 0x093E, 0x0935, 0x0902, 0x0924]),
     (ascii ''raut'', [0x0930, 0x093E, 0x090A, 0x0924]),
     (ascii ''kale'', [0x0915, 0x093E, 0x0933, 0x0947]),
     (ascii ''mali'', [0x092E, 0x093E, 0x0933, 0x0940]),
     (ascii ''kamble'', [0x0915, 0x093E, 0x0902, 0x092C, 0x0933, 0x0947]),
     (ascii ''thorat'', [0x0925, 0x094B, 0x0930, 0x093E, 0x0924]),
     (ascii ''chavan'', [0x091A, 0x0935, 0x094D, 0x0939, 0x093E, 0x0923]),
     (ascii ''yadav'', [0x092F, 0x093E, 0x0926, 0x0935]),
     (ascii ''mahajan'', [0x092E, 0x0939, 0x093E, 0x091C, 0x0928]),
     (ascii ''mulay'', [0x092E, 0x0941, 0x0933, 0x0947]),
     (ascii ''mulye'', [0x092E, 0x0941, 0x0933, 0x0947]),
     (ascii ''desai'', [0x0926, 0x0947, 0x0938, 0x093E, 0x0908]),
     (ascii ''jain'', [0x091C, 0x0948, 0x0928]),
     (ascii ''aai'', [0x0906, 0x0908]),
     (ascii ''baba'', [0x092C, 0x093E, 0x092C, 0x093E]),
     (ascii ''mama'', [0x092E, 0x093E, 0x092E, 0x093E]),
     (ascii ''kaka'', [0x0915, 0x093E, 0x0915, 0x093E]),
     (ascii ''tai'', [0x0924, 0x093E, 0x0908]),
     (ascii ''dada'', [0x0926, 0x093E, 0x0926, 0x093E]),
     (ascii ''nana'', [0x0928, 0x093E, 0x0928, 0x093E]),
     (ascii ''aji'', [0x0906, 0x091C, 0x0940]),
     (ascii ''ajoba'', [0x0906, 0x091C, 0x094B, 0x092C, 0x093E]),
     (ascii ''anna'', [0x0905, 0x0923, 0x094D, 0x0923, 0x093E]),
     (ascii ''didi'', [0x0926, 0x0940, 0x0926, 0x0940])]"

definition charMap :: "jsobject" where
  "charMap = objectLiteral
    [(ascii ''a'', [0x0905]),
     (ascii ''b'', [0x092C]),
     (ascii ''c'', [0x091A]),
     (ascii ''d'', [0x0926]),
     (ascii ''e'', [0x090F]),
     (ascii ''f'', [0x092B]),
     (ascii ''g'', [0x0917]),
     (ascii ''h'', [0x0939]),
     (ascii ''i'', [0x0907]),
     (ascii ''j'', [0x091C]),
     (ascii ''k'', [0x0915]),
     (ascii ''l'', [0x0932]),
     (ascii ''m'', [0x092E]),
     (ascii ''n'', [0x0928]),
     (ascii ''o'', [0x0913]),
     (ascii ''p'', [0x092A]),
     (ascii ''q'', [0x0915]),
     (ascii ''r'', [0x0930]),
     (ascii ''s'', [0x0938]),
     (ascii ''t'', [0x0924]),
     (ascii ''u'', [0x0909]),
     (ascii ''v'', [0x0935]),
     (ascii ''w'', [0x0935]),
     (ascii ''x'', [0x0915, 0x094D, 0x0938]),
     (ascii ''y'', [0x092F]),
     (ascii ''z'', [0x091D])]"

definition marathiTranslation :: "jsobject" where
  "marathiTranslation = objectLiteral
    [(ascii ''samrat'', [0x0938, 0x092E, 0x0924, 0x094D]),
     (ascii ''shashikant'', [0x0936, 0x0936, 0x093F, 0x0915, 0x093E, 0x0902, 0x0924]),
     (ascii ''hoshing'', [0x0939, 0x094B, 0x0936, 0x0940, 0x0902, 0x0917]),
     (ascii ''ketan'', [0x0915, 0x0947, 0x0924, 0x0928]),
     (ascii ''mulay'', [0x092E, 0x0941, 0x0933, 0x0947]),
     (ascii ''ram'', [0x0930, 0x093E, 0x092E]),
     (ascii ''sita'', [0x0938, 0x0940, 0x0924, 0x093E]),
     (ascii ''krishna'', [0x0915, 0x0943, 0x0937, 0x094D, 0x0923]),
     (ascii ''radha'', [0x0930, 0x093E, 0x0927, 0x093E]),
     (ascii ''vishnu'', [0x0935, 0x093F, 0x0937, 0x094D, 0x0923, 0x0942]),
     (ascii ''shiva'', [0x0936, 0x093F, 0x0935]),
     (ascii ''ganesh'', [0x0917, 0x0923, 0x0947, 0x0936]),
     (ascii ''lakshmi'', [0x0932, 0x0915, 0x094D, 0x0937, 0x094D, 0x092E, 0x0940]),
     (ascii ''saraswati'', [0x0938, 0x0930, 0x0938, 0x094D, 0x0935, 0x0924, 0x0940]),
     (ascii ''durga'', [0x0926, 0x0941, 0x0930, 0x094D, 0x0917, 0x093E]),
     (ascii ''arjun'', [0x0905, 0x0930, 0x094D, 0x091C, 0x0941, 0x0928]),
     (ascii ''bhim'', [0x092D, 0x0940, 0x092E]),
     (ascii ''nakul'', [0x0928, 0x0915, 0x0941, 0x0932]),
     (ascii ''sahadev'', [0x0938, 0x0939, 0x0926, 0x0947, 0x0935]),
     (ascii ''prafulla'', [0x092A, 0x094D, 0x0930, 0x092B, 0x0941, 0x0932, 0x094D, 0x0932]),
     (ascii ''jitendra'', [0x091C, 0x093F, 0x0924, 0x0947, 0x0902, 0x0926, 0x094D, 0x0930]),
     (ascii ''suresh'', [0x0938, 0x0941, 0x0930, 0x0947, 0x0936]),
     (ascii ''mahesh'', [0x092E, 0x0939, 0x0947, 0x0936]),
     (ascii ''rajesh'', [0x0930, 0x093E, 0x091C, 0x0947, 0x0936]),
     (ascii ''dinesh'', [0x0926, 0x093F, 0x0928, 0x0947, 0x0936]),
     (ascii ''mukesh'', [0x092E, 0x0941, 0x0915, 0x0947, 0x0936]),
     (ascii ''hitesh'', [0x0939, 0x093F, 0x0924, 0x0947, 0x0936]),
     (ascii ''ritesh'', [0x0930, 0x093F, 0x0924, 0x0947, 0x0936]),
     (ascii ''umesh'', [0x0909, 0x092E, 0x0947, 0x0936]),
     (ascii ''ramesh'', [0x0930, 0x092E, 0x0947, 0x0936]),
     (ascii ''naresh'', [0x0928, 0x0930, 0x0947, 0x0936]),
     (ascii ''yogesh'', [0x092F, 0x094B, 0x0917, 0x0947, 0x0936]),
     (ascii ''priya'', [0x092A, 0x094D, 0x0930, 0x093F, 0x092F, 0x093E]),
     (ascii ''pooja'', [0x092A, 0x0942, 0x091C, 0x093E]),
     (ascii ''sneha'', [0x0938, 0x094D, 0x0928, 0x0947, 0x0939, 0x093E]),
     (ascii ''kavita'', [0x0915, 0x0935, 0x093F, 0x0924, 0x093E]),
     (ascii ''sunita'', [0x0938, 0x0941, 0x0928, 0x0940, 0x0924, 0x093E]),
     (ascii ''anita'', [0x0905, 0x0928, 0x093F, 0x0924, 0x093E]),
     (ascii ''geeta'', [0x0917, 0x0940, 0x0924, 0x093E]),
     (ascii ''meera'', [0x092E, 0x0940, 0x0930, 0x093E]),
     (ascii ''sushma'', [0x0938, 0x0941, 0x0937, 0x094D, 0x092E, 0x093E]),
     (ascii ''rekha'', [0x0930, 0x0947, 0x0916, 0x093E]),
     (ascii ''maya'', [0x092E, 0x093E, 0x092F, 0x093E]),
     (ascii ''lata'', [0x0932, 0x0924, 0x093E]),
     (ascii ''sharma'', [0x0936, 0x0930, 0x094D, 0x092E, 0x093E]),
     (ascii ''verma'', [0x0935, 0x0930, 0x094D, 0x092E, 0x093E]),
     (ascii ''gupta'', [0x0917, 0x0941, 0x092A, 0x094D, 0x0924, 0x093E]),
     (ascii ''patel'', [0x092A, 0x091F, 0x0947, 0x0932]),
     (ascii ''shah'', [0x0936, 0x093E, 0x0939]),
     (ascii ''joshi'', [0x091C, 0x094B, 0x0936, 0x0940]),
     (ascii ''mehta'', [0x092E, 0x0947, 0x0939, 0x0924, 0x093E]),
     (ascii ''kulkarni'', [0x0915, 0x0941, 0x0932, 0x0915, 0x0930, 0x094D, 0x0923, 0x0940]),
     (ascii ''deshpande'', [0x0926, 0x0947, 0x0936, 0x092A, 0x093E, 0x0902, 0x0921, 0x0947]),
     (ascii ''patil'', [0x092A, 0x093E, 0x091F, 0x0940, 0x0932]),
     (ascii ''jadhav'', [0x091C, 0x093E, 0x0927, 0x0935]),
     (ascii ''pawar'', [0x092A, 0x0935, 0x093E, 0x0930]),
     (ascii ''more'', [0x092E, 0x094B, 0x0930, 0x0947]),
     (ascii ''shinde'', [0x0936, 0x093F, 0x0902, 0x0926, 0x0947]),
     (ascii ''gaikwad'', [0x0917, 0x093E, 0x092F, 0x0915, 0x0935, 0x093E, 0x0921]),
     (ascii ''bhosale'', [0x092D, 0x094B, 0x0938, 0x0932, 0x0947]),
     (ascii ''salunkhe'', [0x0938, 0x093E, 0x0932, 0x0941, 0x0902, 0x0916, 0x0947]),
     (ascii ''kadam'', [0x0915, 0x0926, 0x092E]),
     (ascii ''mane'', [0x092E, 0x093E, 0x0928, 0x0947]),
     (ascii ''sawant'', [0x0938, 0x093E, 0x0935, 0x0902, 0x0924]),
     (ascii ''raut'', [0x0930, 0x093E, 0x090A, 0x0924]),
     (ascii ''kale'', [0x0915, 0x093E, 0x0933, 0x0947]),
     (ascii ''mali'', [0x092E, 0x093E, 0x0933, 0x0940]),
     (ascii ''kamble'', [0x0915, 0x093E, 0x0902, 0x092C, 0x0933, 0x0947]),
     (ascii ''thorat'', [0x0925, 0x094B, 0x0930, 0x093E, 0x0924]),
     (ascii ''chavan'', [0x091A, 0x0935, 0x094D, 0x0939, 0x093E, 0x0923]),
     (ascii ''yadav'', [0x092F, 0x093E, 0x0926, 0x0935]),
     (ascii ''mahajan'', [0x092E, 0x0939, 0x093E, 0x091C, 0x0928]),
     (ascii ''desai'', [0x0926, 0x0947, 0x0938, 0x093E, 0x0908]),
     (ascii ''jain'', [0x091C, 0x0948, 0x0928]),
     (ascii ''ka'', [0x0915]),
     (ascii ''kha'', [0x0916]),
     (ascii ''ga'', [0x0917]),
     (ascii ''gha'', [0x0918]),
     (ascii ''cha'', [0x091A]),
     (ascii ''chha'', [0x091B]),
     (ascii ''ja'', [0x091C]),
     (ascii ''jha'', [0x091D]),
     (ascii ''ta'', [0x091F]),
     (ascii ''tha'', [0x0920]),
     (ascii ''da'', [0x0921]),
     (ascii ''dha'', [0x0922]),
     (ascii ''na'', [0x0923]),
     (ascii ''pa'', [0x092A]),
     (ascii ''pha'', [0x092B]),
     (ascii ''ba'', [0x092C]),
     (ascii ''bha'', [0x092D]),
     (ascii ''ma'', [0x092E]),
     (ascii ''ya'', [0x092F]),
     (ascii ''ra'', [0x0930]),
     (ascii ''la'', [0x0932]),
     (ascii ''va'', [0x0935]),
     (ascii ''wa'', [0x0935]),
     (ascii ''sha'', [0x0936]),
     (ascii ''sa'', [0x0938]),
     (ascii ''ha'', [0x0939])]"

section \<open>The name converter (\<open>lib/name-converter\<close>)\<close>

text \<open>
  The \<open>switch\<close> of \<open>basicTransliterate\<close> on the one-unit string \<open>char\<close>: the piece it
  appends to \<open>result\<close>.
\<close>

definition singleCharacterMapping :: "jsstring \<Rightarrow> jsstring" where
  "singleCharacterMapping char =
     (if char = ascii ''a'' then [0x0905]
      else if char = ascii ''b'' then [0x092C]
      else if char = ascii ''c'' then [0x091A]
      else if char = ascii ''d'' then [0x0926]
      else if char = ascii ''e'' then [0x090F]
      else if char = ascii ''f'' then [0x092B]
      else if char = ascii ''g'' then [0x0917]
      else if char = ascii ''h'' then [0x0939]
      else if char = ascii ''i'' then [0x0907]
      else if char = ascii ''j'' then [0x091C]
      else if char = ascii ''k'' then [0x0915]
      else if char = ascii ''l'' then [0x0932]
      else if char = ascii ''m'' then [0x092E]
      else if char = ascii ''n'' then [0x0928]
      else if char = ascii ''o'' then [0x0913]
      else if char = ascii ''p'' then [0x092A]
      else if char = ascii ''q'' then [0x0915]
      else if char = ascii ''r'' then [0x0930]
      else if char = ascii ''s'' then [0x0938]
      else if char = ascii ''t'' then [0x0924]
      else if char = ascii ''u'' then [0x0909]
      else if char = ascii ''v'' then [0x0935]
      else if char = ascii ''w'' then [0x0935]
      else if char = ascii ''x'' then [0x0915, 0x094D, 0x0938]
      else if char = ascii ''y'' then [0x092F]
      else if char = ascii ''z'' then [0x091D]
      else char)"

text \<open>
  The \<open>for\<close> loop of \<open>basicTransliterate\<close>, with its variables \<open>i\<close> and \<open>result\<close>. A
  two-character match increments \<open>i\<close> before \<open>continue\<close>, and the loop increments it
  again.
\<close>

function basicLoop :: "jsstring \<Rightarrow> nat \<Rightarrow> jsstring \<Rightarrow> jsstring" where
  "basicLoop cleanName i result =
     (if i < length cleanName then
        (let char = [cleanName ! i];
             twoChar = substring cleanName i (i + 2)
         in if int i < int (length cleanName) - 1 \<and> truthy (getProp charMapping twoChar)
            then basicLoop cleanName (i + 1 + 1) (result @ toStr (getProp charMapping twoChar))
            else basicLoop cleanName (i + 1) (result @ singleCharacterMapping char))
      else result)"
  by pat_completeness auto
termination
  by (relation "measure (\<lambda>(cleanName, i, result). length cleanName - i)") auto

declare basicLoop.simps [simp del]

definition basicTransliterate :: "(jsstring \<Rightarrow> jsstring) \<Rightarrow> jsstring \<Rightarrow> jsstring" where
  "basicTransliterate toLowerCase name =
     (let cleanName = filter isLowerAZ (toLowerCase name);
          result = basicLoop cleanName 0 []
      in if result \<noteq> [] then result else name)"

definition convertToMarathi :: "(jsstring \<Rightarrow> jsstring) \<Rightarrow> jsstring \<Rightarrow> jsvalue" where
  "convertToMarathi toLowerCase englishName =
     (if englishName = [] \<or> trim englishName = [] then Str []
      else
        let name = trim (toLowerCase englishName) in
        if truthy (getProp nameMapping name) then getProp nameMapping name
        else
          case find (\<lambda>(english, marathi). str_includes name english \<or> str_includes english name)
                 (objectEntries nameMapping) of
            Some (english, marathi) \<Rightarrow> Str marathi
          | None \<Rightarrow> Str (basicTransliterate toLowerCase englishName))"

text \<open>
  \<open>convertFullNameToMarathi\<close>: an optional argument left out is \<open>None\<close>.
\<close>

record marathiNames =
  firstNameMarathi :: jsvalue
  middleNameMarathi :: jsvalue
  surnameMarathi :: jsvalue

definition convertFullNameToMarathi ::
    "(jsstring \<Rightarrow> jsstring) \<Rightarrow> jsstring \<Rightarrow> jsstring option \<Rightarrow> jsstring option
     \<Rightarrow> marathiNames" where
  "convertFullNameToMarathi toLowerCase firstName middleName lastName =
     \<lparr>firstNameMarathi = convertToMarathi toLowerCase firstName,
      middleNameMarathi =
        (case middleName of
           Some m \<Rightarrow> if m \<noteq> [] then convertToMarathi toLowerCase m else Str []
         | None \<Rightarrow> Str []),
      surnameMarathi =
        convertToMarathi toLowerCase (case lastName of Some l \<Rightarrow> l | None \<Rightarrow> [])\<rparr>"

section \<open>The admission form's name fields\<close>

text \<open>
  The watched form values: the three Latin name fields (\<open>middleName\<close> may be \<open>null\<close>)
  and the three Marathi fields. The effect that converts the names reads the current
  Marathi fields before it sets any, and \<open>setValue\<close> writes one field.
\<close>

record formValues = marathiNames +
  firstName :: jsstring
  middleName :: "jsstring option"
  surname :: jsstring

definition autoConvertNames :: "(jsstring \<Rightarrow> jsstring) \<Rightarrow> formValues \<Rightarrow> formValues" where
  "autoConvertNames toLowerCase form =
     (if firstName form \<noteq> [] \<or> (middleName form \<noteq> None \<and> middleName form \<noteq> Some [])
         \<or> surname form \<noteq> []
      then
        let names = convertFullNameToMarathi toLowerCase (firstName form)
              (Some (case middleName form of Some m \<Rightarrow> m | None \<Rightarrow> []))
              (Some (surname form));
            currentFirstMarathi = firstNameMarathi form;
            currentMiddleMarathi = middleNameMarathi form;
            currentSurnameMarathi = surnameMarathi form;
            form = (if \<not> truthy currentFirstMarathi \<and> truthy (firstNameMarathi names)
                    then form\<lparr>firstNameMarathi := firstNameMarathi names\<rparr> else form);
            form = (if \<not> truthy currentMiddleMarathi \<and> truthy (middleNameMarathi names)
                    then form\<lparr>middleNameMarathi := middleNameMarathi names\<rparr> else form);
            form = (if \<not> truthy currentSurnameMarathi \<and> truthy (surnameMarathi names)
                    then form\<lparr>surnameMarathi := surnameMarathi names\<rparr> else form)
        in form
      else form)"

section \<open>The improved Marathi input (\<open>components/ui/improved-marathi-input\<close>)\<close>

text \<open>
  One pass of the body of the \<open>while\<close> loop of \<open>transliterateToMarathi\<close>, on the
  variables \<open>i\<close> and \<open>result\<close>, with its local flag \<open>matched\<close>. The bounds are
  compared as the source does, on integers: \<open>text.length - 4\<close> may be negative. The loop
  runs the body only while \<open>i < text.length\<close>, where \<open>text[i]\<close> is the one-unit string
  \<open>[text ! i]\<close>.
\<close>

definition transliterateStep :: "jsstring \<Rightarrow> nat \<times> jsstring \<Rightarrow> nat \<times> jsstring" where
  "transliterateStep text s =
     (let (i, result) = s;
          matched = False;
          (i, result, matched) =
            (if int i \<le> int (length text) - 4 then
               (let fourChar = substring text i (i + 4) in
                if truthy (getProp marathiMap fourChar)
                then (i + 4, result @ toStr (getProp marathiMap fourChar), True)
                else (i, result, matched))
             else (i, result, matched));
          (i, result, matched) =
            (if \<not> matched \<and> int i \<le> int (length text) - 3 then
               (let threeChar = substring text i (i + 3) in
                if truthy (getProp marathiMap threeChar)
                then (i + 3, result @ toStr (getProp marathiMap threeChar), True)
                else (i, result, matched))
             else (i, result, matched));
          (i, result, matched) =
            (if \<not> matched \<and> int i \<le> int (length text) - 2 then
               (let twoChar = substring text i (i + 2) in
                if truthy (getProp marathiMap twoChar)
                then (i + 2, result @ toStr (getProp marathiMap twoChar), True)
                else (i, result, matched))
             else (i, result, matched))
      in if \<not> matched then
           (let char = [text ! i] in
            (i + 1,
             result @ (if truthy (getProp charMap char) then toStr (getProp charMap char)
                       else char)))
         else (i, result))"

lemma transliterateStep_advances: "fst s < fst (transliterateStep text s)"
  by (cases s) (simp add: transliterateStep_def Let_def)

function transliterateLoop :: "jsstring \<Rightarrow> nat \<Rightarrow> jsstring \<Rightarrow> jsstring" where
  "transliterateLoop text i result =
     (if i < length text then
        (case transliterateStep text (i, result) of
           (i', result') \<Rightarrow> transliterateLoop text i' result')
      else result)"
  by pat_completeness auto
termination
proof (relation "measure (\<lambda>(text, i, result). length text - i)")
  fix t :: jsstring and i :: nat and result x :: jsstring and i' :: nat
  assume "i < length t" and "(i', x) = transliterateStep t (i, result)"
  then have "i < i'"
    using transliterateStep_advances [of "(i, result)" t] by (metis fst_conv)
  with \<open>i < length t\<close>
  show "((t, i', x), (t, i, result)) \<in> measure (\<lambda>(text, i, result). length text - i)"
    by simp
qed simp

declare transliterateLoop.simps [simp del]

definition transliterateToMarathi :: "(jsstring \<Rightarrow> jsstring) \<Rightarrow> jsstring \<Rightarrow> jsvalue" where
  "transliterateToMarathi toLowerCase englishText =
     (if englishText = [] \<or> trim englishText = [] then Str []
      else
        let text = trim (toLowerCase englishText) in
        if truthy (getProp marathiMap text) then getProp marathiMap text
        else
          case find (\<lambda>(eng, mar). text = eng) (objectEntries marathiMap) of
            Some (eng, mar) \<Rightarrow> Str mar
          | None \<Rightarrow>
              (let result = transliterateLoop text 0 []
               in if result \<noteq> [] then Str result else Str englishText))"

section \<open>The working Marathi input (\<open>components/ui/working-marathi-input\<close>)\<close>

text \<open>
  This component has a \<open>convertToMarathi\<close> of its own, named here after its file. The
  \<open>switch\<close> of its single-character fallback:
\<close>

definition singleCharacterFallback :: "jsstring \<Rightarrow> jsstring" where
  "singleCharacterFallback char =
     (if char = ascii ''a'' then [0x0905]
      else if char = ascii ''b'' then [0x092C]
      else if char = ascii ''c'' then [0x091A]
      else if char = ascii ''d'' then [0x0926]
      else if char = ascii ''e'' then [0x090F]
      else if char = ascii ''f'' then [0x092B]
      else if char = ascii ''g'' then [0x0917]
      else if char = ascii ''h'' then [0x0939]
      else if char = ascii ''i'' then [0x0907]
      else if char = ascii ''j'' then [0x091C]
      else if char = ascii ''k'' then [0x0915]
      else if char = ascii ''l'' then [0x0932]
      else if char = ascii ''m'' then [0x092E]
      else if char = ascii ''n'' then [0x0928]
      else if char = ascii ''o'' then [0x0913]
      else if char = ascii ''p'' then [0x092A]
      else if char = ascii ''r'' then [0x0930]
      else if char = ascii ''s'' then [0x0938]
      else if char = ascii ''t'' then [0x0924]
      else if char = ascii ''u'' then [0x0909]
      else if char = ascii ''v'' then [0x0935]
      else if char = ascii ''w'' then [0x0935]
      else if char = ascii ''y'' then [0x092F]
      else if char = ascii ''z'' then [0x091D]
      else char)"

definition workingStep :: "jsstring \<Rightarrow> nat \<times> jsstring \<Rightarrow> nat \<times> jsstring" where
  "workingStep text s =
     (let (i, result) = s;
          matched = False;
          (i, result, matched) =
            (if int i \<le> int (length text) - 3 then
               (let threeChar = substring text i (i + 3) in
                if truthy (getProp marathiTranslation threeChar)
                then (i + 3, result @ toStr (getProp marathiTranslation threeChar), True)
                else (i, result, matched))
             else (i, result, matched));
          (i, result, matched) =
            (if \<not> matched \<and> int i \<le> int (length text) - 2 then
               (let twoChar = substring text i (i + 2) in
                if truthy (getProp marathiTranslation twoChar)
                then (i + 2, result @ toStr (getProp marathiTranslation twoChar), True)
                else (i, result, matched))
             else (i, result, matched))
      in if \<not> matched then
           (let char = [text ! i] in (i + 1, result @ singleCharacterFallback char))
         else (i, result))"

lemma workingStep_advances: "fst s < fst (workingStep text s)"
  by (cases s) (simp add: workingStep_def Let_def)

function workingLoop :: "jsstring \<Rightarrow> nat \<Rightarrow> jsstring \<Rightarrow> jsstring" where
  "workingLoop text i result =
     (if i < length text then
        (case workingStep text (i, result) of
           (i', result') \<Rightarrow> workingLoop text i' result')
      else result)"
  by pat_completeness auto
termination
proof (relation "measure (\<lambda>(text, i, result). length text - i)")
  fix t :: jsstring and i :: nat and result x :: jsstring and i' :: nat
  assume "i < length t" and "(i', x) = workingStep t (i, result)"
  then have "i < i'"
    using workingStep_advances [of "(i, result)" t] by (metis fst_conv)
  with \<open>i < length t\<close>
  show "((t, i', x), (t, i, result)) \<in> measure (\<lambda>(text, i, result). length text - i)"
    by simp
qed simp

declare workingLoop.simps [simp del]

definition convertToMarathi_working :: "(jsstring \<Rightarrow> jsstring) \<Rightarrow> jsstring \<Rightarrow> jsvalue" where
  "convertToMarathi_working toLowerCase english =
     (if english = [] \<or> trim english = [] then Str []
      else
        let text = trim (toLowerCase english) in
        if truthy (getProp marathiTranslation text) then getProp marathiTranslation text
        else
          (let result = workingLoop text 0 []
           in if result \<noteq> [] then Str result else Str english))"

section \<open>Calling an engine on a value that is not a string\<close>

text \<open>
  Each of the three engines starts with the guard \<open>if (!x || x.trim() === '') return ''\<close>.
  The definitions above are that guard, and what follows it, for a string \<open>x\<close>. For
  \<open>null\<close> and \<open>undefined\<close> the guard returns the empty string. A member inherited
  from \<open>Object.prototype\<close> is truthy and has no method \<open>trim\<close>: the call \<open>x.trim()\<close>
  throws a TypeError.
\<close>

datatype error = TypeError

definition callWithValue :: "(jsstring \<Rightarrow> jsvalue) \<Rightarrow> jsvalue \<Rightarrow> error + jsvalue" where
  "callWithValue engine x =
     (case x of
        Str s \<Rightarrow> Inr (engine s)
      | Null \<Rightarrow> Inr (Str [])
      | Undefined \<Rightarrow> Inr (Str [])
      | Inherited n \<Rightarrow> Inl TypeError)"

section \<open>Auxiliary definitions\<close>

text \<open>A table entry with a non-empty key of letters a to z and a non-empty Devanagari value.\<close>

definition wellFormedEntry :: "jsstring \<times> jsstring \<Rightarrow> bool" where
  "wellFormedEntry p =
     (fst p \<noteq> [] \<and> list_all isLowerAZ (fst p) \<and> snd p \<noteq> [] \<and> list_all isDevanagari (snd p))"

text \<open>
  A text in which a dictionary and a fallback match nothing at all: no key of the
  dictionary occurs in the text, and the fallback leaves every character as it is.
\<close>

definition noMatchAtAll :: "jsobject \<Rightarrow> (16 word \<Rightarrow> jsstring) \<Rightarrow> jsstring \<Rightarrow> bool" where
  "noMatchAtAll dict fallback t =
     (list_all (\<lambda>p. \<not> str_includes t (fst p)) (objectEntries dict)
      \<and> list_all (\<lambda>c. fallback c = [c]) t)"

text \<open>The letters a to z other than \<open>q\<close> and \<open>x\<close>.\<close>

definition workingLetter :: "16 word \<Rightarrow> bool" where
  "workingLetter c = (isLowerAZ c \<and> c \<noteq> 0x71 \<and> c \<noteq> 0x78)"

section \<open>The scan as section 4.1 of the specification words it\<close>

text \<open>
  These definitions follow the words of the specification, not the source; the loops
  above are compared with them. At the cursor the dictionary is probed with the next
  \<open>n\<close> characters for each length \<open>n\<close> of the list in turn (4, then 3, then 2 in the
  specification); a length for which fewer than \<open>n\<close> characters remain does not match.
  The first length that matches wins: its value is appended and the cursor advances by
  \<open>n\<close>. When none matches, the fallback of the single character is appended and the
  cursor advances by one.
\<close>

fun probeLengths :: "jsobject \<Rightarrow> nat list \<Rightarrow> jsstring \<Rightarrow> (nat \<times> jsstring) option" where
  "probeLengths dict [] s = None"
| "probeLengths dict (n # ns) s =
     (if 0 < n \<and> n \<le> length s then
        (case getOwn dict (take n s) of
           Some v \<Rightarrow> Some (n, v)
         | None \<Rightarrow> probeLengths dict ns s)
      else probeLengths dict ns s)"

lemma probeLengths_bounds:
  "probeLengths dict ns s = Some (n, v) \<Longrightarrow> 0 < n \<and> n \<le> length s"
  by (induction ns) (auto split: if_splits option.splits)

function greedyScan ::
    "jsobject \<Rightarrow> nat list \<Rightarrow> (16 word \<Rightarrow> jsstring) \<Rightarrow> jsstring \<Rightarrow> jsstring" where
  "greedyScan dict lens fallback s =
     (if s = [] then []
      else
        case probeLengths dict lens s of
          Some (n, v) \<Rightarrow> v @ greedyScan dict lens fallback (drop n s)
        | None \<Rightarrow> fallback (hd s) @ greedyScan dict lens fallback (tl s))"
  by pat_completeness auto
termination
proof (relation "measure (\<lambda>(dict, lens, fallback, s). length s)")
  fix dict :: jsobject and lens :: "nat list" and fallback :: "16 word \<Rightarrow> jsstring"
    and s :: jsstring and x :: "nat \<times> jsstring" and n :: nat and v :: jsstring
  assume "s \<noteq> []" and "probeLengths dict lens s = Some x" and "(n, v) = x"
  then have "0 < n \<and> n \<le> length s"
    using probeLengths_bounds [of dict lens s n v] by simp
  with \<open>s \<noteq> []\<close>
  show "((dict, lens, fallback, drop n s), (dict, lens, fallback, s))
          \<in> measure (\<lambda>(dict, lens, fallback, s). length s)"
    by simp
qed (simp_all add: length_greater_0_conv [symmetric] del: length_greater_0_conv)

declare greedyScan.simps [simp del]

text \<open>
  The single-character fallback of each engine, on a code unit: the table \<open>charMap\<close> of
  the improved input (a character without an entry is copied), and the two \<open>switch\<close>
  statements.
\<close>

definition charMapFallback :: "16 word \<Rightarrow> jsstring" where
  "charMapFallback c = (case getOwn charMap [c] of Some v \<Rightarrow> v | None \<Rightarrow> [c])"

definition workingFallback :: "16 word \<Rightarrow> jsstring" where
  "workingFallback c = singleCharacterFallback [c]"

definition basicFallback :: "16 word \<Rightarrow> jsstring" where
  "basicFallback c = singleCharacterMapping [c]"

section \<open>Evaluating the tables\<close>

text \<open>
  Keys are compared as the character strings they are written with: \<open>ascii\<close> is
  injective.
\<close>

lemma unat_of_char: "unat (of_char c :: 16 word) = (of_char c :: nat)"
proof -
  have "(of_char c :: nat) < 256"
    by (cases c) (simp add: of_bool_def)
  then have "(of_char c :: nat) < 65536"
    by linarith
  then have small: "(of_char c :: nat) mod 65536 = of_char c"
    by (rule mod_less)
  have "(of_char c :: 16 word) = of_nat (of_char c)"
    by (simp add: of_nat_of_char)
  then have "unat (of_char c :: 16 word) = unat (of_nat (of_char c) :: 16 word)"
    by simp
  also have "\<dots> = (of_char c :: nat) mod 65536"
    by (simp add: unat_of_nat)
  finally show ?thesis
    using small by simp
qed

lemma inj_of_char_word: "inj (of_char :: char \<Rightarrow> 16 word)"
proof (rule injI)
  fix a b :: char
  assume "(of_char a :: 16 word) = of_char b"
  then have "unat (of_char a :: 16 word) = unat (of_char b :: 16 word)"
    by simp
  then have "(of_char a :: nat) = of_char b"
    by (simp only: unat_of_char)
  then show "a = b"
    by simp
qed

lemma ascii_eq_iff: "ascii a = ascii b \<longleftrightarrow> a = b"
  unfolding ascii_def by (rule inj_map_eq_map [OF inj_of_char_word])

lemma ascii_Nil: "ascii [] = []"
  by (simp add: ascii_def)

lemma ascii_eq_Nil: "ascii a = [] \<longleftrightarrow> a = []"
  by (simp add: ascii_def)

lemma length_ascii: "length (ascii s) = length s"
  by (simp add: ascii_def)

lemma take_ascii: "take n (ascii s) = ascii (take n s)"
  by (simp add: ascii_def take_map)

lemma drop_ascii: "drop n (ascii s) = ascii (drop n s)"
  by (simp add: ascii_def drop_map)

lemma substring_ascii:
  "substring (ascii s) a b = ascii (take (max a b - min a b) (drop (min a b) s))"
  by (simp add: substring_def take_ascii drop_ascii)

lemma single_ascii: "i < length s \<Longrightarrow> [ascii s ! i] = ascii [s ! i]"
  by (simp add: ascii_def)

lemma hd_ascii: "s \<noteq> [] \<Longrightarrow> hd (ascii s) = of_char (hd s)"
  by (simp add: ascii_def hd_map)

lemma tl_ascii: "tl (ascii s) = ascii (tl s)"
  by (simp add: ascii_def map_tl)

lemma ascii_append: "ascii a @ ascii b = ascii (a @ b)"
  by (simp add: ascii_def)

lemma startsWith_map: "inj f \<Longrightarrow> startsWith (map f a) (map f b) = startsWith a b"
  by (induction a b rule: startsWith.induct) (auto dest: injD)

lemma str_includes_map: "inj f \<Longrightarrow> str_includes (map f a) (map f b) = str_includes a b"
proof (induction a)
  case Nil
  then show ?case by simp
next
  case (Cons x xs)
  from Cons.prems have "startsWith (map f (x # xs)) (map f b) = startsWith (x # xs) b"
    by (rule startsWith_map)
  with Cons show ?case by simp
qed

lemma str_includes_ascii: "str_includes (ascii a) (ascii b) = str_includes a b"
  unfolding ascii_def by (rule str_includes_map [OF inj_of_char_word])

text \<open>
  The own property of an object literal is the last definition of the key in the literal.
\<close>

fun lookupLast :: "('k \<times> 'v) list \<Rightarrow> 'k \<Rightarrow> 'v option" where
  "lookupLast [] k = None"
| "lookupLast (p # ps) k =
     (case lookupLast ps k of
        Some v \<Rightarrow> Some v
      | None \<Rightarrow> if fst p = k then Some (snd p) else None)"

lemma lookupLast_snoc:
  "lookupLast (ps @ [p]) k = (if fst p = k then Some (snd p) else lookupLast ps k)"
  by (induction ps) (simp_all split: option.splits)

lemma map_of_defineProperty:
  "map_of (defineProperty obj kv) k = (if fst kv = k then Some (snd kv) else map_of obj k)"
  by (induction obj) auto

lemma objectLiteral_snoc:
  "objectLiteral (ps @ [p]) = defineProperty (objectLiteral ps) p"
  by (simp add: objectLiteral_def)

lemma getOwn_objectLiteral: "getOwn (objectLiteral ps) k = lookupLast ps k"
proof (induction ps rule: rev_induct)
  case Nil
  then show ?case by (simp add: getOwn_def objectLiteral_def)
next
  case (snoc p ps)
  then show ?case
    by (simp add: getOwn_def objectLiteral_snoc map_of_defineProperty lookupLast_snoc)
qed

lemma defineProperty_new:
  "fst kv \<notin> fst ` set obj \<Longrightarrow> defineProperty obj kv = obj @ [kv]"
  by (induction obj) auto

lemma objectLiteral_distinct: "distinct (map fst ps) \<Longrightarrow> objectLiteral ps = ps"
proof (induction ps rule: rev_induct)
  case Nil
  then show ?case by (simp add: objectLiteral_def)
next
  case (snoc p ps)
  then have "objectLiteral ps = ps" and "fst p \<notin> fst ` set ps"
    by auto
  then show ?case
    by (simp add: objectLiteral_snoc defineProperty_new)
qed

lemma set_defineProperty: "set (defineProperty obj kv) \<subseteq> insert kv (set obj)"
  by (induction obj) auto

lemma set_objectLiteral: "set (objectLiteral ps) \<subseteq> set ps"
proof (induction ps rule: rev_induct)
  case Nil
  then show ?case by (simp add: objectLiteral_def)
next
  case (snoc p ps)
  then show ?case
    using set_defineProperty [of "objectLiteral ps" p]
    by (auto simp: objectLiteral_snoc)
qed

lemma list_all_objectLiteral: "list_all P ps \<Longrightarrow> list_all P (objectLiteral ps)"
  using set_objectLiteral [of ps] by (auto simp: list_all_iff)

lemma foldl_defineProperty_first:
  "\<exists>v rest. foldl defineProperty (p # obj) ps = (fst p, v) # rest"
proof (induction ps arbitrary: p obj)
  case Nil
  then show ?case by (cases p) simp
next
  case (Cons q qs)
  show ?case
  proof (cases "fst p = fst q")
    case True
    with Cons [of q obj] show ?thesis by simp
  next
    case False
    with Cons [of p "defineProperty obj q"] show ?thesis by simp
  qed
qed

lemma objectLiteral_first:
  assumes "getOwn (objectLiteral ((k, v0) # ps)) k = Some v"
  shows "\<exists>rest. objectEntries (objectLiteral ((k, v0) # ps)) = (k, v) # rest"
proof -
  obtain v' rest where eq: "objectLiteral ((k, v0) # ps) = (k, v') # rest"
    using foldl_defineProperty_first [of "(k, v0)" "[]" ps]
    by (auto simp: objectLiteral_def)
  with assms have "v' = v"
    by (simp add: getOwn_def)
  with eq show ?thesis
    by (simp add: objectEntries_def)
qed

lemmas table_eval =
  getOwn_objectLiteral lookupLast.simps fst_conv snd_conv ascii_eq_iff list.inject
  char.inject simp_thms if_True if_False option.simps list.distinct

section \<open>Normalisation: lower-casing and \<open>trim\<close>\<close>

lemma upper_plus_32:
  "0x41 \<le> c \<Longrightarrow> c \<le> 0x5A \<Longrightarrow> 0x61 \<le> c + 0x20 \<and> c + 0x20 \<le> (0x7A :: 16 word)"
  apply unat_arith
  apply simp
  done

lemma not_isUpperAZ_asciiLowerUnit: "\<not> isUpperAZ (asciiLowerUnit c)"
  unfolding asciiLowerUnit_def isUpperAZ_def by unat_arith

lemma asciiLowerUnit_idem: "asciiLowerUnit (asciiLowerUnit c) = asciiLowerUnit c"
  using not_isUpperAZ_asciiLowerUnit [of c] by (simp add: asciiLowerUnit_def)

lemma isLowerAZ_not_isWhiteSpace: "isLowerAZ c \<Longrightarrow> \<not> isWhiteSpace c"
  unfolding isLowerAZ_def isWhiteSpace_def by (auto simp: word_le_def)

lemma isUpperAZ_not_isWhiteSpace: "isUpperAZ c \<Longrightarrow> \<not> isWhiteSpace c"
  unfolding isUpperAZ_def isWhiteSpace_def by (auto simp: word_le_def)

lemma isDevanagari_not_isLowerAZ: "isDevanagari c \<Longrightarrow> \<not> isLowerAZ c"
  unfolding isLowerAZ_def isDevanagari_def by (auto simp: word_le_def)

lemma isDevanagari_not_isWhiteSpace: "isDevanagari c \<Longrightarrow> \<not> isWhiteSpace c"
  unfolding isWhiteSpace_def isDevanagari_def by (auto simp: word_le_def)

lemma isLowerAZ_asciiLowerUnit_upper: "isUpperAZ c \<Longrightarrow> isLowerAZ (asciiLowerUnit c)"
  using upper_plus_32 [of c] by (simp add: asciiLowerUnit_def isUpperAZ_def isLowerAZ_def)

lemma isWhiteSpace_asciiLowerUnit: "isWhiteSpace (asciiLowerUnit c) = isWhiteSpace c"
  using isLowerAZ_asciiLowerUnit_upper [of c] isLowerAZ_not_isWhiteSpace [of "asciiLowerUnit c"]
    isUpperAZ_not_isWhiteSpace [of c]
  by (cases "isUpperAZ c") (auto simp: asciiLowerUnit_def)

lemma isLowerAZ_cases:
  "isLowerAZ c \<Longrightarrow>
   c \<in> {0x61, 0x62, 0x63, 0x64, 0x65, 0x66, 0x67, 0x68, 0x69, 0x6A, 0x6B, 0x6C, 0x6D,
        0x6E, 0x6F, 0x70, 0x71, 0x72, 0x73, 0x74, 0x75, 0x76, 0x77, 0x78, 0x79, 0x7A}"
  unfolding isLowerAZ_def
  apply simp
  apply unat_arith
  done

lemma asciiToLowerCase_idem: "asciiToLowerCase (asciiToLowerCase s) = asciiToLowerCase s"
  by (simp add: asciiToLowerCase_def asciiLowerUnit_idem)

lemma trim_Nil: "trim [] = []"
  by (simp add: trim_def)

lemma trim_eq_Nil_iff: "trim s = [] \<longleftrightarrow> list_all isWhiteSpace s"
proof
  assume "trim s = []"
  then have "dropWhile isWhiteSpace (rev (dropWhile isWhiteSpace s)) = []"
    by (simp add: trim_def)
  then have "\<forall>c \<in> set (dropWhile isWhiteSpace s). isWhiteSpace c"
    by (simp add: dropWhile_eq_Nil_conv)
  then have "dropWhile isWhiteSpace s = []"
    by (metis hd_dropWhile hd_in_set)
  then show "list_all isWhiteSpace s"
    by (simp add: dropWhile_eq_Nil_conv list_all_iff)
next
  assume "list_all isWhiteSpace s"
  then have "dropWhile isWhiteSpace s = []"
    by (simp add: dropWhile_eq_Nil_conv list_all_iff)
  then show "trim s = []"
    by (simp only: trim_def rev.simps dropWhile.simps)
qed

lemma trim_fixed:
  assumes "s \<noteq> []" and "\<not> isWhiteSpace (hd s)" and "\<not> isWhiteSpace (last s)"
  shows "trim s = s"
proof -
  from assms have "dropWhile isWhiteSpace s = s"
    by (cases s) simp_all
  moreover from assms have "dropWhile isWhiteSpace (rev s) = rev s"
    by (cases "rev s") (simp_all add: last_rev [symmetric] del: last_rev)
  ultimately show ?thesis
    by (simp add: trim_def)
qed

lemma trim_ends:
  assumes "trim s \<noteq> []"
  shows "\<not> isWhiteSpace (hd (trim s))" and "\<not> isWhiteSpace (last (trim s))"
proof -
  let ?d = "dropWhile isWhiteSpace s"
  let ?e = "dropWhile isWhiteSpace (rev ?d)"
  from assms have e: "?e \<noteq> []"
    by (simp add: trim_def)
  then have d: "?d \<noteq> []"
    by (metis dropWhile.simps(1) rev.simps(1))
  from e have "\<not> isWhiteSpace (hd ?e)"
    by (rule hd_dropWhile)
  then show "\<not> isWhiteSpace (last (trim s))"
    using e by (simp add: trim_def last_rev)
  from d have nd: "\<not> isWhiteSpace (hd ?d)"
    by (rule hd_dropWhile)
  obtain zs where zs: "rev ?d = zs @ ?e"
    by (metis takeWhile_dropWhile_id)
  then have "?d = rev ?e @ rev zs"
    by (metis rev_append rev_rev_ident)
  moreover from e have "rev ?e \<noteq> []"
    by (simp only: rev_is_Nil_conv not_False_eq_True)
  ultimately have "hd ?d = hd (rev ?e)"
    by (metis hd_append2)
  with nd show "\<not> isWhiteSpace (hd (trim s))"
    by (simp add: trim_def)
qed

lemma trim_idem: "trim (trim s) = trim s"
proof (cases "trim s = []")
  case True
  then show ?thesis by (simp add: trim_Nil)
next
  case False
  then show ?thesis
    using trim_ends [of s] by (intro trim_fixed) simp_all
qed

lemma trim_asciiToLowerCase: "trim (asciiToLowerCase s) = asciiToLowerCase (trim s)"
proof -
  have comp: "isWhiteSpace \<circ> asciiLowerUnit = isWhiteSpace"
    by (rule ext) (simp add: isWhiteSpace_asciiLowerUnit)
  have dw: "dropWhile isWhiteSpace (map asciiLowerUnit xs) = map asciiLowerUnit (dropWhile isWhiteSpace xs)"
    for xs
    by (simp add: dropWhile_map comp)
  have "trim (map asciiLowerUnit s)
        = rev (dropWhile isWhiteSpace (map asciiLowerUnit (rev (dropWhile isWhiteSpace s))))"
    by (simp only: trim_def dw rev_map)
  also have "\<dots> = map asciiLowerUnit (trim s)"
    by (simp only: trim_def dw rev_map)
  finally show ?thesis
    by (simp only: asciiToLowerCase_def)
qed

text \<open>
  \<open>asciiToLowerCase\<close> has the properties that the theorems ask of the runtime's
  \<open>toLowerCase\<close>, and the second of the two properties follows from the first.
\<close>

lemma lowerCasing_asciiToLowerCase: "lowerCasing asciiToLowerCase"
  unfolding lowerCasing_def
  by (simp add: trim_asciiToLowerCase asciiToLowerCase_idem) (simp add: asciiToLowerCase_def)

lemma lowerCasing_preservesBlank: "lowerCasing lc \<Longrightarrow> preservesBlank lc"
  unfolding lowerCasing_def preservesBlank_def by metis

lemma preservesBlank_asciiToLowerCase: "preservesBlank asciiToLowerCase"
  using lowerCasing_asciiToLowerCase by (rule lowerCasing_preservesBlank)

lemma trim_toLowerCase_eq_Nil_iff:
  "preservesBlank toLowerCase \<Longrightarrow> trim (toLowerCase s) = [] \<longleftrightarrow> trim s = []"
  by (simp add: preservesBlank_def)

lemma normalize_idem:
  assumes "lowerCasing toLowerCase"
  shows "trim (toLowerCase (trim (toLowerCase s))) = trim (toLowerCase s)"
proof -
  from assms have "trim (toLowerCase (trim (toLowerCase s)))
                   = toLowerCase (toLowerCase (trim (trim s)))"
    by (simp add: lowerCasing_def)
  also from assms have "\<dots> = trim (toLowerCase s)"
    by (simp add: lowerCasing_def trim_idem)
  finally show ?thesis .
qed

lemma filter_isLowerAZ_dropWhile:
  "filter isLowerAZ (dropWhile isWhiteSpace s) = filter isLowerAZ s"
  by (induction s) (auto dest: isLowerAZ_not_isWhiteSpace)

lemma filter_isLowerAZ_trim: "filter isLowerAZ (trim s) = filter isLowerAZ s"
proof -
  have "filter isLowerAZ (trim s)
        = rev (filter isLowerAZ (dropWhile isWhiteSpace (rev (dropWhile isWhiteSpace s))))"
    by (simp add: trim_def rev_filter)
  also have "\<dots> = rev (filter isLowerAZ (rev (dropWhile isWhiteSpace s)))"
    by (simp only: filter_isLowerAZ_dropWhile)
  also have "\<dots> = filter isLowerAZ (dropWhile isWhiteSpace s)"
    by (simp add: rev_filter [symmetric])
  finally show ?thesis
    by (simp add: filter_isLowerAZ_dropWhile)
qed

section \<open>Facts about the tables\<close>

text \<open>
  Every entry of every table has a non-empty key of letters a to z and a non-empty
  Devanagari value.
\<close>

lemma nameMapping_wellFormed: "list_all wellFormedEntry nameMapping"
  unfolding nameMapping_def by (rule list_all_objectLiteral) code_simp

lemma charMapping_wellFormed: "list_all wellFormedEntry charMapping"
  unfolding charMapping_def by (rule list_all_objectLiteral) code_simp

lemma marathiMap_wellFormed: "list_all wellFormedEntry marathiMap"
  unfolding marathiMap_def by (rule list_all_objectLiteral) code_simp

lemma charMap_wellFormed: "list_all wellFormedEntry charMap"
  unfolding charMap_def by (rule list_all_objectLiteral) code_simp

lemma marathiTranslation_wellFormed: "list_all wellFormedEntry marathiTranslation"
  unfolding marathiTranslation_def by (rule list_all_objectLiteral) code_simp

lemma wellFormed_getOwn:
  assumes "list_all wellFormedEntry obj" and "getOwn obj k = Some v"
  shows "k \<noteq> []" and "list_all isLowerAZ k" and "v \<noteq> []" and "list_all isDevanagari v"
proof -
  from assms(2) have "(k, v) \<in> set obj"
    by (simp add: getOwn_def map_of_SomeD)
  with assms(1) have "wellFormedEntry (k, v)"
    by (simp add: list_all_iff)
  then show "k \<noteq> []" and "list_all isLowerAZ k" and "v \<noteq> []" and "list_all isDevanagari v"
    by (simp_all add: wellFormedEntry_def)
qed

lemma getOwn_entry:
  "(k, v) \<in> set obj \<Longrightarrow> \<exists>v'. getOwn obj k = Some v'"
  by (metis getOwn_def map_of_eq_None_iff not_None_eq fst_conv image_eqI)

lemma objectPrototypeNames_long: "n \<in> set objectPrototypeNames \<Longrightarrow> 4 < length n"
  by (auto simp: objectPrototypeNames_def length_ascii)

lemma getProp_own: "getOwn obj k = Some v \<Longrightarrow> getProp obj k = Str v"
  by (simp add: getProp_def)

lemma getProp_none:
  "getOwn obj k = None \<Longrightarrow> k \<notin> set objectPrototypeNames \<Longrightarrow> getProp obj k = Undefined"
  by (simp add: getProp_def)

lemma getProp_inherited:
  "getOwn obj k = None \<Longrightarrow> k \<in> set objectPrototypeNames \<Longrightarrow> getProp obj k = Inherited k"
  by (simp add: getProp_def)

lemma getProp_short:
  "length k \<le> 4 \<Longrightarrow> getProp obj k = (case getOwn obj k of Some v \<Rightarrow> Str v | None \<Rightarrow> Undefined)"
  using objectPrototypeNames_long [of k] by (auto simp: getProp_def split: option.splits)

text \<open>
  No name inherited from \<open>Object.prototype\<close> contains a key of \<open>nameMapping\<close> or is
  contained in one.
\<close>

lemma objectPrototypeNames_unrelated:
  assumes "n \<in> set objectPrototypeNames" and "p \<in> set (objectEntries nameMapping)"
  shows "\<not> (str_includes n (fst p) \<or> str_includes (fst p) n)"
proof -
  have "list_all (\<lambda>p. list_all (\<lambda>n. \<not> (str_includes n (fst p) \<or> str_includes (fst p) n))
          objectPrototypeNames) nameMapping"
    unfolding nameMapping_def objectPrototypeNames_def
    by (rule list_all_objectLiteral)
      (simp only: list.pred_inject fst_conv str_includes_ascii str_includes.simps
        startsWith.simps list.inject list.distinct char.inject simp_thms)
  with assms show ?thesis
    by (simp add: list_all_iff objectEntries_def)
qed

section \<open>The engines lower-case their input only\<close>

text \<open>
  An engine applies \<open>toLowerCase\<close> to its input and to nothing else: two lower-casings
  that agree on the input give the same result. On an input of ASCII characters the
  runtime's \<open>toLowerCase\<close> is \<open>asciiToLowerCase\<close>, so what an engine returns for such an
  input with \<open>asciiToLowerCase\<close> is what it returns in the runtime.
\<close>

lemma engines_cong:
  assumes "toLowerCase S = toLowerCase' S"
  shows "basicTransliterate toLowerCase S = basicTransliterate toLowerCase' S"
    and "convertToMarathi toLowerCase S = convertToMarathi toLowerCase' S"
    and "transliterateToMarathi toLowerCase S = transliterateToMarathi toLowerCase' S"
    and "convertToMarathi_working toLowerCase S = convertToMarathi_working toLowerCase' S"
proof -
  show basic: "basicTransliterate toLowerCase S = basicTransliterate toLowerCase' S"
    unfolding basicTransliterate_def assms by (rule refl)
  show "convertToMarathi toLowerCase S = convertToMarathi toLowerCase' S"
    unfolding convertToMarathi_def assms basic by (rule refl)
  show "transliterateToMarathi toLowerCase S = transliterateToMarathi toLowerCase' S"
    unfolding transliterateToMarathi_def assms by (rule refl)
  show "convertToMarathi_working toLowerCase S = convertToMarathi_working toLowerCase' S"
    unfolding convertToMarathi_working_def assms by (rule refl)
qed

section \<open>Blank input and exact matches\<close>

lemma trim_nonempty: "trim s \<noteq> [] \<Longrightarrow> s \<noteq> []"
  by (auto simp: trim_Nil)

lemma convertToMarathi_blank: "trim S = [] \<Longrightarrow> convertToMarathi toLowerCase S = Str []"
  by (simp add: convertToMarathi_def)

lemma transliterateToMarathi_blank: "trim S = [] \<Longrightarrow> transliterateToMarathi toLowerCase S = Str []"
  by (simp add: transliterateToMarathi_def)

lemma convertToMarathi_working_blank: "trim S = [] \<Longrightarrow> convertToMarathi_working toLowerCase S = Str []"
  by (simp add: convertToMarathi_working_def)

lemma exact_key_not_blank:
  assumes "list_all wellFormedEntry obj" and "getOwn obj (trim (toLowerCase S)) = Some V"
    and "preservesBlank toLowerCase"
  shows "S \<noteq> []" and "trim S \<noteq> []" and "truthy (getProp obj (trim (toLowerCase S)))"
    and "getProp obj (trim (toLowerCase S)) = Str V"
proof -
  from assms have "trim (toLowerCase S) \<noteq> []" and "V \<noteq> []"
    by (auto dest: wellFormed_getOwn)
  with assms(3) show "trim S \<noteq> []"
    by (simp add: trim_toLowerCase_eq_Nil_iff)
  then show "S \<noteq> []"
    by (rule trim_nonempty)
  from assms(2) show "getProp obj (trim (toLowerCase S)) = Str V"
    by (rule getProp_own)
  with \<open>V \<noteq> []\<close> show "truthy (getProp obj (trim (toLowerCase S)))"
    by simp
qed

lemma convertToMarathi_exact:
  "preservesBlank toLowerCase \<Longrightarrow> getOwn nameMapping (trim (toLowerCase S)) = Some V \<Longrightarrow>
   convertToMarathi toLowerCase S = Str V"
  using exact_key_not_blank [OF nameMapping_wellFormed, of toLowerCase S V]
  by (simp add: convertToMarathi_def)

lemma transliterateToMarathi_exact:
  "preservesBlank toLowerCase \<Longrightarrow> getOwn marathiMap (trim (toLowerCase S)) = Some V \<Longrightarrow>
   transliterateToMarathi toLowerCase S = Str V"
  using exact_key_not_blank [OF marathiMap_wellFormed, of toLowerCase S V]
  by (simp add: transliterateToMarathi_def)

lemma convertToMarathi_working_exact:
  "preservesBlank toLowerCase \<Longrightarrow> getOwn marathiTranslation (trim (toLowerCase S)) = Some V \<Longrightarrow>
   convertToMarathi_working toLowerCase S = Str V"
  using exact_key_not_blank [OF marathiTranslation_wellFormed, of toLowerCase S V]
  by (simp add: convertToMarathi_working_def)

section \<open>C1: an exact whole-word match wins\<close>

text \<open>
  C1. Whenever the trimmed, lower-cased input is a key \<open>K\<close> of an engine's dictionary
  with value \<open>V\<close>, the engine returns \<open>V\<close>, whatever syllables the input contains. This
  holds for the name converter (\<open>nameMapping\<close>), the improved input (\<open>marathiMap\<close>) and
  the working input (\<open>marathiTranslation\<close>). The input is any string of UTF-16 code
  units and \<open>toLowerCase\<close> is the runtime's, of which the proof uses only that it keeps
  a string that is not blank from becoming blank.
\<close>

theorem exact_whole_word_precedence:
  assumes "preservesBlank toLowerCase" and "trim (toLowerCase S) = K"
  shows "(getOwn nameMapping K = Some V \<longrightarrow> convertToMarathi toLowerCase S = Str V)
       \<and> (getOwn marathiMap K = Some V \<longrightarrow> transliterateToMarathi toLowerCase S = Str V)
       \<and> (getOwn marathiTranslation K = Some V \<longrightarrow> convertToMarathi_working toLowerCase S = Str V)"
  using assms convertToMarathi_exact [of toLowerCase S V]
    transliterateToMarathi_exact [of toLowerCase S V]
    convertToMarathi_working_exact [of toLowerCase S V]
  by blast

theorem exact_whole_word_precedence_witness:
  "preservesBlank asciiToLowerCase
   \<and> trim (asciiToLowerCase (ascii '' Ram '')) = ascii ''ram''
   \<and> getOwn nameMapping (ascii ''ram'') = Some [0x0930, 0x093E, 0x092E]
   \<and> getOwn marathiMap (ascii ''ram'') = Some [0x0930, 0x093E, 0x092E]
   \<and> getOwn marathiTranslation (ascii ''ram'') = Some [0x0930, 0x093E, 0x092E]
   \<and> convertToMarathi asciiToLowerCase (ascii '' Ram '') = Str [0x0930, 0x093E, 0x092E]
   \<and> transliterateToMarathi asciiToLowerCase (ascii '' Ram '') = Str [0x0930, 0x093E, 0x092E]
   \<and> convertToMarathi_working asciiToLowerCase (ascii '' Ram '') = Str [0x0930, 0x093E, 0x092E]"
proof -
  have norm: "trim (asciiToLowerCase (ascii '' Ram '')) = ascii ''ram''"
    by (simp add: ascii_def trim_def asciiToLowerCase_def asciiLowerUnit_def isUpperAZ_def
        isWhiteSpace_def)
  have k1: "getOwn nameMapping (ascii ''ram'') = Some [0x0930, 0x093E, 0x092E]"
    by (simp only: nameMapping_def table_eval)
  have k2: "getOwn marathiMap (ascii ''ram'') = Some [0x0930, 0x093E, 0x092E]"
    by (simp only: marathiMap_def table_eval)
  have k3: "getOwn marathiTranslation (ascii ''ram'') = Some [0x0930, 0x093E, 0x092E]"
    by (simp only: marathiTranslation_def table_eval)
  from exact_whole_word_precedence [OF preservesBlank_asciiToLowerCase norm,
      of "[0x0930, 0x093E, 0x092E]"] preservesBlank_asciiToLowerCase norm k1 k2 k3
  show ?thesis
    by blast
qed

section \<open>C3: the name fields are merged without overwriting\<close>

text \<open>
  C3. The effect that converts the names leaves every Marathi field that holds a non-empty
  value as it is, and a field that it changes was empty (or \<open>null\<close>) before and now holds
  the derived value. The Latin fields are never changed. This holds whatever the
  runtime's \<open>toLowerCase\<close> does.
\<close>

theorem non_destructive_merge:
  "(truthy (firstNameMarathi form) \<longrightarrow>
      firstNameMarathi (autoConvertNames toLowerCase form) = firstNameMarathi form)
   \<and> (truthy (middleNameMarathi form) \<longrightarrow>
      middleNameMarathi (autoConvertNames toLowerCase form) = middleNameMarathi form)
   \<and> (truthy (surnameMarathi form) \<longrightarrow>
      surnameMarathi (autoConvertNames toLowerCase form) = surnameMarathi form)
   \<and> (firstNameMarathi (autoConvertNames toLowerCase form) \<noteq> firstNameMarathi form \<longrightarrow>
      \<not> truthy (firstNameMarathi form)
      \<and> firstNameMarathi (autoConvertNames toLowerCase form)
          = convertToMarathi toLowerCase (firstName form))
   \<and> (middleNameMarathi (autoConvertNames toLowerCase form) \<noteq> middleNameMarathi form \<longrightarrow>
      \<not> truthy (middleNameMarathi form)
      \<and> (\<exists>m. middleName form = Some m
            \<and> middleNameMarathi (autoConvertNames toLowerCase form)
                = convertToMarathi toLowerCase m))
   \<and> (surnameMarathi (autoConvertNames toLowerCase form) \<noteq> surnameMarathi form \<longrightarrow>
      \<not> truthy (surnameMarathi form)
      \<and> surnameMarathi (autoConvertNames toLowerCase form)
          = convertToMarathi toLowerCase (surname form))
   \<and> firstName (autoConvertNames toLowerCase form) = firstName form
   \<and> middleName (autoConvertNames toLowerCase form) = middleName form
   \<and> surname (autoConvertNames toLowerCase form) = surname form"
  by (auto simp: autoConvertNames_def convertFullNameToMarathi_def Let_def
      split: option.splits if_splits)

theorem non_destructive_merge_witness:
  "truthy (surnameMarathi
      \<lparr>firstNameMarathi = Str [], middleNameMarathi = Null,
       surnameMarathi = Str (ascii ''previously-set''),
       firstName = ascii ''ram'', middleName = None, surname = ascii ''sharma''\<rparr>)
   \<and> autoConvertNames asciiToLowerCase
      \<lparr>firstNameMarathi = Str [], middleNameMarathi = Null,
       surnameMarathi = Str (ascii ''previously-set''),
       firstName = ascii ''ram'', middleName = None, surname = ascii ''sharma''\<rparr>
     = \<lparr>firstNameMarathi = Str [0x0930, 0x093E, 0x092E], middleNameMarathi = Null,
        surnameMarathi = Str (ascii ''previously-set''),
        firstName = ascii ''ram'', middleName = None, surname = ascii ''sharma''\<rparr>"
proof -
  let ?form = "\<lparr>firstNameMarathi = Str [], middleNameMarathi = Null,
       surnameMarathi = Str (ascii ''previously-set''),
       firstName = ascii ''ram'', middleName = None, surname = ascii ''sharma''\<rparr>"
  have norm: "trim (asciiToLowerCase (ascii ''ram'')) = ascii ''ram''"
    by (simp add: ascii_def trim_def asciiToLowerCase_def asciiLowerUnit_def isUpperAZ_def
        isWhiteSpace_def)
  have "getOwn nameMapping (ascii ''ram'') = Some [0x0930, 0x093E, 0x092E]"
    by (simp only: nameMapping_def table_eval)
  then have first: "convertToMarathi asciiToLowerCase (ascii ''ram'')
      = Str [0x0930, 0x093E, 0x092E]"
    by (intro convertToMarathi_exact preservesBlank_asciiToLowerCase) (simp only: norm)
  have set: "truthy (surnameMarathi ?form)"
    by (simp add: ascii_eq_Nil)
  have changed: "firstNameMarathi (autoConvertNames asciiToLowerCase ?form) \<noteq> firstNameMarathi ?form"
    using first set
    by (simp add: autoConvertNames_def convertFullNameToMarathi_def Let_def ascii_eq_Nil)
  have middle: "middleNameMarathi (autoConvertNames asciiToLowerCase ?form) = Null"
    using set
    by (simp add: autoConvertNames_def convertFullNameToMarathi_def Let_def ascii_eq_Nil)
  from non_destructive_merge [of ?form asciiToLowerCase] set changed first middle
  have "firstNameMarathi (autoConvertNames asciiToLowerCase ?form) = Str [0x0930, 0x093E, 0x092E]"
    and "middleNameMarathi (autoConvertNames asciiToLowerCase ?form) = Null"
    and "surnameMarathi (autoConvertNames asciiToLowerCase ?form) = Str (ascii ''previously-set'')"
    and "firstName (autoConvertNames asciiToLowerCase ?form) = ascii ''ram''"
    and "middleName (autoConvertNames asciiToLowerCase ?form) = None"
    and "surname (autoConvertNames asciiToLowerCase ?form) = ascii ''sharma''"
    by simp_all
  then have "autoConvertNames asciiToLowerCase ?form
     = \<lparr>firstNameMarathi = Str [0x0930, 0x093E, 0x092E], middleNameMarathi = Null,
        surnameMarathi = Str (ascii ''previously-set''),
        firstName = ascii ''ram'', middleName = None, surname = ascii ''sharma''\<rparr>"
    by (cases "autoConvertNames asciiToLowerCase ?form") simp
  with set show ?thesis
    by blast
qed

section \<open>C10: the containment rule of the name converter\<close>

text \<open>
  C10. For a non-empty normalised input that is not a key of \<open>nameMapping\<close> but contains
  a key, or is contained in one, \<open>convertToMarathi\<close> returns the value of the first such
  entry in insertion order as the result for the whole input; \<open>basicTransliterate\<close> is
  not consulted. The input is any string of UTF-16 code units and \<open>toLowerCase\<close> is the
  runtime's, of which the proof uses only that it keeps a string that is not blank from
  becoming blank.
\<close>

theorem containment_rule:
  assumes "preservesBlank toLowerCase"
    and "name = trim (toLowerCase S)" and "name \<noteq> []"
    and "getOwn nameMapping name = None"
    and "\<exists>p \<in> set (objectEntries nameMapping).
           str_includes name (fst p) \<or> str_includes (fst p) name"
  shows "\<exists>K V. find (\<lambda>(english, marathi). str_includes name english \<or> str_includes english name)
                 (objectEntries nameMapping) = Some (K, V)
               \<and> convertToMarathi toLowerCase S = Str V"
proof -
  let ?P = "\<lambda>(english, marathi). str_includes name english \<or> str_includes english name"
  from assms(5) have "\<exists>p \<in> set (objectEntries nameMapping). ?P p"
    by (auto simp: case_prod_beta)
  then have "find ?P (objectEntries nameMapping) \<noteq> None"
    unfolding find_None_iff by blast
  then obtain K V where found: "find ?P (objectEntries nameMapping) = Some (K, V)"
    by (cases "find ?P (objectEntries nameMapping)") auto
  from assms(5) have "name \<notin> set objectPrototypeNames"
    using objectPrototypeNames_unrelated [of name] by blast
  with assms(4) have "getProp nameMapping name = Undefined"
    by (rule getProp_none)
  moreover from assms(1,2,3) have "trim S \<noteq> []" and "S \<noteq> []"
    by (auto simp: trim_toLowerCase_eq_Nil_iff trim_Nil)
  ultimately have "convertToMarathi toLowerCase S = Str V"
    using found assms(2) by (simp add: convertToMarathi_def)
  with found show ?thesis
    by blast
qed

theorem containment_rule_witness:
  "preservesBlank asciiToLowerCase
   \<and> ascii ''ra'' = trim (asciiToLowerCase (ascii ''ra'')) \<and> ascii ''ra'' \<noteq> []
   \<and> getOwn nameMapping (ascii ''ra'') = None
   \<and> (ascii ''ram'', [0x0930, 0x093E, 0x092E]) \<in> set (objectEntries nameMapping)
   \<and> str_includes (ascii ''ram'') (ascii ''ra'')
   \<and> convertToMarathi asciiToLowerCase (ascii ''ra'') = Str [0x0930, 0x093E, 0x092E]"
proof -
  let ?P = "\<lambda>(english, marathi).
      str_includes (ascii ''ra'') english \<or> str_includes english (ascii ''ra'')"
  have norm: "ascii ''ra'' = trim (asciiToLowerCase (ascii ''ra''))"
    by (simp add: ascii_def trim_def asciiToLowerCase_def asciiLowerUnit_def isUpperAZ_def
        isWhiteSpace_def)
  have ne: "ascii ''ra'' \<noteq> []"
    by (simp add: ascii_def)
  have none: "getOwn nameMapping (ascii ''ra'') = None"
    by (simp only: nameMapping_def table_eval)
  have "getOwn nameMapping (ascii ''ram'') = Some [0x0930, 0x093E, 0x092E]"
    by (simp only: nameMapping_def table_eval)
  then have entry: "(ascii ''ram'', [0x0930, 0x093E, 0x092E]) \<in> set (objectEntries nameMapping)"
    by (simp add: getOwn_def objectEntries_def map_of_SomeD)
  have inc: "str_includes (ascii ''ram'') (ascii ''ra'')"
    by (simp add: str_includes_ascii)
  have ex: "\<exists>p \<in> set (objectEntries nameMapping).
      str_includes (ascii ''ra'') (fst p) \<or> str_includes (fst p) (ascii ''ra'')"
    using entry inc by force
  have "\<exists>rest. objectEntries nameMapping = (ascii ''ram'', [0x0930, 0x093E, 0x092E]) # rest"
    unfolding nameMapping_def by (rule objectLiteral_first) (simp only: table_eval)
  then have first:
    "find ?P (objectEntries nameMapping) = Some (ascii ''ram'', [0x0930, 0x093E, 0x092E])"
    using inc by auto
  from containment_rule [OF preservesBlank_asciiToLowerCase norm ne none ex] first
  have "convertToMarathi asciiToLowerCase (ascii ''ra'') = Str [0x0930, 0x093E, 0x092E]"
    by simp
  with preservesBlank_asciiToLowerCase norm ne none entry inc show ?thesis
    by blast
qed

section \<open>Names inherited from \<open>Object.prototype\<close>\<close>

text \<open>
  The tables are plain object literals, and the engines read them with \<open>table[key]\<close>.
  For the input \<open>constructor\<close> no table has an own property, and the lookup finds the
  member \<open>constructor\<close> of \<open>Object.prototype\<close>: a function, which is truthy and is
  returned as the result. The input is lower-case already: \<open>toLowerCase\<close> returns it
  as it is.
\<close>

lemma trim_constructor: "trim (ascii ''constructor'') = ascii ''constructor''"
  by (simp add: ascii_def trim_def isWhiteSpace_def)

lemma asciiToLowerCase_constructor:
  "asciiToLowerCase (ascii ''constructor'') = ascii ''constructor''"
  by (simp add: ascii_def asciiToLowerCase_def asciiLowerUnit_def isUpperAZ_def)

lemma constructor_inherited: "ascii ''constructor'' \<in> set objectPrototypeNames"
  by (simp add: objectPrototypeNames_def)

lemma convertToMarathi_constructor:
  assumes "toLowerCase (ascii ''constructor'') = ascii ''constructor''"
  shows "convertToMarathi toLowerCase (ascii ''constructor'') = Inherited (ascii ''constructor'')"
proof -
  have "getOwn nameMapping (ascii ''constructor'') = None"
    by (simp only: nameMapping_def table_eval)
  then have "getProp nameMapping (ascii ''constructor'') = Inherited (ascii ''constructor'')"
    using constructor_inherited by (rule getProp_inherited)
  then show ?thesis
    by (simp add: convertToMarathi_def assms trim_constructor ascii_eq_Nil)
qed

lemma transliterateToMarathi_constructor:
  assumes "toLowerCase (ascii ''constructor'') = ascii ''constructor''"
  shows "transliterateToMarathi toLowerCase (ascii ''constructor'')
      = Inherited (ascii ''constructor'')"
proof -
  have "getOwn marathiMap (ascii ''constructor'') = None"
    by (simp only: marathiMap_def table_eval)
  then have "getProp marathiMap (ascii ''constructor'') = Inherited (ascii ''constructor'')"
    using constructor_inherited by (rule getProp_inherited)
  then show ?thesis
    by (simp add: transliterateToMarathi_def assms trim_constructor ascii_eq_Nil)
qed

lemma convertToMarathi_working_constructor:
  assumes "toLowerCase (ascii ''constructor'') = ascii ''constructor''"
  shows "convertToMarathi_working toLowerCase (ascii ''constructor'')
      = Inherited (ascii ''constructor'')"
proof -
  have "getOwn marathiTranslation (ascii ''constructor'') = None"
    by (simp only: marathiTranslation_def table_eval)
  then have "getProp marathiTranslation (ascii ''constructor'')
             = Inherited (ascii ''constructor'')"
    using constructor_inherited by (rule getProp_inherited)
  then show ?thesis
    by (simp add: convertToMarathi_working_def assms trim_constructor ascii_eq_Nil)
qed

section \<open>C5: the single-character fallback\<close>

lemma asciiToLowerCase_q_x:
  "asciiToLowerCase (ascii ''q'') = ascii ''q''" "asciiToLowerCase (ascii ''x'') = ascii ''x''"
  by (simp_all add: ascii_def asciiToLowerCase_def asciiLowerUnit_def isUpperAZ_def)

text \<open>
  C5. The fallback of the working input has no case for \<open>q\<close> and none for \<open>x\<close>: both
  letters fall to the \<open>default\<close> branch and are copied as Latin letters, where the
  fallback of the name converter and the table \<open>charMap\<close> of the improved input map them
  to Devanagari. The two inputs are lower-case already: \<open>toLowerCase\<close> returns them as
  they are.
\<close>

theorem working_fallback_misses_q_and_x:
  assumes "toLowerCase (ascii ''q'') = ascii ''q''" and "toLowerCase (ascii ''x'') = ascii ''x''"
  shows "convertToMarathi_working toLowerCase (ascii ''q'') = Str (ascii ''q'')
   \<and> convertToMarathi_working toLowerCase (ascii ''x'') = Str (ascii ''x'')
   \<and> singleCharacterFallback (ascii ''q'') = ascii ''q''
   \<and> singleCharacterFallback (ascii ''x'') = ascii ''x''
   \<and> singleCharacterMapping (ascii ''q'') = [0x0915]
   \<and> singleCharacterMapping (ascii ''x'') = [0x0915, 0x094D, 0x0938]
   \<and> getOwn charMap (ascii ''q'') = Some [0x0915]
   \<and> getOwn charMap (ascii ''x'') = Some [0x0915, 0x094D, 0x0938]"
proof -
  have "trim (ascii ''q'') = ascii ''q''" "trim (ascii ''x'') = ascii ''x''"
    by (simp_all add: ascii_def trim_def isWhiteSpace_def)
  with assms
  have norm: "trim (toLowerCase (ascii ''q'')) = ascii ''q''" "trim (ascii ''q'') = ascii ''q''"
    "trim (toLowerCase (ascii ''x'')) = ascii ''x''" "trim (ascii ''x'') = ascii ''x''"
    by simp_all
  have own: "getOwn marathiTranslation (ascii ''q'') = None"
    "getOwn marathiTranslation (ascii ''x'') = None"
    by (simp_all only: marathiTranslation_def table_eval)
  have fallback: "singleCharacterFallback (ascii ''q'') = ascii ''q''"
    "singleCharacterFallback (ascii ''x'') = ascii ''x''"
    by (simp_all add: singleCharacterFallback_def ascii_eq_iff)
  have "convertToMarathi_working toLowerCase (ascii ''q'') = Str (ascii ''q'')"
    by (simp add: convertToMarathi_working_def workingLoop.simps workingStep_def norm own
        fallback length_ascii single_ascii ascii_eq_Nil getProp_short)
  moreover have "convertToMarathi_working toLowerCase (ascii ''x'') = Str (ascii ''x'')"
    by (simp add: convertToMarathi_working_def workingLoop.simps workingStep_def norm own
        fallback length_ascii single_ascii ascii_eq_Nil getProp_short)
  moreover have "singleCharacterMapping (ascii ''q'') = [0x0915]"
    "singleCharacterMapping (ascii ''x'') = [0x0915, 0x094D, 0x0938]"
    by (simp_all add: singleCharacterMapping_def ascii_eq_iff)
  moreover have "getOwn charMap (ascii ''q'') = Some [0x0915]"
    "getOwn charMap (ascii ''x'') = Some [0x0915, 0x094D, 0x0938]"
    by (simp_all only: charMap_def table_eval)
  ultimately show ?thesis
    using fallback by simp
qed

theorem working_fallback_misses_q_and_x_witness:
  "asciiToLowerCase (ascii ''q'') = ascii ''q'' \<and> asciiToLowerCase (ascii ''x'') = ascii ''x''
   \<and> convertToMarathi_working asciiToLowerCase (ascii ''q'') = Str (ascii ''q'')
   \<and> convertToMarathi_working asciiToLowerCase (ascii ''x'') = Str (ascii ''x'')
   \<and> singleCharacterFallback (ascii ''q'') = ascii ''q''
   \<and> singleCharacterFallback (ascii ''x'') = ascii ''x''
   \<and> singleCharacterMapping (ascii ''q'') = [0x0915]
   \<and> singleCharacterMapping (ascii ''x'') = [0x0915, 0x094D, 0x0938]
   \<and> getOwn charMap (ascii ''q'') = Some [0x0915]
   \<and> getOwn charMap (ascii ''x'') = Some [0x0915, 0x094D, 0x0938]"
  using working_fallback_misses_q_and_x [where toLowerCase = asciiToLowerCase,
      OF asciiToLowerCase_q_x] asciiToLowerCase_q_x
  by blast
section \<open>The loops refine the scan\<close>

lemma probe_getProp:
  assumes "list_all wellFormedEntry obj" and "length k \<le> 4"
  shows "truthy (getProp obj k) \<longleftrightarrow> getOwn obj k \<noteq> None"
    and "getOwn obj k = Some v \<Longrightarrow> toStr (getProp obj k) = v"
  using assms wellFormed_getOwn(3) [OF assms(1), of k]
  by (auto simp: getProp_short split: option.splits)

lemma substring_take_drop:
  "substring s i (i + 4) = take 4 (drop i s)"
  "substring s i (i + 3) = take 3 (drop i s)"
  "substring s i (i + 2) = take 2 (drop i s)"
  "substring s i (Suc (Suc i)) = take 2 (drop i s)"
  by (simp_all add: substring_def)

lemma int_bound:
  "i < length (text :: jsstring) \<Longrightarrow> int i \<le> int (length text) - 4 \<longleftrightarrow> 4 \<le> length text - i"
  "i < length text \<Longrightarrow> int i \<le> int (length text) - 3 \<longleftrightarrow> 3 \<le> length text - i"
  "i < length text \<Longrightarrow> int i \<le> int (length text) - 2 \<longleftrightarrow> 2 \<le> length text - i"
  "i < length text \<Longrightarrow> int i < int (length text) - 1 \<longleftrightarrow> 2 \<le> length text - i"
  by auto

lemma charMap_fallback_step:
  "(if truthy (getProp charMap [c]) then toStr (getProp charMap [c]) else [c])
   = charMapFallback c"
  using probe_getProp [OF charMap_wellFormed, of "[c]"]
  by (cases "getOwn charMap [c]") (simp_all add: charMapFallback_def)

lemma transliterateStep_probe:
  assumes "i < length text"
  shows "transliterateStep text (i, result) =
     (case probeLengths marathiMap [4, 3, 2] (drop i text) of
        Some (n, v) \<Rightarrow> (i + n, result @ v)
      | None \<Rightarrow> (i + 1, result @ charMapFallback (text ! i)))"
proof -
  let ?own = "\<lambda>n. getOwn marathiMap (take n (drop i text))"
  let ?hit = "\<lambda>n. n \<le> length text - i \<and> ?own n \<noteq> None"
  note p = probe_getProp [OF marathiMap_wellFormed]
  note defs = transliterateStep_def substring_take_drop int_bound [OF assms] Let_def
    charMap_fallback_step
  consider (four) "?hit 4" | (three) "\<not> ?hit 4" "?hit 3" | (two) "\<not> ?hit 4" "\<not> ?hit 3" "?hit 2"
    | (none) "\<not> ?hit 4" "\<not> ?hit 3" "\<not> ?hit 2"
    by blast
  then show ?thesis
  proof cases
    case four
    then obtain v where v: "?own 4 = Some v" by auto
    with four have "truthy (getProp marathiMap (take 4 (drop i text)))"
      and "toStr (getProp marathiMap (take 4 (drop i text))) = v"
      by (simp_all add: p)
    with four v show ?thesis
      by (simp add: defs)
  next
    case three
    then obtain v where v: "?own 3 = Some v" by auto
    with three have "truthy (getProp marathiMap (take 3 (drop i text)))"
      and "toStr (getProp marathiMap (take 3 (drop i text))) = v"
      by (simp_all add: p)
    moreover from three(1)
    have "4 \<le> length text - i \<Longrightarrow> \<not> truthy (getProp marathiMap (take 4 (drop i text)))"
      by (simp add: p)
    ultimately show ?thesis
      using three v by (cases "4 \<le> length text - i") (simp_all add: defs)
  next
    case two
    then obtain v where v: "?own 2 = Some v" by auto
    with two have "truthy (getProp marathiMap (take 2 (drop i text)))"
      and "toStr (getProp marathiMap (take 2 (drop i text))) = v"
      by (simp_all add: p)
    moreover from two(1)
    have "4 \<le> length text - i \<Longrightarrow> \<not> truthy (getProp marathiMap (take 4 (drop i text)))"
      by (simp add: p)
    moreover from two(2)
    have "3 \<le> length text - i \<Longrightarrow> \<not> truthy (getProp marathiMap (take 3 (drop i text)))"
      by (simp add: p)
    ultimately show ?thesis
      using two v
      by (cases "4 \<le> length text - i"; cases "3 \<le> length text - i") (simp_all add: defs)
  next
    case none
    then have "4 \<le> length text - i \<Longrightarrow> \<not> truthy (getProp marathiMap (take 4 (drop i text)))"
      and "3 \<le> length text - i \<Longrightarrow> \<not> truthy (getProp marathiMap (take 3 (drop i text)))"
      and "2 \<le> length text - i \<Longrightarrow> \<not> truthy (getProp marathiMap (take 2 (drop i text)))"
      by (simp_all add: p)
    then show ?thesis
      using none
      by (cases "4 \<le> length text - i"; cases "3 \<le> length text - i";
          cases "2 \<le> length text - i")
        (simp_all add: defs)
  qed
qed

lemma greedyScan_Nil: "greedyScan dict lens fallback [] = []"
  by (simp add: greedyScan.simps)

lemma greedyScan_hit:
  "probeLengths dict lens s = Some (n, v) \<Longrightarrow>
   greedyScan dict lens fallback s = v @ greedyScan dict lens fallback (drop n s)"
  using probeLengths_bounds [of dict lens s n v]
  by (subst greedyScan.simps) auto

lemma greedyScan_miss:
  "s \<noteq> [] \<Longrightarrow> probeLengths dict lens s = None \<Longrightarrow>
   greedyScan dict lens fallback s = fallback (hd s) @ greedyScan dict lens fallback (tl s)"
  by (subst greedyScan.simps) simp

lemma greedyScan_drop_hit:
  assumes "probeLengths dict lens (drop i s) = Some (n, v)"
  shows "greedyScan dict lens fallback (drop i s)
         = v @ greedyScan dict lens fallback (drop (i + n) s)"
  using greedyScan_hit [OF assms, of fallback] by (simp add: add.commute)

lemma probeLengths_drop_bound:
  assumes "probeLengths dict lens (drop i s) = Some (n, v)"
  shows "i + n \<le> length s"
  using probeLengths_bounds [OF assms] by (cases "i \<le> length s") auto

lemma greedyScan_drop_miss:
  assumes "i < length s" and "probeLengths dict lens (drop i s) = None"
  shows "greedyScan dict lens fallback (drop i s)
         = fallback (s ! i) @ greedyScan dict lens fallback (drop (i + 1) s)"
  using assms greedyScan_miss [of "drop i s" dict lens fallback]
  by (simp add: hd_drop_conv_nth tl_drop drop_Suc)

lemma transliterateLoop_scan:
  "i \<le> length t \<Longrightarrow>
   transliterateLoop t i result
   = result @ greedyScan marathiMap [4, 3, 2] charMapFallback (drop i t)"
proof (induction t i result rule: transliterateLoop.induct)
  case (1 t i result)
  show ?case
  proof (cases "i < length t")
    case False
    with "1.prems" show ?thesis
      by (subst transliterateLoop.simps) (simp add: greedyScan_Nil)
  next
    case True
    show ?thesis
    proof (cases "probeLengths marathiMap [4, 3, 2] (drop i t)")
      case None
      with True have step: "transliterateStep t (i, result)
                            = (i + 1, result @ charMapFallback (t ! i))"
        by (simp add: transliterateStep_probe)
      from True have "i + 1 \<le> length t"
        by simp
      with "1.IH" [OF True step [symmetric]] step True None show ?thesis
        by (subst transliterateLoop.simps) (simp add: greedyScan_drop_miss)
    next
      case (Some hit)
      obtain n v where hit: "hit = (n, v)"
        by (cases hit)
      with Some True have step: "transliterateStep t (i, result) = (i + n, result @ v)"
        by (simp add: transliterateStep_probe)
      from Some hit have "probeLengths marathiMap [4, 3, 2] (drop i t) = Some (n, v)"
        by (simp only:)
      note scan = greedyScan_drop_hit [OF this, of charMapFallback]
        probeLengths_drop_bound [OF this]
      with "1.IH" [OF True step [symmetric]] step True show ?thesis
        by (subst transliterateLoop.simps) simp
    qed
  qed
qed

lemma workingStep_probe:
  assumes "i < length text"
  shows "workingStep text (i, result) =
     (case probeLengths marathiTranslation [3, 2] (drop i text) of
        Some (n, v) \<Rightarrow> (i + n, result @ v)
      | None \<Rightarrow> (i + 1, result @ workingFallback (text ! i)))"
proof -
  let ?own = "\<lambda>n. getOwn marathiTranslation (take n (drop i text))"
  let ?hit = "\<lambda>n. n \<le> length text - i \<and> ?own n \<noteq> None"
  note p = probe_getProp [OF marathiTranslation_wellFormed]
  note defs = workingStep_def substring_take_drop int_bound [OF assms] Let_def
    workingFallback_def
  consider (three) "?hit 3" | (two) "\<not> ?hit 3" "?hit 2" | (none) "\<not> ?hit 3" "\<not> ?hit 2"
    by blast
  then show ?thesis
  proof cases
    case three
    then obtain v where v: "?own 3 = Some v" by auto
    with three have "truthy (getProp marathiTranslation (take 3 (drop i text)))"
      and "toStr (getProp marathiTranslation (take 3 (drop i text))) = v"
      by (simp_all add: p)
    with three v show ?thesis
      by (simp add: defs)
  next
    case two
    then obtain v where v: "?own 2 = Some v" by auto
    with two have "truthy (getProp marathiTranslation (take 2 (drop i text)))"
      and "toStr (getProp marathiTranslation (take 2 (drop i text))) = v"
      by (simp_all add: p)
    moreover from two(1)
    have "3 \<le> length text - i \<Longrightarrow>
          \<not> truthy (getProp marathiTranslation (take 3 (drop i text)))"
      by (simp add: p)
    ultimately show ?thesis
      using two v by (cases "3 \<le> length text - i") (simp_all add: defs)
  next
    case none
    then have "3 \<le> length text - i \<Longrightarrow>
          \<not> truthy (getProp marathiTranslation (take 3 (drop i text)))"
      and "2 \<le> length text - i \<Longrightarrow>
          \<not> truthy (getProp marathiTranslation (take 2 (drop i text)))"
      by (simp_all add: p)
    then show ?thesis
      using none
      by (cases "3 \<le> length text - i"; cases "2 \<le> length text - i") (simp_all add: defs)
  qed
qed

lemma workingLoop_scan:
  "i \<le> length t \<Longrightarrow>
   workingLoop t i result
   = result @ greedyScan marathiTranslation [3, 2] workingFallback (drop i t)"
proof (induction t i result rule: workingLoop.induct)
  case (1 t i result)
  show ?case
  proof (cases "i < length t")
    case False
    with "1.prems" show ?thesis
      by (subst workingLoop.simps) (simp add: greedyScan_Nil)
  next
    case True
    show ?thesis
    proof (cases "probeLengths marathiTranslation [3, 2] (drop i t)")
      case None
      with True have step: "workingStep t (i, result)
                            = (i + 1, result @ workingFallback (t ! i))"
        by (simp add: workingStep_probe)
      from True have "i + 1 \<le> length t"
        by simp
      with "1.IH" [OF True step [symmetric]] step True None show ?thesis
        by (subst workingLoop.simps) (simp add: greedyScan_drop_miss)
    next
      case (Some hit)
      obtain n v where hit: "hit = (n, v)"
        by (cases hit)
      with Some True have step: "workingStep t (i, result) = (i + n, result @ v)"
        by (simp add: workingStep_probe)
      from Some hit have "probeLengths marathiTranslation [3, 2] (drop i t) = Some (n, v)"
        by (simp only:)
      note scan = greedyScan_drop_hit [OF this, of workingFallback]
        probeLengths_drop_bound [OF this]
      with "1.IH" [OF True step [symmetric]] step True show ?thesis
        by (subst workingLoop.simps) simp
    qed
  qed
qed

lemma basicLoop_scan:
  "i \<le> length c \<Longrightarrow>
   basicLoop c i result = result @ greedyScan charMapping [2] basicFallback (drop i c)"
proof (induction c i result rule: basicLoop.induct)
  case (1 c i result)
  note p = probe_getProp [OF charMapping_wellFormed]
  show ?case
  proof (cases "i < length c")
    case False
    with "1.prems" show ?thesis
      by (subst basicLoop.simps) (simp add: greedyScan_Nil)
  next
    case True
    let ?two = "take 2 (drop i c)"
    show ?thesis
    proof (cases "2 \<le> length c - i \<and> getOwn charMapping ?two \<noteq> None")
      case hit: True
      then obtain v where v: "getOwn charMapping ?two = Some v"
        by auto
      with hit have t: "truthy (getProp charMapping ?two)" "toStr (getProp charMapping ?two) = v"
        by (simp_all add: p)
      from hit v have probe: "probeLengths charMapping [2] (drop i c) = Some (2, v)"
        by simp
      have cond: "int i < int (length c) - 1 \<and> truthy (getProp charMapping (substring c i (i + 2)))"
        using hit t True by (simp add: substring_take_drop int_bound)
      from hit have "i + 1 + 1 \<le> length c"
        by auto
      from "1.IH"(1) [OF True refl refl cond this]
      have "basicLoop c (i + 1 + 1) (result @ toStr (getProp charMapping (substring c i (i + 2))))
            = (result @ v) @ greedyScan charMapping [2] basicFallback (drop (i + 2) c)"
        using t by (simp add: substring_take_drop)
      with cond True show ?thesis
        by (subst basicLoop.simps)
          (auto simp add: Let_def greedyScan_drop_hit [OF probe] simp del: One_nat_def)
    next
      case miss: False
      then have probe: "probeLengths charMapping [2] (drop i c) = None"
        by auto
      have cond: "\<not> (int i < int (length c) - 1
                    \<and> truthy (getProp charMapping (substring c i (i + 2))))"
        using miss True by (auto simp: substring_take_drop int_bound p)
      from True have "i + 1 \<le> length c"
        by simp
      from "1.IH"(2) [OF True refl refl cond this]
      have "basicLoop c (i + 1) (result @ singleCharacterMapping [c ! i])
            = (result @ basicFallback (c ! i))
              @ greedyScan charMapping [2] basicFallback (drop (i + 1) c)"
        by (simp add: basicFallback_def [of "c ! i"])
      with cond True show ?thesis
        by (subst basicLoop.simps)
          (auto simp add: Let_def greedyScan_drop_miss [OF True probe] simp del: One_nat_def)
    qed
  qed
qed

section \<open>The single-character fallbacks\<close>

lemma isLowerAZ_alphabet:
  "isLowerAZ c \<Longrightarrow> \<exists>ch \<in> set ''abcdefghijklmnopqrstuvwxyz''. [c] = ascii [ch]"
  by (drule isLowerAZ_cases) (auto simp: ascii_def)

lemma isLowerAZ_ascii_letter:
  "ch \<in> set ''abcdefghijklmnopqrstuvwxyz'' \<Longrightarrow> isLowerAZ (of_char ch)"
  by (auto simp: isLowerAZ_def)

lemma charMap_total:
  "list_all (\<lambda>ch. getOwn charMap (ascii [ch]) \<noteq> None) ''abcdefghijklmnopqrstuvwxyz''"
  by (simp only: list.pred_inject charMap_def table_eval)

lemma charMapFallback_letter:
  assumes "isLowerAZ c"
  shows "charMapFallback c \<noteq> []" and "list_all isDevanagari (charMapFallback c)"
proof -
  from assms obtain ch where "ch \<in> set ''abcdefghijklmnopqrstuvwxyz''" and "[c] = ascii [ch]"
    using isLowerAZ_alphabet by blast
  with charMap_total obtain v where v: "getOwn charMap [c] = Some v"
    by (auto simp: list_all_iff)
  then have "charMapFallback c = v"
    by (simp add: charMapFallback_def)
  with wellFormed_getOwn [OF charMap_wellFormed v]
  show "charMapFallback c \<noteq> []" and "list_all isDevanagari (charMapFallback c)"
    by simp_all
qed

lemma charMapFallback_other: "\<not> isLowerAZ c \<Longrightarrow> charMapFallback c = [c]"
  using wellFormed_getOwn(2) [OF charMap_wellFormed, of "[c]"]
  by (cases "getOwn charMap [c]") (simp_all add: charMapFallback_def)

lemma charMapFallback_nonempty: "charMapFallback c \<noteq> []"
  using charMapFallback_letter(1) [of c] charMapFallback_other [of c] by (cases "isLowerAZ c") auto

lemma basicFallback_letter:
  assumes "isLowerAZ c"
  shows "basicFallback c \<noteq> []" and "list_all isDevanagari (basicFallback c)"
  using isLowerAZ_cases [OF assms]
  by (auto simp: basicFallback_def singleCharacterMapping_def ascii_def isDevanagari_def)

lemma basicFallback_nonempty: "basicFallback c \<noteq> []"
  by (simp add: basicFallback_def singleCharacterMapping_def)

text \<open>
  The fallback of the working input changes every letter a to z but \<open>q\<close> and \<open>x\<close>, and
  nothing else.
\<close>

lemma workingFallback_letter:
  assumes "workingLetter c"
  shows "workingFallback c \<noteq> []" and "list_all isDevanagari (workingFallback c)"
  using assms isLowerAZ_cases [of c]
  by (auto simp: workingLetter_def workingFallback_def singleCharacterFallback_def ascii_def
      isDevanagari_def)

lemma workingFallback_other: "\<not> workingLetter c \<Longrightarrow> workingFallback c = [c]"
proof (rule ccontr)
  assume no: "\<not> workingLetter c" and changed: "workingFallback c \<noteq> [c]"
  from changed have "isLowerAZ c \<and> c \<noteq> 0x71 \<and> c \<noteq> 0x78"
    by (auto simp: workingFallback_def singleCharacterFallback_def ascii_def isLowerAZ_def
        split: if_splits)
  with no show False
    by (simp add: workingLetter_def)
qed

lemma workingFallback_nonempty: "workingFallback c \<noteq> []"
  by (simp add: workingFallback_def singleCharacterFallback_def)

section \<open>Properties of the scan\<close>

lemma greedyScan_cases:
  assumes "s \<noteq> []"
  obtains (hit) n v where "probeLengths dict lens s = Some (n, v)" and "0 < n" and "n \<le> length s"
      and "greedyScan dict lens fallback s = v @ greedyScan dict lens fallback (drop n s)"
    | (miss) "probeLengths dict lens s = None"
      and "greedyScan dict lens fallback s
           = fallback (hd s) @ greedyScan dict lens fallback (tl s)"
proof (cases "probeLengths dict lens s")
  case None
  with assms show ?thesis
    by (intro miss) (simp_all add: greedyScan_miss)
next
  case (Some hit')
  obtain n v where "hit' = (n, v)"
    by (cases hit')
  with Some have p: "probeLengths dict lens s = Some (n, v)"
    by (simp only:)
  with probeLengths_bounds [OF p] greedyScan_hit [OF p] show ?thesis
    by (intro hit) auto
qed

lemma probeLengths_key:
  "probeLengths dict lens s = Some (n, v) \<Longrightarrow> getOwn dict (take n s) = Some v"
  by (induction lens) (auto split: if_splits option.splits)

lemma probeLengths_Nil: "probeLengths dict lens [] = None"
  by (induction lens) auto

lemma probeLengths_None_iff:
  "probeLengths dict lens s = None
   \<longleftrightarrow> (\<forall>n \<in> set lens. 0 < n \<and> n \<le> length s \<longrightarrow> getOwn dict (take n s) = None)"
  by (induction lens) (auto split: option.splits)

lemma greedyScan_nonempty:
  assumes "list_all wellFormedEntry dict" and "\<And>c. fallback c \<noteq> []" and "s \<noteq> []"
  shows "greedyScan dict lens fallback s \<noteq> []"
  using assms(3)
proof (cases rule: greedyScan_cases [of s dict lens fallback])
  case (hit n v)
  from probeLengths_key [OF hit(1)] have "v \<noteq> []"
    by (rule wellFormed_getOwn(3) [OF assms(1)])
  with hit show ?thesis
    by simp
next
  case miss
  with assms(2) show ?thesis
    by simp
qed

text \<open>
  Where no character of the text can occur in a key, and the fallback leaves each of them
  as it is, the scan copies the text.
\<close>

lemma greedyScan_copies:
  assumes keys: "\<And>k v. getOwn dict k = Some v \<Longrightarrow> k \<noteq> [] \<and> list_all L k"
    and fallback: "\<And>c. \<not> L c \<Longrightarrow> fallback c = [c]"
    and "list_all (\<lambda>c. \<not> L c) s"
  shows "greedyScan dict lens fallback s = s"
  using assms(3)
proof (induction s)
  case Nil
  show ?case by (rule greedyScan_Nil)
next
  case (Cons c s)
  have "probeLengths dict lens (c # s) = None"
    unfolding probeLengths_None_iff
  proof (intro ballI impI)
    fix n assume "n \<in> set lens" and n: "0 < n \<and> n \<le> length (c # s)"
    show "getOwn dict (take n (c # s)) = None"
    proof (rule ccontr)
      assume "getOwn dict (take n (c # s)) \<noteq> None"
      then obtain v where "getOwn dict (take n (c # s)) = Some v"
        by auto
      from keys [OF this] n have "L c"
        by (cases n) simp_all
      with Cons.prems show False
        by simp
    qed
  qed
  with Cons fallback [of c] show ?case
    by (simp add: greedyScan_miss)
qed

text \<open>
  A character that cannot occur in a key and that the fallback leaves as it is splits the
  scan: what stands before it and what stands after it are scanned apart.
\<close>

lemma probeLengths_before:
  assumes keys: "\<And>k v. getOwn dict k = Some v \<Longrightarrow> list_all L k" and c: "\<not> L c"
  shows "probeLengths dict lens (pre @ c # post) = probeLengths dict lens pre"
proof (induction lens)
  case Nil
  show ?case by simp
next
  case (Cons n lens)
  show ?case
  proof (cases "n \<le> length pre")
    case True
    with Cons show ?thesis
      by (simp split: option.splits)
  next
    case False
    have "getOwn dict (take n (pre @ c # post)) = None"
    proof (rule ccontr)
      assume "getOwn dict (take n (pre @ c # post)) \<noteq> None"
      then obtain v where "getOwn dict (take n (pre @ c # post)) = Some v"
        by auto
      from keys [OF this] False have "L c"
        by (cases "n - length pre") simp_all
      with c show False
        by simp
    qed
    with False Cons show ?thesis
      by simp
  qed
qed

lemma greedyScan_split:
  assumes keys: "\<And>k v. getOwn dict k = Some v \<Longrightarrow> list_all L k"
    and c: "\<not> L c" and fallback: "fallback c = [c]"
  shows "greedyScan dict lens fallback (pre @ c # post)
         = greedyScan dict lens fallback pre @ c # greedyScan dict lens fallback post"
proof (induction pre rule: length_induct)
  case (1 pre)
  note probe = probeLengths_before [where dict = dict and L = L and c = c, OF keys c]
  show ?case
  proof (cases "pre = []")
    case True
    from probe [where pre = "[]" and post = post]
    have "probeLengths dict lens (c # post) = None"
      by (simp add: probeLengths_Nil)
    with True fallback show ?thesis
      by (simp add: greedyScan_miss greedyScan_Nil)
  next
    case False
    then show ?thesis
    proof (cases rule: greedyScan_cases [of pre dict lens fallback])
      case (hit n v)
      with probe [where pre = pre and post = post]
      have "greedyScan dict lens fallback (pre @ c # post)
            = v @ greedyScan dict lens fallback (drop n pre @ c # post)"
        by (simp add: greedyScan_hit)
      moreover from hit False have "length (drop n pre) < length pre"
        by simp
      ultimately show ?thesis
        using "1.IH" hit(4) by simp
    next
      case miss
      with probe [where pre = pre and post = post] False
      have "greedyScan dict lens fallback (pre @ c # post)
            = fallback (hd pre) @ greedyScan dict lens fallback (tl pre @ c # post)"
        by (simp add: greedyScan_miss)
      moreover from False have "length (tl pre) < length pre"
        by simp
      ultimately show ?thesis
        using "1.IH" miss(2) by simp
    qed
  qed
qed

text \<open>What the scan puts out comes from a value of the dictionary or from the fallback.\<close>

lemma greedyScan_pieces:
  assumes vals: "\<And>k v. getOwn dict k = Some v \<Longrightarrow> list_all P v"
    and fallback: "\<And>c. c \<in> set s \<Longrightarrow> list_all P (fallback c)"
  shows "list_all P (greedyScan dict lens fallback s)"
  using fallback
proof (induction s rule: length_induct)
  case (1 s)
  show ?case
  proof (cases "s = []")
    case True
    then show ?thesis
      by (simp add: greedyScan_Nil)
  next
    case False
    then show ?thesis
    proof (cases rule: greedyScan_cases [of s dict lens fallback])
      case (hit n v)
      from hit False have "length (drop n s) < length s"
        by simp
      moreover have "\<And>c. c \<in> set (drop n s) \<Longrightarrow> list_all P (fallback c)"
        using "1.prems" by (meson in_set_dropD)
      ultimately have "list_all P (greedyScan dict lens fallback (drop n s))"
        using "1.IH" by blast
      with vals [OF probeLengths_key [OF hit(1)]] hit(4) show ?thesis
        by simp
    next
      case miss
      from False have "length (tl s) < length s"
        by simp
      moreover have "\<And>c. c \<in> set (tl s) \<Longrightarrow> list_all P (fallback c)"
        using "1.prems" False by (meson list.set_sel(2))
      ultimately have "list_all P (greedyScan dict lens fallback (tl s))"
        using "1.IH" by blast
      with "1.prems" [of "hd s"] False miss(2) show ?thesis
        by simp
    qed
  qed
qed

section \<open>The engines in terms of the scan\<close>

lemma find_key_None:
  assumes "getOwn obj k = None"
  shows "find (\<lambda>(eng, mar). k = eng) (objectEntries obj) = None"
proof -
  have "\<And>eng mar. (eng, mar) \<in> set obj \<Longrightarrow> k \<noteq> eng"
    using assms getOwn_entry [of _ _ obj] by force
  then show ?thesis
    by (auto simp: find_None_iff objectEntries_def)
qed

lemma transliterateToMarathi_cases:
  assumes "trim S \<noteq> []" and "getOwn marathiMap (trim (toLowerCase S)) = None"
    and "preservesBlank toLowerCase"
  shows "transliterateToMarathi toLowerCase S =
     (if trim (toLowerCase S) \<in> set objectPrototypeNames
      then Inherited (trim (toLowerCase S))
      else Str (greedyScan marathiMap [4, 3, 2] charMapFallback (trim (toLowerCase S))))"
proof -
  let ?text = "trim (toLowerCase S)"
  from assms(1,3) have ne: "?text \<noteq> []" "S \<noteq> []"
    by (auto simp: trim_toLowerCase_eq_Nil_iff trim_Nil)
  have loop: "transliterateLoop ?text 0 []
              = greedyScan marathiMap [4, 3, 2] charMapFallback ?text"
    by (simp add: transliterateLoop_scan)
  have "greedyScan marathiMap [4, 3, 2] charMapFallback ?text \<noteq> []"
    using marathiMap_wellFormed charMapFallback_nonempty ne(1) by (rule greedyScan_nonempty)
  with assms ne loop find_key_None [OF assms(2)] show ?thesis
    by (simp add: transliterateToMarathi_def getProp_def Let_def)
qed

lemma convertToMarathi_working_cases:
  assumes "trim S \<noteq> []" and "getOwn marathiTranslation (trim (toLowerCase S)) = None"
    and "preservesBlank toLowerCase"
  shows "convertToMarathi_working toLowerCase S =
     (if trim (toLowerCase S) \<in> set objectPrototypeNames
      then Inherited (trim (toLowerCase S))
      else Str (greedyScan marathiTranslation [3, 2] workingFallback (trim (toLowerCase S))))"
proof -
  let ?text = "trim (toLowerCase S)"
  from assms(1,3) have ne: "?text \<noteq> []" "S \<noteq> []"
    by (auto simp: trim_toLowerCase_eq_Nil_iff trim_Nil)
  have loop: "workingLoop ?text 0 []
              = greedyScan marathiTranslation [3, 2] workingFallback ?text"
    by (simp add: workingLoop_scan)
  have "greedyScan marathiTranslation [3, 2] workingFallback ?text \<noteq> []"
    using marathiTranslation_wellFormed workingFallback_nonempty ne(1)
    by (rule greedyScan_nonempty)
  with assms ne loop show ?thesis
    by (simp add: convertToMarathi_working_def getProp_def Let_def)
qed

lemma basicTransliterate_scan:
  "basicTransliterate toLowerCase S =
     (if filter isLowerAZ (toLowerCase S) = [] then S
      else greedyScan charMapping [2] basicFallback (filter isLowerAZ (toLowerCase S)))"
proof -
  let ?clean = "filter isLowerAZ (toLowerCase S)"
  have loop: "basicLoop ?clean 0 [] = greedyScan charMapping [2] basicFallback ?clean"
    by (simp add: basicLoop_scan)
  show ?thesis
  proof (cases "?clean = []")
    case True
    with loop show ?thesis
      by (simp add: basicTransliterate_def Let_def greedyScan_Nil)
  next
    case False
    with charMapping_wellFormed basicFallback_nonempty
    have "greedyScan charMapping [2] basicFallback ?clean \<noteq> []"
      by (rule greedyScan_nonempty)
    with False loop show ?thesis
      by (simp add: basicTransliterate_def Let_def)
  qed
qed

lemma convertToMarathi_cases:
  assumes "trim S \<noteq> []" and "getOwn nameMapping (trim (toLowerCase S)) = None"
  shows "convertToMarathi toLowerCase S =
     (if trim (toLowerCase S) \<in> set objectPrototypeNames
      then Inherited (trim (toLowerCase S))
      else
        case find (\<lambda>(english, marathi). str_includes (trim (toLowerCase S)) english
                     \<or> str_includes english (trim (toLowerCase S)))
               (objectEntries nameMapping) of
          Some (english, marathi) \<Rightarrow> Str marathi
        | None \<Rightarrow> Str (basicTransliterate toLowerCase S))"
proof -
  from assms(1) have "S \<noteq> []"
    by (auto simp: trim_Nil)
  with assms show ?thesis
    by (simp add: convertToMarathi_def getProp_def Let_def)
qed

section \<open>Evaluating the scan on an ASCII text\<close>

lemma charMapFallback_ascii:
  "s \<noteq> [] \<Longrightarrow> charMapFallback (hd (ascii s))
     = (case getOwn charMap (ascii [hd s]) of Some v \<Rightarrow> v | None \<Rightarrow> ascii [hd s])"
  by (cases s) (simp_all add: charMapFallback_def ascii_def split: option.splits)

lemma workingFallback_ascii:
  "s \<noteq> [] \<Longrightarrow> workingFallback (hd (ascii s)) = singleCharacterFallback (ascii [hd s])"
  by (cases s) (simp_all add: workingFallback_def ascii_def)

lemma basicFallback_ascii:
  "s \<noteq> [] \<Longrightarrow> basicFallback (hd (ascii s)) = singleCharacterMapping (ascii [hd s])"
  by (cases s) (simp_all add: basicFallback_def ascii_def)

lemmas scan_eval =
  probeLengths.simps length_ascii take_ascii drop_ascii tl_ascii ascii_eq_Nil ascii_eq_iff
  charMapFallback_ascii workingFallback_ascii basicFallback_ascii
  singleCharacterFallback_def singleCharacterMapping_def greedyScan_Nil ascii_Nil

section \<open>Texts without a letter that an engine can match\<close>

lemma startsWith_set: "startsWith s t \<Longrightarrow> set t \<subseteq> set s"
  by (induction s t rule: startsWith.induct) auto

lemma str_includes_set: "str_includes s t \<Longrightarrow> set t \<subseteq> set s"
proof (induction s)
  case Nil
  then show ?case by simp
next
  case (Cons a s)
  from Cons.prems have "startsWith (a # s) t \<or> str_includes s t"
    by simp
  then show ?case
  proof
    assume "startsWith (a # s) t"
    then show ?thesis by (rule startsWith_set)
  next
    assume "str_includes s t"
    with Cons.IH show ?thesis by auto
  qed
qed

lemma str_includes_refl: "str_includes s s"
proof -
  have "startsWith s s"
    by (induction s) simp_all
  then show ?thesis
    by (cases s) simp_all
qed

lemma set_trim: "set (trim s) \<subseteq> set s"
proof -
  have "set (trim s) \<subseteq> set (dropWhile isWhiteSpace s)"
    unfolding trim_def by (metis set_dropWhileD set_rev subsetI)
  also have "\<dots> \<subseteq> set s"
    by (auto dest: set_dropWhileD)
  finally show ?thesis .
qed

lemma objectPrototypeNames_letter:
  "n \<in> set objectPrototypeNames \<Longrightarrow> 0x6F \<in> set n \<or> 0x65 \<in> set n"
  by (auto simp: objectPrototypeNames_def ascii_def)

lemma isLowerAZ_o_e: "isLowerAZ 0x6F" "isLowerAZ 0x65" "workingLetter 0x6F" "workingLetter 0x65"
  by (simp_all add: isLowerAZ_def workingLetter_def)

lemma marathiTranslation_workingLetters:
  "list_all (\<lambda>p. list_all workingLetter (fst p)) marathiTranslation"
  unfolding marathiTranslation_def by (rule list_all_objectLiteral) code_simp

lemma unmatchable_not_inherited:
  assumes "list_all (\<lambda>c. \<not> L c) t" and "L 0x6F" and "L 0x65"
  shows "t \<notin> set objectPrototypeNames"
  using assms objectPrototypeNames_letter [of t] by (auto simp: list_all_iff)

lemma unmatchable_not_key:
  assumes "\<And>k v. getOwn dict k = Some v \<Longrightarrow> k \<noteq> [] \<and> list_all L k"
    and "list_all (\<lambda>c. \<not> L c) t"
  shows "getOwn dict t = None"
proof (rule ccontr)
  assume "getOwn dict t \<noteq> None"
  then obtain v where "getOwn dict t = Some v"
    by auto
  from assms(1) [OF this] assms(2) show False
    by (cases t) simp_all
qed

lemma wellFormed_keys:
  assumes "list_all wellFormedEntry dict" and "getOwn dict k = Some v"
  shows "k \<noteq> [] \<and> list_all isLowerAZ k"
  using wellFormed_getOwn(1,2) [OF assms] by simp

lemma marathiTranslation_keys:
  assumes "getOwn marathiTranslation k = Some v"
  shows "k \<noteq> [] \<and> list_all workingLetter k"
proof -
  from assms have "(k, v) \<in> set marathiTranslation"
    by (simp add: getOwn_def map_of_SomeD)
  with marathiTranslation_workingLetters have "list_all workingLetter k"
    by (auto simp: list_all_iff)
  with wellFormed_getOwn(1) [OF marathiTranslation_wellFormed assms] show ?thesis
    by simp
qed

lemma no_letter_unrelated:
  assumes "name \<noteq> []" and "list_all (\<lambda>c. \<not> isLowerAZ c) name"
  shows "find (\<lambda>(english, marathi). str_includes name english \<or> str_includes english name)
           (objectEntries nameMapping) = None"
proof -
  have "\<not> (str_includes name english \<or> str_includes english name)"
    if "(english, marathi) \<in> set nameMapping" for english marathi
  proof -
    from that nameMapping_wellFormed have "wellFormedEntry (english, marathi)"
      by (simp add: list_all_iff)
    then have e: "english \<noteq> []" "list_all isLowerAZ english"
      by (simp_all add: wellFormedEntry_def)
    show ?thesis
    proof
      assume "str_includes name english \<or> str_includes english name"
      then have "set english \<subseteq> set name \<or> set name \<subseteq> set english"
        by (auto dest: str_includes_set)
      with e assms show False
        by (cases english; cases name) (auto simp: list_all_iff)
    qed
  qed
  then show ?thesis
    by (auto simp: find_None_iff objectEntries_def)
qed

lemma letters_not_blank:
  assumes "filter isLowerAZ (toLowerCase S) \<noteq> []" and "preservesBlank toLowerCase"
  shows "trim S \<noteq> []"
proof -
  from assms(1) have "filter isLowerAZ (trim (toLowerCase S)) \<noteq> []"
    by (simp add: filter_isLowerAZ_trim)
  then have "trim (toLowerCase S) \<noteq> []"
    by auto
  with assms(2) show ?thesis
    by (simp add: trim_toLowerCase_eq_Nil_iff)
qed

lemma no_letter_normalized:
  assumes "filter isLowerAZ (toLowerCase S) = []"
  shows "list_all (\<lambda>c. \<not> isLowerAZ c) (trim (toLowerCase S))"
proof -
  from assms have "list_all (\<lambda>c. \<not> isLowerAZ c) (toLowerCase S)"
    by (simp add: filter_empty_conv list_all_iff)
  with set_trim [of "toLowerCase S"] show ?thesis
    by (auto simp: list_all_iff)
qed

lemma normalized_no_letter:
  assumes "list_all (\<lambda>c. \<not> isLowerAZ c) (trim (toLowerCase S))"
  shows "filter isLowerAZ (toLowerCase S) = []"
proof -
  from assms have "filter isLowerAZ (trim (toLowerCase S)) = []"
    by (simp add: filter_empty_conv list_all_iff)
  then show ?thesis
    by (simp add: filter_isLowerAZ_trim)
qed

text \<open>The name converter on an input without a letter: the input comes back whole.\<close>

lemma convertToMarathi_no_letter:
  assumes "trim S \<noteq> []" and "filter isLowerAZ (toLowerCase S) = []"
    and "preservesBlank toLowerCase"
  shows "convertToMarathi toLowerCase S = Str S"
proof -
  let ?name = "trim (toLowerCase S)"
  from assms(1,3) have ne: "?name \<noteq> []"
    by (simp add: trim_toLowerCase_eq_Nil_iff)
  note none = no_letter_normalized [where toLowerCase = toLowerCase, OF assms(2)]
  have "getOwn nameMapping ?name = None"
    using wellFormed_keys [OF nameMapping_wellFormed] none by (rule unmatchable_not_key)
  moreover have "?name \<notin> set objectPrototypeNames"
    using none isLowerAZ_o_e(1,2) by (rule unmatchable_not_inherited)
  moreover note no_letter_unrelated [OF ne none]
  ultimately show ?thesis
    using assms by (simp add: convertToMarathi_cases basicTransliterate_scan)
qed

lemma convertToMarathi_devanagari:
  assumes "filter isLowerAZ (toLowerCase S) \<noteq> []"
    and "convertToMarathi toLowerCase S = Str out" and "preservesBlank toLowerCase"
  shows "list_all isDevanagari out"
proof -
  let ?name = "trim (toLowerCase S)"
  let ?clean = "filter isLowerAZ (toLowerCase S)"
  let ?find = "find (\<lambda>(english, marathi). str_includes ?name english
                          \<or> str_includes english ?name) (objectEntries nameMapping)"
  note nb = letters_not_blank [where toLowerCase = toLowerCase, OF assms(1,3)]
  show ?thesis
  proof (cases "getOwn nameMapping ?name")
    case (Some v)
    with assms(2,3) have "out = v"
      by (simp add: convertToMarathi_exact)
    with wellFormed_getOwn(4) [OF nameMapping_wellFormed Some] show ?thesis
      by simp
  next
    case None
    note eq = convertToMarathi_cases [where toLowerCase = toLowerCase, OF nb None]
    show ?thesis
    proof (cases "?find = None")
      case False
      then obtain english marathi where found: "?find = Some (english, marathi)"
        by auto
      then have "(english, marathi) \<in> set nameMapping"
        by (auto simp: find_Some_iff objectEntries_def dest: nth_mem)
      with nameMapping_wellFormed have "list_all isDevanagari marathi"
        by (auto simp: list_all_iff wellFormedEntry_def)
      moreover from eq have "convertToMarathi toLowerCase S =
          (if ?name \<in> set objectPrototypeNames then Inherited ?name else Str marathi)"
        unfolding found by simp
      ultimately show ?thesis
        using assms(2) by (auto split: if_splits)
    next
      case True
      have "list_all isDevanagari (greedyScan charMapping [2] basicFallback ?clean)"
      proof (rule greedyScan_pieces)
        show "list_all isDevanagari v" if "getOwn charMapping k = Some v" for k v
          using wellFormed_getOwn(4) [OF charMapping_wellFormed that] .
        show "list_all isDevanagari (basicFallback c)" if "c \<in> set ?clean" for c
          using that by (intro basicFallback_letter) simp
      qed
      moreover from eq have "convertToMarathi toLowerCase S =
          (if ?name \<in> set objectPrototypeNames then Inherited ?name
           else Str (basicTransliterate toLowerCase S))"
        unfolding True by simp
      ultimately show ?thesis
        using assms by (auto simp: basicTransliterate_scan split: if_splits)
    qed
  qed
qed

section \<open>What the engines return, case by case\<close>

lemma unchanged_not_letter:
  "charMapFallback c = [c] \<Longrightarrow> \<not> isLowerAZ c"
  "basicFallback c = [c] \<Longrightarrow> \<not> isLowerAZ c"
  "workingFallback c = [c] \<Longrightarrow> \<not> workingLetter c"
  using charMapFallback_letter(2) [of c] basicFallback_letter(2) [of c]
    workingFallback_letter(2) [of c] isDevanagari_not_isLowerAZ [of c]
  by (auto simp: workingLetter_def)

lemma noMatchAtAll_letters:
  "noMatchAtAll dict charMapFallback t \<Longrightarrow> list_all (\<lambda>c. \<not> isLowerAZ c) t"
  "noMatchAtAll dict basicFallback t \<Longrightarrow> list_all (\<lambda>c. \<not> isLowerAZ c) t"
  "noMatchAtAll dict workingFallback t \<Longrightarrow> list_all (\<lambda>c. \<not> workingLetter c) t"
  by (auto simp: noMatchAtAll_def list_all_iff dest: unchanged_not_letter)

lemma no_letter_noMatchAtAll:
  assumes "list_all wellFormedEntry dict" and "list_all (\<lambda>c. \<not> isLowerAZ c) t"
    and "\<And>c. \<not> isLowerAZ c \<Longrightarrow> fallback c = [c]"
  shows "noMatchAtAll dict fallback t"
proof -
  have "\<not> str_includes t (fst p)" if "p \<in> set dict" for p
  proof
    assume "str_includes t (fst p)"
    then have "set (fst p) \<subseteq> set t"
      by (rule str_includes_set)
    moreover from that assms(1) have "fst p \<noteq> []" and "list_all isLowerAZ (fst p)"
      by (auto simp: list_all_iff wellFormedEntry_def)
    ultimately show False
      using assms(2) by (cases "fst p") (auto simp: list_all_iff)
  qed
  with assms(2,3) show ?thesis
    by (auto simp: noMatchAtAll_def list_all_iff objectEntries_def)
qed

lemma transliterateToMarathi_no_letter:
  assumes "trim S \<noteq> []" and "list_all (\<lambda>c. \<not> isLowerAZ c) (trim (toLowerCase S))"
    and "preservesBlank toLowerCase"
  shows "transliterateToMarathi toLowerCase S = Str (trim (toLowerCase S))"
proof -
  let ?text = "trim (toLowerCase S)"
  have "getOwn marathiMap ?text = None"
    using wellFormed_keys [OF marathiMap_wellFormed] assms(2) by (rule unmatchable_not_key)
  moreover have "?text \<notin> set objectPrototypeNames"
    using assms(2) isLowerAZ_o_e(1,2) by (rule unmatchable_not_inherited)
  moreover have "greedyScan marathiMap [4, 3, 2] charMapFallback ?text = ?text"
    using wellFormed_keys [OF marathiMap_wellFormed] charMapFallback_other assms(2)
    by (rule greedyScan_copies)
  ultimately show ?thesis
    using assms(1,3) by (simp add: transliterateToMarathi_cases)
qed

lemma convertToMarathi_working_no_letter:
  assumes "trim S \<noteq> []" and "list_all (\<lambda>c. \<not> workingLetter c) (trim (toLowerCase S))"
    and "preservesBlank toLowerCase"
  shows "convertToMarathi_working toLowerCase S = Str (trim (toLowerCase S))"
proof -
  let ?text = "trim (toLowerCase S)"
  have "getOwn marathiTranslation ?text = None"
    using marathiTranslation_keys assms(2) by (rule unmatchable_not_key)
  moreover have "?text \<notin> set objectPrototypeNames"
    using assms(2) isLowerAZ_o_e(3,4) by (rule unmatchable_not_inherited)
  moreover have "greedyScan marathiTranslation [3, 2] workingFallback ?text = ?text"
    using marathiTranslation_keys workingFallback_other assms(2)
    by (rule greedyScan_copies)
  ultimately show ?thesis
    using assms(1,3) by (simp add: convertToMarathi_working_cases)
qed

lemma transliterateToMarathi_not_empty:
  assumes "trim S \<noteq> []" and "preservesBlank toLowerCase"
  shows "transliterateToMarathi toLowerCase S \<noteq> Str []"
proof (cases "getOwn marathiMap (trim (toLowerCase S))")
  case None
  have "greedyScan marathiMap [4, 3, 2] charMapFallback (trim (toLowerCase S)) \<noteq> []"
    using marathiMap_wellFormed charMapFallback_nonempty assms
    by (intro greedyScan_nonempty) (simp_all add: trim_toLowerCase_eq_Nil_iff)
  then show ?thesis
    by (simp add: transliterateToMarathi_cases [where toLowerCase
        = toLowerCase, OF assms(1) None assms(2)])
next
  case (Some v)
  with wellFormed_getOwn(3) [OF marathiMap_wellFormed Some] show ?thesis
    by (simp add: transliterateToMarathi_exact [where toLowerCase = toLowerCase, OF assms(2)])
qed

lemma convertToMarathi_working_not_empty:
  assumes "trim S \<noteq> []" and "preservesBlank toLowerCase"
  shows "convertToMarathi_working toLowerCase S \<noteq> Str []"
proof (cases "getOwn marathiTranslation (trim (toLowerCase S))")
  case None
  have "greedyScan marathiTranslation [3, 2] workingFallback (trim (toLowerCase S)) \<noteq> []"
    using marathiTranslation_wellFormed workingFallback_nonempty assms
    by (intro greedyScan_nonempty) (simp_all add: trim_toLowerCase_eq_Nil_iff)
  then show ?thesis
    by (simp add: convertToMarathi_working_cases [where toLowerCase
        = toLowerCase, OF assms(1) None assms(2)])
next
  case (Some v)
  with wellFormed_getOwn(3) [OF marathiTranslation_wellFormed Some] show ?thesis
    by (simp add: convertToMarathi_working_exact [where toLowerCase = toLowerCase, OF assms(2)])
qed

lemma basicTransliterate_not_empty: "S \<noteq> [] \<Longrightarrow> basicTransliterate toLowerCase S \<noteq> []"
  using greedyScan_nonempty [OF charMapping_wellFormed basicFallback_nonempty]
  by (simp add: basicTransliterate_scan)

lemma convertToMarathi_not_empty:
  assumes "trim S \<noteq> []" and "preservesBlank toLowerCase"
  shows "convertToMarathi toLowerCase S \<noteq> Str []"
proof (cases "getOwn nameMapping (trim (toLowerCase S))")
  case None
  let ?find = "find (\<lambda>(english, marathi). str_includes (trim (toLowerCase S)) english
                       \<or> str_includes english (trim (toLowerCase S)))
                 (objectEntries nameMapping)"
  note eq = convertToMarathi_cases [where toLowerCase = toLowerCase, OF assms(1) None]
  from assms(1) have "S \<noteq> []"
    by (rule trim_nonempty)
  show ?thesis
  proof (cases "?find = None")
    case True
    from eq have "convertToMarathi toLowerCase S =
        (if trim (toLowerCase S) \<in> set objectPrototypeNames
         then Inherited (trim (toLowerCase S)) else Str (basicTransliterate toLowerCase S))"
      unfolding True by simp
    with basicTransliterate_not_empty [where toLowerCase = toLowerCase, OF \<open>S \<noteq> []\<close>] show ?thesis
      by simp
  next
    case False
    then obtain english marathi where found: "?find = Some (english, marathi)"
      by auto
    then have "(english, marathi) \<in> set nameMapping"
      by (auto simp: find_Some_iff objectEntries_def dest: nth_mem)
    with nameMapping_wellFormed have "marathi \<noteq> []"
      by (auto simp: list_all_iff wellFormedEntry_def)
    moreover from eq have "convertToMarathi toLowerCase S =
        (if trim (toLowerCase S) \<in> set objectPrototypeNames
         then Inherited (trim (toLowerCase S)) else Str marathi)"
      unfolding found by simp
    ultimately show ?thesis
      by simp
  qed
next
  case (Some v)
  with wellFormed_getOwn(3) [OF nameMapping_wellFormed Some] show ?thesis
    by (simp add: convertToMarathi_exact [where toLowerCase = toLowerCase, OF assms(2)])
qed

section \<open>C9: normalisation\<close>

lemma normalized_not_blank:
  assumes "trim S \<noteq> []" and "preservesBlank toLowerCase"
  shows "trim (trim (toLowerCase S)) \<noteq> []"
  using assms by (simp add: trim_idem trim_toLowerCase_eq_Nil_iff)

lemma transliterateToMarathi_normalized:
  assumes "lowerCasing toLowerCase"
  shows "transliterateToMarathi toLowerCase S
         = transliterateToMarathi toLowerCase (trim (toLowerCase S))"
proof (cases "trim S = []")
  case True
  note pb = lowerCasing_preservesBlank [OF assms]
  from True pb have "trim (toLowerCase S) = []"
    by (simp add: trim_toLowerCase_eq_Nil_iff)
  with True show ?thesis
    by (simp add: transliterateToMarathi_blank trim_Nil)
next
  case False
  note pb = lowerCasing_preservesBlank [OF assms]
  note idem = normalize_idem [OF assms]
  note nb = normalized_not_blank [where toLowerCase = toLowerCase, OF False pb]
  show ?thesis
  proof (cases "getOwn marathiMap (trim (toLowerCase S))")
    case None
    then have "getOwn marathiMap (trim (toLowerCase (trim (toLowerCase S)))) = None"
      by (simp only: idem)
    from transliterateToMarathi_cases [where toLowerCase = toLowerCase, OF nb this pb]
      transliterateToMarathi_cases [where toLowerCase = toLowerCase, OF False None pb]
    show ?thesis
      by (simp only: idem)
  next
    case (Some v)
    then have "getOwn marathiMap (trim (toLowerCase (trim (toLowerCase S)))) = Some v"
      by (simp only: idem)
    from transliterateToMarathi_exact [where toLowerCase = toLowerCase, OF pb this]
      transliterateToMarathi_exact [where toLowerCase = toLowerCase, OF pb Some]
    show ?thesis
      by simp
  qed
qed

lemma basicTransliterate_normalized:
  assumes "filter isLowerAZ (toLowerCase S) \<noteq> []" and "lowerCasing toLowerCase"
  shows "basicTransliterate toLowerCase (trim (toLowerCase S)) = basicTransliterate toLowerCase S"
proof -
  from assms(2) have "toLowerCase (trim (toLowerCase S)) = trim (toLowerCase (toLowerCase S))"
    by (simp add: lowerCasing_def)
  also from assms(2) have "\<dots> = trim (toLowerCase S)"
    by (simp add: lowerCasing_def)
  finally have "filter isLowerAZ (toLowerCase (trim (toLowerCase S)))
                = filter isLowerAZ (toLowerCase S)"
    by (simp only: filter_isLowerAZ_trim)
  then show ?thesis
    using assms(1) by (simp add: basicTransliterate_scan)
qed

lemma convertToMarathi_normalized:
  assumes "filter isLowerAZ (toLowerCase S) \<noteq> []" and "lowerCasing toLowerCase"
  shows "convertToMarathi toLowerCase S = convertToMarathi toLowerCase (trim (toLowerCase S))"
proof -
  note pb = lowerCasing_preservesBlank [OF assms(2)]
  note idem = normalize_idem [OF assms(2)]
  note nb = letters_not_blank [where toLowerCase = toLowerCase, OF assms(1) pb]
  note nb' = normalized_not_blank [where toLowerCase = toLowerCase, OF nb pb]
  show ?thesis
  proof (cases "getOwn nameMapping (trim (toLowerCase S))")
    case None
    then have "getOwn nameMapping (trim (toLowerCase (trim (toLowerCase S)))) = None"
      by (simp only: idem)
    from convertToMarathi_cases [where toLowerCase = toLowerCase, OF nb' this]
      convertToMarathi_cases [where toLowerCase = toLowerCase, OF nb None]
    show ?thesis
      by (simp only: idem
          basicTransliterate_normalized [where toLowerCase = toLowerCase, OF assms])
  next
    case (Some v)
    then have "getOwn nameMapping (trim (toLowerCase (trim (toLowerCase S)))) = Some v"
      by (simp only: idem)
    from convertToMarathi_exact [where toLowerCase = toLowerCase, OF pb this]
      convertToMarathi_exact [where toLowerCase = toLowerCase, OF pb Some]
    show ?thesis
      by simp
  qed
qed

lemma blank_one_blank:
  "trim (ascii '' 1 '') = ascii ''1''"
  "trim (asciiToLowerCase (ascii '' 1 '')) = ascii ''1''"
  "trim (ascii ''1'') = ascii ''1''"
  "asciiToLowerCase (ascii ''1'') = ascii ''1''"
  "filter isLowerAZ (asciiToLowerCase (ascii '' 1 '')) = []"
  "filter isLowerAZ (ascii ''1'') = []"
  by (simp_all add: ascii_def trim_def asciiToLowerCase_def asciiLowerUnit_def isUpperAZ_def
      isLowerAZ_def isWhiteSpace_def)

text \<open>
  C9, as stated, fails for the name converter. For the input \<open>" 1 "\<close>, which has no
  letter, \<open>basicTransliterate\<close> converts nothing and returns its argument, the input as it
  was typed, with its spaces; for the normalised input \<open>"1"\<close> the result is \<open>"1"\<close>.
\<close>

theorem normalization_invariance_counterexample:
  "convertToMarathi asciiToLowerCase (ascii '' 1 '') = Str (ascii '' 1 '')
   \<and> convertToMarathi asciiToLowerCase (trim (asciiToLowerCase (ascii '' 1 ''))) = Str (ascii ''1'')
   \<and> convertToMarathi asciiToLowerCase (ascii '' 1 '')
       \<noteq> convertToMarathi asciiToLowerCase (trim (asciiToLowerCase (ascii '' 1 '')))"
proof -
  have "convertToMarathi asciiToLowerCase (ascii '' 1 '') = Str (ascii '' 1 '')"
    by (rule convertToMarathi_no_letter)
      (simp_all add: blank_one_blank ascii_eq_Nil preservesBlank_asciiToLowerCase)
  moreover have "convertToMarathi asciiToLowerCase (ascii ''1'') = Str (ascii ''1'')"
    by (rule convertToMarathi_no_letter)
      (simp_all add: blank_one_blank ascii_eq_Nil preservesBlank_asciiToLowerCase)
  ultimately show ?thesis
    by (simp add: blank_one_blank ascii_eq_iff)
qed

text \<open>
  C9, amended. The improved input returns for every input what it returns for the
  trimmed, lower-cased input. So does the name converter for every input whose
  lower-cased form has a letter a to z; for a non-blank input without one it returns the
  input itself, not normalised. Blank input gives the empty string in both. The input is
  any string of UTF-16 code units and \<open>toLowerCase\<close> is the runtime's, of which the proof
  uses that it commutes with \<open>trim\<close>, that lower-casing twice is lower-casing once, and
  that only the empty string lower-cases to the empty string.
\<close>

theorem normalization_invariance:
  assumes "lowerCasing toLowerCase"
  shows "transliterateToMarathi toLowerCase S
           = transliterateToMarathi toLowerCase (trim (toLowerCase S))
   \<and> (filter isLowerAZ (toLowerCase S) \<noteq> [] \<longrightarrow>
        convertToMarathi toLowerCase S = convertToMarathi toLowerCase (trim (toLowerCase S)))
   \<and> (filter isLowerAZ (toLowerCase S) = [] \<and> trim S \<noteq> [] \<longrightarrow>
        convertToMarathi toLowerCase S = Str S)
   \<and> (trim S = [] \<longrightarrow>
        convertToMarathi toLowerCase S = Str [] \<and> transliterateToMarathi toLowerCase S = Str [])"
  using transliterateToMarathi_normalized [OF assms, of S]
    convertToMarathi_normalized [where toLowerCase = toLowerCase and S = S]
    convertToMarathi_no_letter [where toLowerCase = toLowerCase and S = S]
    convertToMarathi_blank [of S toLowerCase] transliterateToMarathi_blank [of S toLowerCase]
    lowerCasing_preservesBlank [OF assms] assms
  by blast

theorem normalization_invariance_witness:
  "lowerCasing asciiToLowerCase
   \<and> filter isLowerAZ (asciiToLowerCase (ascii '' Ram '')) \<noteq> []
   \<and> convertToMarathi asciiToLowerCase (ascii '' Ram '')
       = convertToMarathi asciiToLowerCase (trim (asciiToLowerCase (ascii '' Ram '')))
   \<and> transliterateToMarathi asciiToLowerCase (ascii '' Ram '')
       = transliterateToMarathi asciiToLowerCase (trim (asciiToLowerCase (ascii '' Ram '')))
   \<and> filter isLowerAZ (asciiToLowerCase (ascii '' 1 '')) = [] \<and> trim (ascii '' 1 '') \<noteq> []
   \<and> convertToMarathi asciiToLowerCase (ascii '' 1 '') = Str (ascii '' 1 '')
   \<and> trim (ascii ''  '') = []
   \<and> convertToMarathi asciiToLowerCase (ascii ''  '') = Str []
   \<and> transliterateToMarathi asciiToLowerCase (ascii ''  '') = Str []"
proof -
  have letters: "filter isLowerAZ (asciiToLowerCase (ascii '' Ram '')) \<noteq> []"
    by (simp add: ascii_def asciiToLowerCase_def asciiLowerUnit_def isUpperAZ_def isLowerAZ_def)
  have none: "filter isLowerAZ (asciiToLowerCase (ascii '' 1 '')) = []"
    "trim (ascii '' 1 '') \<noteq> []"
    by (simp_all add: blank_one_blank ascii_eq_Nil)
  have blank: "trim (ascii ''  '') = []"
    by (simp add: ascii_def trim_def isWhiteSpace_def)
  from normalization_invariance [OF lowerCasing_asciiToLowerCase, of "ascii '' Ram ''"]
    normalization_invariance [OF lowerCasing_asciiToLowerCase, of "ascii '' 1 ''"]
    normalization_invariance [OF lowerCasing_asciiToLowerCase, of "ascii ''  ''"]
    lowerCasing_asciiToLowerCase letters none blank
  show ?thesis
    by blast
qed

section \<open>C6: non-erasure\<close>

lemma normalize_z:
  "trim (ascii ''z'') = ascii ''z''"
  "trim (asciiToLowerCase (ascii ''z'')) = ascii ''z''"
  "filter isLowerAZ (asciiToLowerCase (ascii ''z'')) = ascii ''z''"
  by (simp_all add: ascii_def trim_def asciiToLowerCase_def asciiLowerUnit_def isUpperAZ_def
      isLowerAZ_def isWhiteSpace_def)

lemma no_key_in_z:
  "list_all (\<lambda>p. \<not> str_includes (ascii ''z'') (fst p)) (objectEntries marathiMap)"
  "list_all (\<lambda>p. \<not> str_includes (ascii ''z'') (fst p)) (objectEntries marathiTranslation)"
  "list_all (\<lambda>p. \<not> str_includes (ascii ''z'') (fst p)) (objectEntries charMapping)"
  "list_all (\<lambda>p. \<not> (str_includes (ascii ''z'') (fst p) \<or> str_includes (fst p) (ascii ''z'')))
     (objectEntries nameMapping)"
  unfolding objectEntries_def marathiMap_def marathiTranslation_def charMapping_def
    nameMapping_def
  by (rule list_all_objectLiteral, simp only: list.pred_inject fst_conv str_includes_ascii
      str_includes.simps startsWith.simps list.inject list.distinct char.inject simp_thms)+

lemma z_not_inherited: "ascii ''z'' \<notin> set objectPrototypeNames"
  by (simp add: objectPrototypeNames_def ascii_eq_iff)

lemma improved_z: "transliterateToMarathi asciiToLowerCase (ascii ''z'') = Str [0x091D]"
proof -
  have own: "getOwn marathiMap (ascii ''z'') = None"
    "getOwn charMap (ascii ''z'') = Some [0x091D]"
    by (simp_all only: marathiMap_def charMap_def table_eval)
  have "greedyScan marathiMap [4, 3, 2] charMapFallback (ascii ''z'') = [0x091D]"
    by ((subst greedyScan.simps, simp add: scan_eval own)+)
  with transliterateToMarathi_cases [where toLowerCase = asciiToLowerCase
        and S = "ascii ''z''"] own(1) preservesBlank_asciiToLowerCase
  show ?thesis
    by (simp add: normalize_z z_not_inherited ascii_eq_Nil)
qed

lemma working_z: "convertToMarathi_working asciiToLowerCase (ascii ''z'') = Str [0x091D]"
proof -
  have own: "getOwn marathiTranslation (ascii ''z'') = None"
    by (simp only: marathiTranslation_def table_eval)
  have "greedyScan marathiTranslation [3, 2] workingFallback (ascii ''z'') = [0x091D]"
    by ((subst greedyScan.simps, simp add: scan_eval own)+)
  with convertToMarathi_working_cases [where toLowerCase = asciiToLowerCase
        and S = "ascii ''z''"] own preservesBlank_asciiToLowerCase
  show ?thesis
    by (simp add: normalize_z z_not_inherited ascii_eq_Nil)
qed

lemma converter_z: "convertToMarathi asciiToLowerCase (ascii ''z'') = Str [0x091D]"
proof -
  have none: "getOwn nameMapping (ascii ''z'') = None"
    by (simp only: nameMapping_def table_eval)
  have unrelated: "find (\<lambda>(english, marathi). str_includes (ascii ''z'') english
           \<or> str_includes english (ascii ''z'')) (objectEntries nameMapping) = None"
    using no_key_in_z(4) by (auto simp: find_None_iff list_all_iff)
  have scan: "greedyScan charMapping [2] basicFallback (ascii ''z'') = [0x091D]"
    by ((subst greedyScan.simps, simp add: scan_eval)+)
  from convertToMarathi_cases [where toLowerCase = asciiToLowerCase and S = "ascii ''z''"]
    none unrelated scan
  show ?thesis
    by (simp add: normalize_z z_not_inherited ascii_eq_Nil basicTransliterate_scan)
qed

text \<open>
  C6, as stated, fails in two ways. In \<open>z\<close> no key of any dictionary occurs, and the
  name converter finds no key that contains it, yet no engine returns \<open>z\<close>: the
  single-character fallback, which is not a dictionary, converts the letter. So the
  input must be one that the fallback leaves alone as well. And for such an input the
  improved input does not return the input verbatim: in \<open>" 1 "\<close> no key occurs and the
  fallback changes no character, yet the result is the trimmed text \<open>"1"\<close>.
\<close>

theorem non_erasure_counterexample:
  "trim (ascii ''z'') \<noteq> [] \<and> trim (asciiToLowerCase (ascii ''z'')) = ascii ''z''
   \<and> list_all (\<lambda>p. \<not> str_includes (ascii ''z'') (fst p)) (objectEntries marathiMap)
   \<and> transliterateToMarathi asciiToLowerCase (ascii ''z'') = Str [0x091D]
   \<and> list_all (\<lambda>p. \<not> str_includes (ascii ''z'') (fst p)) (objectEntries marathiTranslation)
   \<and> convertToMarathi_working asciiToLowerCase (ascii ''z'') = Str [0x091D]
   \<and> list_all (\<lambda>p. \<not> (str_includes (ascii ''z'') (fst p) \<or> str_includes (fst p) (ascii ''z'')))
        (objectEntries nameMapping)
   \<and> list_all (\<lambda>p. \<not> str_includes (ascii ''z'') (fst p)) (objectEntries charMapping)
   \<and> convertToMarathi asciiToLowerCase (ascii ''z'') = Str [0x091D]
   \<and> Str [0x091D] \<noteq> Str (ascii ''z'')
   \<and> trim (ascii '' 1 '') \<noteq> []
   \<and> noMatchAtAll marathiMap charMapFallback (trim (asciiToLowerCase (ascii '' 1 '')))
   \<and> transliterateToMarathi asciiToLowerCase (ascii '' 1 '') = Str (ascii ''1'')
   \<and> transliterateToMarathi asciiToLowerCase (ascii '' 1 '') \<noteq> Str (ascii '' 1 '')"
proof -
  have nl: "list_all (\<lambda>c. \<not> isLowerAZ c) (ascii ''1'')"
    by (simp add: ascii_def isLowerAZ_def)
  have "noMatchAtAll marathiMap charMapFallback (ascii ''1'')"
    using marathiMap_wellFormed nl charMapFallback_other by (rule no_letter_noMatchAtAll)
  moreover have "transliterateToMarathi asciiToLowerCase (ascii '' 1 '') = Str (ascii ''1'')"
    using transliterateToMarathi_no_letter [where toLowerCase = asciiToLowerCase
        and S = "ascii '' 1 ''"] nl preservesBlank_asciiToLowerCase
    by (simp add: blank_one_blank ascii_eq_Nil)
  moreover have "Str [0x091D] \<noteq> Str (ascii ''z'')"
    by (simp add: ascii_def)
  ultimately show ?thesis
    using no_key_in_z improved_z working_z converter_z
    by (simp add: blank_one_blank normalize_z ascii_eq_Nil ascii_eq_iff)
qed

text \<open>
  C6, amended. Blank input (empty or white space only) gives the empty string. No engine
  returns the empty string for a non-blank input. For a non-blank input in which the
  dictionaries and the fallback match nothing at all, the name converter returns the
  input verbatim, and the improved and the working input return the input trimmed and
  lower-cased. The input is any string of UTF-16 code units and \<open>toLowerCase\<close> is the
  runtime's, of which the proof uses only that it keeps a blank string blank and a string
  that is not blank from becoming blank.
\<close>

theorem non_erasure:
  assumes "preservesBlank toLowerCase"
  shows "(trim S = [] \<longrightarrow>
      convertToMarathi toLowerCase S = Str [] \<and> transliterateToMarathi toLowerCase S = Str []
      \<and> convertToMarathi_working toLowerCase S = Str [])
   \<and> (trim S \<noteq> [] \<longrightarrow>
      convertToMarathi toLowerCase S \<noteq> Str [] \<and> transliterateToMarathi toLowerCase S \<noteq> Str []
      \<and> convertToMarathi_working toLowerCase S \<noteq> Str [])
   \<and> (trim S \<noteq> [] \<and> noMatchAtAll charMapping basicFallback (trim (toLowerCase S))
       \<and> list_all (\<lambda>p. \<not> str_includes (trim (toLowerCase S)) (fst p)
                       \<and> \<not> str_includes (fst p) (trim (toLowerCase S)))
            (objectEntries nameMapping) \<longrightarrow>
      convertToMarathi toLowerCase S = Str S)
   \<and> (trim S \<noteq> [] \<and> noMatchAtAll marathiMap charMapFallback (trim (toLowerCase S)) \<longrightarrow>
      transliterateToMarathi toLowerCase S = Str (trim (toLowerCase S)))
   \<and> (trim S \<noteq> [] \<and> noMatchAtAll marathiTranslation workingFallback (trim (toLowerCase S)) \<longrightarrow>
      convertToMarathi_working toLowerCase S = Str (trim (toLowerCase S)))"
proof -
  have "convertToMarathi toLowerCase S = Str S"
    if "trim S \<noteq> []" and "noMatchAtAll charMapping basicFallback (trim (toLowerCase S))"
    using that(1) normalized_no_letter [where toLowerCase = toLowerCase,
        OF noMatchAtAll_letters(2) [OF that(2)]] assms
    by (rule convertToMarathi_no_letter)
  moreover have "transliterateToMarathi toLowerCase S = Str (trim (toLowerCase S))"
    if "trim S \<noteq> []" and "noMatchAtAll marathiMap charMapFallback (trim (toLowerCase S))"
    using that(1) noMatchAtAll_letters(1) [OF that(2)] assms
    by (rule transliterateToMarathi_no_letter)
  moreover have "convertToMarathi_working toLowerCase S = Str (trim (toLowerCase S))"
    if "trim S \<noteq> []"
      and "noMatchAtAll marathiTranslation workingFallback (trim (toLowerCase S))"
    using that(1) noMatchAtAll_letters(3) [OF that(2)] assms
    by (rule convertToMarathi_working_no_letter)
  ultimately show ?thesis
    using convertToMarathi_blank [of S toLowerCase]
      transliterateToMarathi_blank [of S toLowerCase]
      convertToMarathi_working_blank [of S toLowerCase]
      convertToMarathi_not_empty [where toLowerCase = toLowerCase and S = S]
      transliterateToMarathi_not_empty [where toLowerCase = toLowerCase and S = S]
      convertToMarathi_working_not_empty [where toLowerCase = toLowerCase and S = S]
      assms
    by blast
qed

theorem non_erasure_witness:
  "preservesBlank asciiToLowerCase
   \<and> trim (ascii ''  '') = []
   \<and> convertToMarathi asciiToLowerCase (ascii ''  '')
       = Str [] \<and> transliterateToMarathi asciiToLowerCase (ascii ''  '') = Str []
   \<and> convertToMarathi_working asciiToLowerCase (ascii ''  '') = Str []
   \<and> trim (ascii '' 1 '') \<noteq> []
   \<and> noMatchAtAll charMapping basicFallback (trim (asciiToLowerCase (ascii '' 1 '')))
   \<and> list_all (\<lambda>p. \<not> str_includes (trim (asciiToLowerCase (ascii '' 1 ''))) (fst p)
                   \<and> \<not> str_includes (fst p) (trim (asciiToLowerCase (ascii '' 1 ''))))
        (objectEntries nameMapping)
   \<and> noMatchAtAll marathiMap charMapFallback (trim (asciiToLowerCase (ascii '' 1 '')))
   \<and> noMatchAtAll marathiTranslation workingFallback (trim (asciiToLowerCase (ascii '' 1 '')))
   \<and> convertToMarathi asciiToLowerCase (ascii '' 1 '') = Str (ascii '' 1 '')
   \<and> transliterateToMarathi asciiToLowerCase (ascii '' 1 '') = Str (ascii ''1'')
   \<and> convertToMarathi_working asciiToLowerCase (ascii '' 1 '') = Str (ascii ''1'')"
proof -
  have blank: "trim (ascii ''  '') = []"
    by (simp add: ascii_def trim_def isWhiteSpace_def)
  have nb: "trim (ascii '' 1 '') \<noteq> []"
    by (simp add: blank_one_blank ascii_eq_Nil)
  have nl: "list_all (\<lambda>c. \<not> isLowerAZ c) (ascii ''1'')"
    by (simp add: ascii_def isLowerAZ_def)
  have other: "\<not> isLowerAZ c \<Longrightarrow> workingFallback c = [c]"
    "\<not> isLowerAZ c \<Longrightarrow> basicFallback c = [c]" for c
    using workingFallback_other [of c] basicFallback_letter(2) [of c]
    by (auto simp: workingLetter_def basicFallback_def singleCharacterMapping_def ascii_def
        isLowerAZ_def)
  have m1: "noMatchAtAll charMapping basicFallback (trim (asciiToLowerCase (ascii '' 1 '')))"
    unfolding blank_one_blank
    using charMapping_wellFormed nl other(2) by (rule no_letter_noMatchAtAll)
  have m2: "noMatchAtAll marathiMap charMapFallback (trim (asciiToLowerCase (ascii '' 1 '')))"
    unfolding blank_one_blank
    using marathiMap_wellFormed nl charMapFallback_other by (rule no_letter_noMatchAtAll)
  have m3: "noMatchAtAll marathiTranslation workingFallback (trim (asciiToLowerCase (ascii '' 1 '')))"
    unfolding blank_one_blank
    using marathiTranslation_wellFormed nl other(1) by (rule no_letter_noMatchAtAll)
  have "find (\<lambda>(english, marathi). str_includes (ascii ''1'') english
                \<or> str_includes english (ascii ''1'')) (objectEntries nameMapping) = None"
    using nl by (intro no_letter_unrelated) (simp_all add: ascii_eq_Nil)
  then have m4: "list_all (\<lambda>p. \<not> str_includes (trim (asciiToLowerCase (ascii '' 1 ''))) (fst p)
                   \<and> \<not> str_includes (fst p) (trim (asciiToLowerCase (ascii '' 1 ''))))
        (objectEntries nameMapping)"
    unfolding blank_one_blank by (auto simp: find_None_iff list_all_iff)
  from non_erasure [OF preservesBlank_asciiToLowerCase, of "ascii ''  ''"]
    non_erasure [OF preservesBlank_asciiToLowerCase, of "ascii '' 1 ''"]
    preservesBlank_asciiToLowerCase blank nb m1 m2 m3 m4
  show ?thesis
    by (simp add: blank_one_blank)
qed

section \<open>C2: the greedy scan\<close>

lemma find_unrelated:
  assumes "list_all (\<lambda>p. \<not> (str_includes name (fst p) \<or> str_includes (fst p) name)) nameMapping"
  shows "find (\<lambda>(english, marathi). str_includes name english \<or> str_includes english name)
           (objectEntries nameMapping) = None"
  using assms by (auto simp: find_None_iff list_all_iff objectEntries_def)

lemmas includes_eval =
  list.pred_inject fst_conv str_includes_ascii str_includes.simps startsWith.simps
  list.inject list.distinct char.inject simp_thms

lemma normalize_sitaa:
  "trim (ascii ''sitaa'') = ascii ''sitaa''"
  "trim (asciiToLowerCase (ascii ''sitaa'')) = ascii ''sitaa''"
  by (simp_all add: ascii_def trim_def asciiToLowerCase_def asciiLowerUnit_def isUpperAZ_def
      isWhiteSpace_def)

lemma normalize_kha:
  "trim (ascii ''kha'') = ascii ''kha''"
  "trim (asciiToLowerCase (ascii ''kha'')) = ascii ''kha''"
  "filter isLowerAZ (asciiToLowerCase (ascii ''kha'')) = ascii ''kha''"
  by (simp_all add: ascii_def trim_def asciiToLowerCase_def asciiLowerUnit_def isUpperAZ_def
      isLowerAZ_def isWhiteSpace_def)

lemma not_inherited_examples:
  "ascii ''sitaa'' \<notin> set objectPrototypeNames"
  "ascii ''kha'' \<notin> set objectPrototypeNames"
  "ascii ''ab1'' \<notin> set objectPrototypeNames"
  "ascii ''a1'' \<notin> set objectPrototypeNames"
  by (simp_all add: objectPrototypeNames_def ascii_eq_iff)

lemma working_sitaa:
  "getOwn marathiTranslation (ascii ''sitaa'') = None"
  "convertToMarathi_working asciiToLowerCase (ascii ''sitaa'')
      = Str [0x0938, 0x0907, 0x091F, 0x0905]"
  "greedyScan marathiTranslation [3, 2] workingFallback (ascii ''sitaa'')
   = [0x0938, 0x0907, 0x091F, 0x0905]"
  "greedyScan marathiTranslation [4, 3, 2] workingFallback (ascii ''sitaa'')
   = [0x0938, 0x0940, 0x0924, 0x093E, 0x0905]"
proof -
  have own: "getOwn marathiTranslation (ascii ''sita'') = Some [0x0938, 0x0940, 0x0924, 0x093E]"
    "getOwn marathiTranslation (ascii ''sit'') = None"
    "getOwn marathiTranslation (ascii ''si'') = None"
    "getOwn marathiTranslation (ascii ''ita'') = None"
    "getOwn marathiTranslation (ascii ''it'') = None"
    "getOwn marathiTranslation (ascii ''taa'') = None"
    "getOwn marathiTranslation (ascii ''ta'') = Some [0x091F]"
    by (simp_all only: marathiTranslation_def table_eval)
  show none: "getOwn marathiTranslation (ascii ''sitaa'') = None"
    by (simp only: marathiTranslation_def table_eval)
  show scan: "greedyScan marathiTranslation [3, 2] workingFallback (ascii ''sitaa'')
              = [0x0938, 0x0907, 0x091F, 0x0905]"
    by ((subst greedyScan.simps, simp add: scan_eval own)+)
  show "greedyScan marathiTranslation [4, 3, 2] workingFallback (ascii ''sitaa'')
        = [0x0938, 0x0940, 0x0924, 0x093E, 0x0905]"
    by ((subst greedyScan.simps, simp add: scan_eval own)+)
  from convertToMarathi_working_cases [where toLowerCase = asciiToLowerCase and S
      = "ascii ''sitaa''"]
    preservesBlank_asciiToLowerCase none scan
  show "convertToMarathi_working asciiToLowerCase (ascii ''sitaa'')
      = Str [0x0938, 0x0907, 0x091F, 0x0905]"
    by (simp add: normalize_sitaa not_inherited_examples ascii_eq_Nil)
qed

lemma improved_sitaa:
  "getOwn marathiMap (ascii ''sitaa'') = None"
  "transliterateToMarathi asciiToLowerCase (ascii ''sitaa'')
      = Str [0x0938, 0x0940, 0x0924, 0x093E, 0x0905]"
proof -
  have own: "getOwn marathiMap (ascii ''sita'') = Some [0x0938, 0x0940, 0x0924, 0x093E]"
    "getOwn charMap (ascii ''a'') = Some [0x0905]"
    by (simp_all only: marathiMap_def charMap_def table_eval)
  show none: "getOwn marathiMap (ascii ''sitaa'') = None"
    by (simp only: marathiMap_def table_eval)
  have "greedyScan marathiMap [4, 3, 2] charMapFallback (ascii ''sitaa'')
        = [0x0938, 0x0940, 0x0924, 0x093E, 0x0905]"
    by ((subst greedyScan.simps, simp add: scan_eval own)+)
  with transliterateToMarathi_cases [where toLowerCase = asciiToLowerCase and S = "ascii ''sitaa''"]
    preservesBlank_asciiToLowerCase none
  show "transliterateToMarathi asciiToLowerCase (ascii ''sitaa'')
      = Str [0x0938, 0x0940, 0x0924, 0x093E, 0x0905]"
    by (simp add: normalize_sitaa not_inherited_examples ascii_eq_Nil)
qed

lemma converter_kha:
  "getOwn nameMapping (ascii ''kha'') = None"
  "find (\<lambda>(english, marathi). str_includes (ascii ''kha'') english
           \<or> str_includes english (ascii ''kha'')) (objectEntries nameMapping) = None"
  "convertToMarathi asciiToLowerCase (ascii ''kha'') = Str [0x0915, 0x0939]"
  "greedyScan charMapping [2] basicFallback (ascii ''kha'') = [0x0915, 0x0939]"
  "greedyScan charMapping [4, 3, 2] basicFallback (ascii ''kha'') = [0x0916]"
proof -
  have own: "getOwn charMapping (ascii ''kha'') = Some [0x0916]"
    "getOwn charMapping (ascii ''kh'') = None"
    "getOwn charMapping (ascii ''ha'') = Some [0x0939]"
    by (simp_all only: charMapping_def table_eval)
  show none: "getOwn nameMapping (ascii ''kha'') = None"
    by (simp only: nameMapping_def table_eval)
  have "list_all (\<lambda>p. \<not> (str_includes (ascii ''kha'') (fst p)
                         \<or> str_includes (fst p) (ascii ''kha''))) nameMapping"
    unfolding nameMapping_def by (rule list_all_objectLiteral) (simp only: includes_eval)
  then show unrelated: "find (\<lambda>(english, marathi). str_includes (ascii ''kha'') english
           \<or> str_includes english (ascii ''kha'')) (objectEntries nameMapping) = None"
    by (rule find_unrelated)
  show scan: "greedyScan charMapping [2] basicFallback (ascii ''kha'') = [0x0915, 0x0939]"
    by ((subst greedyScan.simps, simp add: scan_eval own)+)
  show "greedyScan charMapping [4, 3, 2] basicFallback (ascii ''kha'') = [0x0916]"
    by ((subst greedyScan.simps, simp add: scan_eval own)+)
  from convertToMarathi_cases [where toLowerCase = asciiToLowerCase and S
      = "ascii ''kha''"] none unrelated scan
  show "convertToMarathi asciiToLowerCase (ascii ''kha'') = Str [0x0915, 0x0939]"
    by (simp add: normalize_kha not_inherited_examples ascii_eq_Nil basicTransliterate_scan)
qed

text \<open>
  C2, as stated, fails for two of the three engines. The working input probes lengths 3
  and 2 only: in \<open>sitaa\<close> it never tries the four-character key \<open>sita\<close>. The name
  converter probes length 2 only, against \<open>charMapping\<close>: in \<open>kha\<close> it never tries the
  three-character key \<open>kha\<close>.
\<close>

theorem greedy_scan_counterexample:
  "getOwn marathiTranslation (trim (asciiToLowerCase (ascii ''sitaa''))) = None
   \<and> convertToMarathi_working asciiToLowerCase (ascii ''sitaa'')
       = Str [0x0938, 0x0907, 0x091F, 0x0905]
   \<and> greedyScan marathiTranslation [4, 3, 2] workingFallback
        (trim (asciiToLowerCase (ascii ''sitaa''))) = [0x0938, 0x0940, 0x0924, 0x093E, 0x0905]
   \<and> convertToMarathi_working asciiToLowerCase (ascii ''sitaa'')
       \<noteq> Str (greedyScan marathiTranslation [4, 3, 2] workingFallback
                 (trim (asciiToLowerCase (ascii ''sitaa''))))
   \<and> getOwn nameMapping (trim (asciiToLowerCase (ascii ''kha''))) = None
   \<and> convertToMarathi asciiToLowerCase (ascii ''kha'') = Str [0x0915, 0x0939]
   \<and> greedyScan charMapping [4, 3, 2] basicFallback (trim (asciiToLowerCase (ascii ''kha'')))
       = [0x0916]
   \<and> convertToMarathi asciiToLowerCase (ascii ''kha'')
       \<noteq> Str (greedyScan charMapping [4, 3, 2] basicFallback
                 (trim (asciiToLowerCase (ascii ''kha''))))"
  by (simp add: normalize_sitaa normalize_kha working_sitaa converter_kha)

text \<open>
  C2, amended. For a non-blank input whose normalisation is not a key of the engine's
  dictionary, and for which the engine returns a string: the improved input returns the
  scan of the normalised input that probes \<open>marathiMap\<close> with lengths 4, 3, 2 and falls
  back on \<open>charMap\<close>; the working input returns the scan that probes
  \<open>marathiTranslation\<close> with lengths 3 and 2 only; the name converter, when no key of
  \<open>nameMapping\<close> contains the normalised input or is contained in it, returns the scan
  that probes \<open>charMapping\<close> with length 2 only, run on the lower-cased input with every
  character outside a to z removed (and the input itself when no letter remains). The
  input is any string of UTF-16 code units and \<open>toLowerCase\<close> is the runtime's, of which
  the proof uses only that it keeps a string that is not blank from becoming blank.
\<close>

theorem greedy_scan:
  assumes "preservesBlank toLowerCase" and "trim S \<noteq> []"
  shows "(getOwn marathiMap (trim (toLowerCase S)) = None \<and> transliterateToMarathi toLowerCase S
      = Str out
            \<longrightarrow> out = greedyScan marathiMap [4, 3, 2] charMapFallback (trim (toLowerCase S)))
       \<and> (getOwn marathiTranslation (trim (toLowerCase S)) = None
            \<and> convertToMarathi_working toLowerCase S = Str out
            \<longrightarrow> out = greedyScan marathiTranslation [3, 2] workingFallback
                      (trim (toLowerCase S)))
       \<and> (getOwn nameMapping (trim (toLowerCase S)) = None
            \<and> find (\<lambda>(english, marathi). str_includes (trim (toLowerCase S)) english
                       \<or> str_includes english (trim (toLowerCase S)))
                 (objectEntries nameMapping) = None
            \<and> convertToMarathi toLowerCase S = Str out
            \<longrightarrow> out = (if filter isLowerAZ (toLowerCase S) = [] then S
                       else greedyScan charMapping [2] basicFallback
                              (filter isLowerAZ (toLowerCase S))))"
proof (intro conjI impI)
  assume "getOwn marathiMap (trim (toLowerCase S)) = None \<and> transliterateToMarathi toLowerCase S
      = Str out"
  with transliterateToMarathi_cases [where toLowerCase = toLowerCase, OF assms(2) _ assms(1)]
  show "out = greedyScan marathiMap [4, 3, 2] charMapFallback (trim (toLowerCase S))"
    by (auto split: if_splits)
next
  assume "getOwn marathiTranslation (trim (toLowerCase S)) = None
          \<and> convertToMarathi_working toLowerCase S = Str out"
  with convertToMarathi_working_cases [where toLowerCase = toLowerCase, OF assms(2) _ assms(1)]
  show "out = greedyScan marathiTranslation [3, 2] workingFallback (trim (toLowerCase S))"
    by (auto split: if_splits)
next
  assume a: "getOwn nameMapping (trim (toLowerCase S)) = None
      \<and> find (\<lambda>(english, marathi). str_includes (trim (toLowerCase S)) english
                 \<or> str_includes english (trim (toLowerCase S)))
           (objectEntries nameMapping) = None
      \<and> convertToMarathi toLowerCase S = Str out"
  then have "convertToMarathi toLowerCase S =
      (if trim (toLowerCase S) \<in> set objectPrototypeNames
       then Inherited (trim (toLowerCase S)) else Str (basicTransliterate toLowerCase S))"
    using convertToMarathi_cases [where toLowerCase = toLowerCase, OF assms(2)] by simp
  with a show "out = (if filter isLowerAZ (toLowerCase S) = [] then S
                       else greedyScan charMapping [2] basicFallback
                              (filter isLowerAZ (toLowerCase S)))"
    by (auto simp: basicTransliterate_scan split: if_splits)
qed

theorem greedy_scan_witness:
  "preservesBlank asciiToLowerCase
   \<and> trim (ascii ''sitaa'') \<noteq> [] \<and> trim (ascii ''kha'') \<noteq> []
   \<and> getOwn marathiMap (trim (asciiToLowerCase (ascii ''sitaa''))) = None
   \<and> transliterateToMarathi asciiToLowerCase (ascii ''sitaa'')
       = Str [0x0938, 0x0940, 0x0924, 0x093E, 0x0905]
   \<and> [0x0938, 0x0940, 0x0924, 0x093E, 0x0905]
       = greedyScan marathiMap [4, 3, 2] charMapFallback (trim (asciiToLowerCase (ascii ''sitaa'')))
   \<and> getOwn marathiTranslation (trim (asciiToLowerCase (ascii ''sitaa''))) = None
   \<and> convertToMarathi_working asciiToLowerCase (ascii ''sitaa'')
       = Str [0x0938, 0x0907, 0x091F, 0x0905]
   \<and> [0x0938, 0x0907, 0x091F, 0x0905]
       = greedyScan marathiTranslation [3, 2] workingFallback
           (trim (asciiToLowerCase (ascii ''sitaa'')))
   \<and> getOwn nameMapping (trim (asciiToLowerCase (ascii ''kha''))) = None
   \<and> convertToMarathi asciiToLowerCase (ascii ''kha'') = Str [0x0915, 0x0939]
   \<and> [0x0915, 0x0939]
       = greedyScan charMapping [2] basicFallback (filter isLowerAZ (asciiToLowerCase (ascii ''kha'')))"
proof -
  have nb: "trim (ascii ''sitaa'') \<noteq> []" "trim (ascii ''kha'') \<noteq> []"
    by (simp_all add: normalize_sitaa normalize_kha ascii_eq_Nil)
  have letters: "filter isLowerAZ (asciiToLowerCase (ascii ''kha'')) \<noteq> []"
    by (simp add: normalize_kha ascii_eq_Nil)
  from greedy_scan [OF preservesBlank_asciiToLowerCase nb(1),
      of "[0x0938, 0x0940, 0x0924, 0x093E, 0x0905]"]
    greedy_scan [OF preservesBlank_asciiToLowerCase nb(1),
      of "[0x0938, 0x0907, 0x091F, 0x0905]"]
    greedy_scan [OF preservesBlank_asciiToLowerCase nb(2), of "[0x0915, 0x0939]"]
    preservesBlank_asciiToLowerCase
        nb letters improved_sitaa working_sitaa(1,2) converter_kha(1,2,3)
  show ?thesis
    by (simp add: normalize_sitaa normalize_kha)
qed

section \<open>C4: characters outside a to z\<close>

lemma normalize_ab1:
  "trim (ascii ''ab1'') = ascii ''ab1''"
  "trim (asciiToLowerCase (ascii ''ab1'')) = ascii ''ab1''"
  "filter isLowerAZ (asciiToLowerCase (ascii ''ab1'')) = ascii ''ab''"
  by (simp_all add: ascii_def trim_def asciiToLowerCase_def asciiLowerUnit_def isUpperAZ_def
      isLowerAZ_def isWhiteSpace_def)

lemma converter_ab1: "convertToMarathi asciiToLowerCase (ascii ''ab1'') = Str [0x0905, 0x092C]"
proof -
  have own: "getOwn charMapping (ascii ''ab'') = None"
    by (simp only: charMapping_def table_eval)
  have none: "getOwn nameMapping (ascii ''ab1'') = None"
    by (simp only: nameMapping_def table_eval)
  have "list_all (\<lambda>p. \<not> (str_includes (ascii ''ab1'') (fst p)
                         \<or> str_includes (fst p) (ascii ''ab1''))) nameMapping"
    unfolding nameMapping_def by (rule list_all_objectLiteral) (simp only: includes_eval)
  then have unrelated: "find (\<lambda>(english, marathi). str_includes (ascii ''ab1'') english
           \<or> str_includes english (ascii ''ab1'')) (objectEntries nameMapping) = None"
    by (rule find_unrelated)
  have scan: "greedyScan charMapping [2] basicFallback (ascii ''ab'') = [0x0905, 0x092C]"
    by ((subst greedyScan.simps, simp add: scan_eval own)+)
  from convertToMarathi_cases [where toLowerCase = asciiToLowerCase and S
      = "ascii ''ab1''"] none unrelated scan
  show ?thesis
    by (simp add: normalize_ab1 not_inherited_examples ascii_eq_Nil basicTransliterate_scan)
qed

lemma normalize_a1:
  "trim (ascii ''a1'') = ascii ''a1''"
  "trim (asciiToLowerCase (ascii ''a1'')) = ascii ''a1''"
  by (simp_all add: ascii_def trim_def asciiToLowerCase_def asciiLowerUnit_def isUpperAZ_def
      isWhiteSpace_def)

lemma improved_a1: "transliterateToMarathi asciiToLowerCase (ascii ''a1'') = Str [0x0905, 0x31]"
proof -
  have own: "getOwn marathiMap (ascii ''a1'') = None"
    "getOwn charMap (ascii ''a'') = Some [0x0905]"
    "getOwn charMap (ascii ''1'') = None"
    by (simp_all only: marathiMap_def charMap_def table_eval)
  have "greedyScan marathiMap [4, 3, 2] charMapFallback (ascii ''a1'') = [0x0905] @ ascii ''1''"
    by ((subst greedyScan.simps, simp add: scan_eval own)+)
  then have "greedyScan marathiMap [4, 3, 2] charMapFallback (ascii ''a1'') = [0x0905, 0x31]"
    by (simp add: ascii_def)
  with transliterateToMarathi_cases [where toLowerCase = asciiToLowerCase and S = "ascii ''a1''"]
    preservesBlank_asciiToLowerCase own(1) show ?thesis
    by (simp add: normalize_a1 not_inherited_examples ascii_eq_Nil)
qed

text \<open>
  C4, as stated, fails for the name converter: \<open>basicTransliterate\<close> removes every
  character outside a to z before it converts. In \<open>ab1\<close> the digit is a character of the
  normalised input outside a to z, and it is not in the result.
\<close>

theorem passthrough_counterexample:
  "0x31 \<in> set (trim (asciiToLowerCase (ascii ''ab1''))) \<and> \<not> isLowerAZ 0x31
   \<and> convertToMarathi asciiToLowerCase (ascii ''ab1'') = Str [0x0905, 0x092C]
   \<and> 0x31 \<notin> set [0x0905, 0x092C :: 16 word]"
  by (simp add: converter_ab1 normalize_ab1 isLowerAZ_def) (simp add: ascii_def)

text \<open>
  C4, amended. In the improved input, whenever it returns a string, a character of the
  normalised input that is outside a to z is copied unchanged, between the conversion of
  the text before it and the conversion of the text after it; so digits are copied raw.
  The name converter drops these characters: for an input whose lower-cased form has a
  letter a to z its result, whenever it is a string, holds Devanagari only, and for a
  non-blank input without such a letter the result is the input itself. The input is any
  string of UTF-16 code units and \<open>toLowerCase\<close> is the runtime's, of which the proof uses
  only that it keeps a string that is not blank from becoming blank.
\<close>

theorem passthrough:
  assumes "preservesBlank toLowerCase"
  shows "(trim (toLowerCase S) = pre @ c # post \<and> \<not> isLowerAZ c
      \<and> transliterateToMarathi toLowerCase S = Str out
      \<longrightarrow> out = transliterateLoop pre 0 [] @ c # transliterateLoop post 0 [])
   \<and> (filter isLowerAZ (toLowerCase S) \<noteq> [] \<and> convertToMarathi toLowerCase S = Str out
      \<longrightarrow> list_all isDevanagari out)
   \<and> (filter isLowerAZ (toLowerCase S) = [] \<and> trim S \<noteq> [] \<longrightarrow> convertToMarathi toLowerCase S = Str S)"
proof (intro conjI impI)
  assume a: "trim (toLowerCase S) = pre @ c # post \<and> \<not> isLowerAZ c
             \<and> transliterateToMarathi toLowerCase S = Str out"
  then have nb: "trim S \<noteq> []"
    using trim_toLowerCase_eq_Nil_iff [OF assms, of S] by auto
  have none: "getOwn marathiMap (trim (toLowerCase S)) = None"
  proof (rule ccontr)
    assume "getOwn marathiMap (trim (toLowerCase S)) \<noteq> None"
    then obtain v where "getOwn marathiMap (trim (toLowerCase S)) = Some v"
      by auto
    from wellFormed_getOwn(2) [OF marathiMap_wellFormed this] a show False
      by simp
  qed
  have "greedyScan marathiMap [4, 3, 2] charMapFallback (pre @ c # post)
        = greedyScan marathiMap [4, 3, 2] charMapFallback pre
          @ c # greedyScan marathiMap [4, 3, 2] charMapFallback post"
    using a charMapFallback_other [of c]
    by (intro greedyScan_split [where L = isLowerAZ])
      (auto dest: wellFormed_getOwn(2) [OF marathiMap_wellFormed])
  with transliterateToMarathi_cases [where toLowerCase = toLowerCase, OF nb none assms] a
  show "out = transliterateLoop pre 0 [] @ c # transliterateLoop post 0 []"
    by (auto simp: transliterateLoop_scan split: if_splits)
next
  assume "filter isLowerAZ (toLowerCase S) \<noteq> [] \<and> convertToMarathi toLowerCase S = Str out"
  then show "list_all isDevanagari out"
    using convertToMarathi_devanagari [where toLowerCase = toLowerCase and S = S] assms
    by blast
next
  assume "filter isLowerAZ (toLowerCase S) = [] \<and> trim S \<noteq> []"
  then show "convertToMarathi toLowerCase S = Str S"
    using convertToMarathi_no_letter [where toLowerCase = toLowerCase and S = S] assms
    by blast
qed

theorem passthrough_witness:
  "preservesBlank asciiToLowerCase
   \<and> trim (asciiToLowerCase (ascii ''a1'')) = ascii ''a'' @ 0x31 # [] \<and> \<not> isLowerAZ 0x31
   \<and> transliterateToMarathi asciiToLowerCase (ascii ''a1'') = Str [0x0905, 0x31]
   \<and> [0x0905, 0x31] = transliterateLoop (ascii ''a'') 0 [] @ 0x31 # transliterateLoop [] 0 []
   \<and> filter isLowerAZ (asciiToLowerCase (ascii ''ab1'')) \<noteq> []
   \<and> convertToMarathi asciiToLowerCase (ascii ''ab1'') = Str [0x0905, 0x092C]
   \<and> list_all isDevanagari [0x0905, 0x092C]
   \<and> filter isLowerAZ (asciiToLowerCase (ascii '' 1 '')) = [] \<and> trim (ascii '' 1 '') \<noteq> []
   \<and> convertToMarathi asciiToLowerCase (ascii '' 1 '') = Str (ascii '' 1 '')"
proof -
  have split: "trim (asciiToLowerCase (ascii ''a1'')) = ascii ''a'' @ 0x31 # []"
    by (simp add: normalize_a1) (simp add: ascii_def)
  have digit: "\<not> isLowerAZ 0x31"
    by (simp add: isLowerAZ_def)
  have letters: "filter isLowerAZ (asciiToLowerCase (ascii ''ab1'')) \<noteq> []"
    by (simp add: normalize_ab1 ascii_eq_Nil)
  have none: "filter isLowerAZ (asciiToLowerCase (ascii '' 1 '')) = []" "trim (ascii '' 1 '') \<noteq> []"
    by (simp_all add: blank_one_blank ascii_eq_Nil)
  from passthrough [OF preservesBlank_asciiToLowerCase,
      of "ascii ''a1''" "ascii ''a''" "0x31" "[]" "[0x0905, 0x31]"]
    passthrough [OF preservesBlank_asciiToLowerCase,
      of "ascii ''ab1''" _ _ _ "[0x0905, 0x092C]"]
    passthrough [OF preservesBlank_asciiToLowerCase, of "ascii '' 1 ''"]
    preservesBlank_asciiToLowerCase split digit improved_a1 letters converter_ab1 none
  show ?thesis
    by blast
qed

section \<open>Where the scan ends\<close>

lemma greedyScan_hd:
  assumes vals: "\<And>k v. getOwn dict k = Some v \<Longrightarrow> v \<noteq> [] \<and> list_all Q v"
    and fb: "\<And>c. Q c \<Longrightarrow> fallback c \<noteq> [] \<and> list_all Q (fallback c)"
    and "s \<noteq> []" and "Q (hd s)"
  shows "Q (hd (greedyScan dict lens fallback s))"
  using assms(3)
proof (cases rule: greedyScan_cases [of s dict lens fallback])
  case (hit n v)
  from vals [OF probeLengths_key [OF hit(1)]] hit(4) show ?thesis
    by (cases v) simp_all
next
  case miss
  from fb [OF assms(4)] miss(2) show ?thesis
    by (cases "fallback (hd s)") simp_all
qed

lemma greedyScan_last:
  assumes vals: "\<And>k v. getOwn dict k = Some v \<Longrightarrow> v \<noteq> [] \<and> list_all Q v"
    and fb: "\<And>c. fallback c \<noteq> []" "\<And>c. Q c \<Longrightarrow> list_all Q (fallback c)"
    and wf: "list_all wellFormedEntry dict"
  shows "s \<noteq> [] \<Longrightarrow> Q (last s) \<Longrightarrow> Q (last (greedyScan dict lens fallback s))"
proof (induction s rule: length_induct)
  case (1 s)
  from "1.prems"(1) show ?case
  proof (cases rule: greedyScan_cases [of s dict lens fallback])
    case (hit n v)
    note v = vals [OF probeLengths_key [OF hit(1)]]
    show ?thesis
    proof (cases "drop n s = []")
      case True
      with hit(4) v show ?thesis
        by (simp add: greedyScan_Nil list_all_iff)
    next
      case False
      with hit "1.prems" have "length (drop n s) < length s" and "Q (last (drop n s))"
        by simp_all
      with "1.IH" False have "Q (last (greedyScan dict lens fallback (drop n s)))"
        by blast
      moreover have "greedyScan dict lens fallback (drop n s) \<noteq> []"
        using wf fb(1) False by (rule greedyScan_nonempty)
      ultimately show ?thesis
        using hit(4) by simp
    qed
  next
    case miss
    show ?thesis
    proof (cases "tl s = []")
      case True
      with "1.prems" have "last s = hd s"
        by (cases s) simp_all
      with "1.prems" fb(2) [of "hd s"] fb(1) [of "hd s"] True miss(2) show ?thesis
        by (simp add: greedyScan_Nil list_all_iff)
    next
      case False
      with "1.prems" have "length (tl s) < length s" and "Q (last (tl s))"
        by (simp_all add: last_tl)
      with "1.IH" False have "Q (last (greedyScan dict lens fallback (tl s)))"
        by blast
      moreover have "greedyScan dict lens fallback (tl s) \<noteq> []"
        using wf fb(1) False by (rule greedyScan_nonempty)
      ultimately show ?thesis
        using miss(2) by simp
    qed
  qed
qed

section \<open>A result that is a string is a fixed point\<close>

text \<open>
  A text that \<open>toLowerCase\<close> leaves as it is, without a letter the engine can match and
  without white space at its ends, is returned as it is.
\<close>

lemma transliterateToMarathi_fixed:
  assumes "t \<noteq> []" and "list_all (\<lambda>c. \<not> isLowerAZ c) t"
    and "\<not> isWhiteSpace (hd t)" and "\<not> isWhiteSpace (last t)"
    and "toLowerCase t = t" and "preservesBlank toLowerCase"
  shows "transliterateToMarathi toLowerCase t = Str t"
proof -
  from assms(1,3,4) have "trim t = t"
    by (intro trim_fixed)
  with assms(1,2,5,6)
    transliterateToMarathi_no_letter [where toLowerCase = toLowerCase and S = t]
  show ?thesis
    by simp
qed

lemma convertToMarathi_working_fixed:
  assumes "t \<noteq> []" and "list_all (\<lambda>c. \<not> workingLetter c) t"
    and "\<not> isWhiteSpace (hd t)" and "\<not> isWhiteSpace (last t)"
    and "toLowerCase t = t" and "preservesBlank toLowerCase"
  shows "convertToMarathi_working toLowerCase t = Str t"
proof -
  from assms(1,3,4) have "trim t = t"
    by (intro trim_fixed)
  with assms(1,2,5,6)
    convertToMarathi_working_no_letter [where toLowerCase = toLowerCase and S = t]
  show ?thesis
    by simp
qed

lemma devanagari_value:
  assumes "list_all wellFormedEntry dict" and "getOwn dict k = Some v"
  shows "v \<noteq> []" and "list_all (\<lambda>c. \<not> isWhiteSpace c) v"
    and "list_all (\<lambda>c. \<not> isLowerAZ c) v"
    and "list_all (\<lambda>c. \<not> workingLetter c) v"
  using wellFormed_getOwn(3,4) [OF assms]
  by (auto simp: list_all_iff workingLetter_def dest: isDevanagari_not_isWhiteSpace
      isDevanagari_not_isLowerAZ)

lemma devanagari_ends:
  assumes "v \<noteq> []" and "list_all (\<lambda>c. \<not> isWhiteSpace c) v"
  shows "\<not> isWhiteSpace (hd v)" and "\<not> isWhiteSpace (last v)"
  using assms by (auto simp: list_all_iff)

lemma normalized_text:
  assumes "trim S \<noteq> []" and "preservesBlank toLowerCase"
  shows "trim (toLowerCase S) \<noteq> []"
    and "\<not> isWhiteSpace (hd (trim (toLowerCase S)))"
    and "\<not> isWhiteSpace (last (trim (toLowerCase S)))"
proof -
  from assms show ne: "trim (toLowerCase S) \<noteq> []"
    by (simp add: trim_toLowerCase_eq_Nil_iff)
  from trim_ends [OF ne]
  show "\<not> isWhiteSpace (hd (trim (toLowerCase S)))"
    and "\<not> isWhiteSpace (last (trim (toLowerCase S)))"
    by simp_all
qed

lemma charMapFallback_class:
  "list_all (\<lambda>c. \<not> isLowerAZ c) (charMapFallback c)"
  "\<not> isWhiteSpace c \<Longrightarrow> list_all (\<lambda>c. \<not> isWhiteSpace c) (charMapFallback c)"
  using charMapFallback_letter(2) [of c] charMapFallback_other [of c]
  by (cases "isLowerAZ c";
      auto simp: list_all_iff dest: isDevanagari_not_isWhiteSpace isDevanagari_not_isLowerAZ)+

lemma workingFallback_class:
  "list_all (\<lambda>c. \<not> workingLetter c) (workingFallback c)"
  "\<not> isWhiteSpace c \<Longrightarrow> list_all (\<lambda>c. \<not> isWhiteSpace c) (workingFallback c)"
  using workingFallback_letter(2) [of c] workingFallback_other [of c]
  by (cases "workingLetter c";
      auto simp: list_all_iff workingLetter_def dest: isDevanagari_not_isWhiteSpace
        isDevanagari_not_isLowerAZ)+

text \<open>
  Wherever an engine returns a string, and \<open>toLowerCase\<close> leaves that string as it is
  (Devanagari has no case), the engine returns the same string for it.
\<close>

lemma transliterateToMarathi_idempotent:
  assumes "transliterateToMarathi toLowerCase S = Str out"
    and "toLowerCase out = out" and "preservesBlank toLowerCase"
  shows "transliterateToMarathi toLowerCase out = Str out"
proof (cases "trim S = []")
  case True
  with assms(1) have "out = []"
    by (simp add: transliterateToMarathi_blank)
  then show ?thesis
    by (simp add: transliterateToMarathi_blank trim_Nil)
next
  case False
  let ?text = "trim (toLowerCase S)"
  note norm = normalized_text [where toLowerCase = toLowerCase, OF False assms(3)]
  show ?thesis
  proof (cases "getOwn marathiMap ?text")
    case (Some v)
    from transliterateToMarathi_exact [where toLowerCase = toLowerCase, OF assms(3) Some]
      assms(1)
    have "out = v"
      by simp
    with devanagari_value [OF marathiMap_wellFormed Some] assms(2,3) show ?thesis
      by (intro transliterateToMarathi_fixed devanagari_ends) simp_all
  next
    case None
    let ?scan = "greedyScan marathiMap [4, 3, 2] charMapFallback ?text"
    from transliterateToMarathi_cases [where toLowerCase = toLowerCase,
        OF False None assms(3)] assms(1)
    have out: "out = ?scan"
      by (auto split: if_splits)
    have "?scan \<noteq> []"
      using marathiMap_wellFormed charMapFallback_nonempty norm(1) by (rule greedyScan_nonempty)
    moreover have "list_all (\<lambda>c. \<not> isLowerAZ c) ?scan"
    proof (rule greedyScan_pieces)
      show "list_all (\<lambda>c. \<not> isLowerAZ c) v"
        if "getOwn marathiMap k = Some v" for k v
        using devanagari_value(3) [OF marathiMap_wellFormed that] .
      show "list_all (\<lambda>c. \<not> isLowerAZ c) (charMapFallback c)"
        if "c \<in> set ?text" for c
        by (rule charMapFallback_class)
    qed
    moreover have "\<not> isWhiteSpace (hd ?scan)"
      using norm(1,2)
      by (intro greedyScan_hd [where Q = "\<lambda>c. \<not> isWhiteSpace c"])
        (auto simp: charMapFallback_nonempty charMapFallback_class
          dest: devanagari_value(1,2) [OF marathiMap_wellFormed])
    moreover have "\<not> isWhiteSpace (last ?scan)"
      using norm(1,3) marathiMap_wellFormed
      by (intro greedyScan_last [where Q = "\<lambda>c. \<not> isWhiteSpace c"])
        (auto simp: charMapFallback_nonempty charMapFallback_class
          dest: devanagari_value(1,2) [OF marathiMap_wellFormed])
    moreover from assms(2) have "toLowerCase ?scan = ?scan"
      unfolding out .
    ultimately show ?thesis
      unfolding out using assms(3) by (rule transliterateToMarathi_fixed)
  qed
qed

lemma convertToMarathi_working_idempotent:
  assumes "convertToMarathi_working toLowerCase S = Str out"
    and "toLowerCase out = out" and "preservesBlank toLowerCase"
  shows "convertToMarathi_working toLowerCase out = Str out"
proof (cases "trim S = []")
  case True
  with assms(1) have "out = []"
    by (simp add: convertToMarathi_working_blank)
  then show ?thesis
    by (simp add: convertToMarathi_working_blank trim_Nil)
next
  case False
  let ?text = "trim (toLowerCase S)"
  note norm = normalized_text [where toLowerCase = toLowerCase, OF False assms(3)]
  show ?thesis
  proof (cases "getOwn marathiTranslation ?text")
    case (Some v)
    from convertToMarathi_working_exact [where toLowerCase = toLowerCase, OF assms(3) Some]
      assms(1)
    have "out = v"
      by simp
    with devanagari_value [OF marathiTranslation_wellFormed Some] assms(2,3) show ?thesis
      by (intro convertToMarathi_working_fixed devanagari_ends) simp_all
  next
    case None
    let ?scan = "greedyScan marathiTranslation [3, 2] workingFallback ?text"
    from convertToMarathi_working_cases [where toLowerCase = toLowerCase,
        OF False None assms(3)] assms(1)
    have out: "out = ?scan"
      by (auto split: if_splits)
    have "?scan \<noteq> []"
      using marathiTranslation_wellFormed workingFallback_nonempty norm(1)
      by (rule greedyScan_nonempty)
    moreover have "list_all (\<lambda>c. \<not> workingLetter c) ?scan"
    proof (rule greedyScan_pieces)
      show "list_all (\<lambda>c. \<not> workingLetter c) v"
        if "getOwn marathiTranslation k = Some v" for k v
        using devanagari_value(4) [OF marathiTranslation_wellFormed that] .
      show "list_all (\<lambda>c. \<not> workingLetter c) (workingFallback c)"
        if "c \<in> set ?text" for c
        by (rule workingFallback_class)
    qed
    moreover have "\<not> isWhiteSpace (hd ?scan)"
      using norm(1,2)
      by (intro greedyScan_hd [where Q = "\<lambda>c. \<not> isWhiteSpace c"])
        (auto simp: workingFallback_nonempty workingFallback_class
          dest: devanagari_value(1,2) [OF marathiTranslation_wellFormed])
    moreover have "\<not> isWhiteSpace (last ?scan)"
      using norm(1,3) marathiTranslation_wellFormed
      by (intro greedyScan_last [where Q = "\<lambda>c. \<not> isWhiteSpace c"])
        (auto simp: workingFallback_nonempty workingFallback_class
          dest: devanagari_value(1,2) [OF marathiTranslation_wellFormed])
    moreover from assms(2) have "toLowerCase ?scan = ?scan"
      unfolding out .
    ultimately show ?thesis
      unfolding out using assms(3) by (rule convertToMarathi_working_fixed)
  qed
qed

lemma convertToMarathi_idempotent:
  assumes "convertToMarathi toLowerCase S = Str out"
    and "toLowerCase out = out" and "preservesBlank toLowerCase"
  shows "convertToMarathi toLowerCase out = Str out"
proof (cases "trim S = []")
  case True
  with assms(1) have "out = []"
    by (simp add: convertToMarathi_blank)
  then show ?thesis
    by (simp add: convertToMarathi_blank trim_Nil)
next
  case False
  show ?thesis
  proof (cases "filter isLowerAZ (toLowerCase S) = []")
    case True
    from convertToMarathi_no_letter [where toLowerCase = toLowerCase, OF False True assms(3)]
      assms(1)
    show ?thesis
      by simp
  next
    case letters: False
    from letters assms(1,3) have dev: "list_all isDevanagari out"
      by (rule convertToMarathi_devanagari)
    from convertToMarathi_not_empty [where toLowerCase = toLowerCase, OF False assms(3)]
      assms(1)
    have ne: "out \<noteq> []"
      by auto
    from dev have "filter isLowerAZ out = []"
      by (auto simp: filter_empty_conv list_all_iff dest: isDevanagari_not_isLowerAZ)
    with assms(2) have "filter isLowerAZ (toLowerCase out) = []"
      by simp
    moreover from dev ne have "trim out \<noteq> []"
      by (cases out) (auto simp: trim_eq_Nil_iff dest: isDevanagari_not_isWhiteSpace)
    ultimately show ?thesis
      using assms(3) by (intro convertToMarathi_no_letter)
  qed
qed

text \<open>
  Every result is a string or a member inherited from \<open>Object.prototype\<close>, and it is
  inherited only for the inputs whose normalisation is one of the inherited names.
\<close>

lemma string_or_inherited:
  assumes "preservesBlank toLowerCase"
  shows "(\<exists>out. convertToMarathi toLowerCase S = Str out)
   \<or> (trim (toLowerCase S) \<in> set objectPrototypeNames
       \<and> convertToMarathi toLowerCase S = Inherited (trim (toLowerCase S)))"
    and "(\<exists>out. transliterateToMarathi toLowerCase S = Str out)
   \<or> (trim (toLowerCase S) \<in> set objectPrototypeNames
       \<and> transliterateToMarathi toLowerCase S = Inherited (trim (toLowerCase S)))"
    and "(\<exists>out. convertToMarathi_working toLowerCase S = Str out)
   \<or> (trim (toLowerCase S) \<in> set objectPrototypeNames
       \<and> convertToMarathi_working toLowerCase S = Inherited (trim (toLowerCase S)))"
proof -
  show "(\<exists>out. convertToMarathi toLowerCase S = Str out)
   \<or> (trim (toLowerCase S) \<in> set objectPrototypeNames
       \<and> convertToMarathi toLowerCase S = Inherited (trim (toLowerCase S)))"
  proof (cases "trim S = []")
    case True
    then show ?thesis by (simp add: convertToMarathi_blank)
  next
    case False
    show ?thesis
    proof (cases "getOwn nameMapping (trim (toLowerCase S))")
      case None
      from convertToMarathi_cases [where toLowerCase = toLowerCase, OF False None]
      show ?thesis
        by (auto split: option.splits)
    next
      case (Some v)
      from convertToMarathi_exact [where toLowerCase = toLowerCase, OF assms Some]
      show ?thesis by simp
    qed
  qed
  show "(\<exists>out. transliterateToMarathi toLowerCase S = Str out)
   \<or> (trim (toLowerCase S) \<in> set objectPrototypeNames
       \<and> transliterateToMarathi toLowerCase S = Inherited (trim (toLowerCase S)))"
  proof (cases "trim S = []")
    case True
    then show ?thesis by (simp add: transliterateToMarathi_blank)
  next
    case False
    show ?thesis
    proof (cases "getOwn marathiMap (trim (toLowerCase S))")
      case None
      from transliterateToMarathi_cases [where toLowerCase = toLowerCase, OF False None assms]
      show ?thesis
        by auto
    next
      case (Some v)
      from transliterateToMarathi_exact [where toLowerCase = toLowerCase, OF assms Some]
      show ?thesis by simp
    qed
  qed
  show "(\<exists>out. convertToMarathi_working toLowerCase S = Str out)
   \<or> (trim (toLowerCase S) \<in> set objectPrototypeNames
       \<and> convertToMarathi_working toLowerCase S = Inherited (trim (toLowerCase S)))"
  proof (cases "trim S = []")
    case True
    then show ?thesis by (simp add: convertToMarathi_working_blank)
  next
    case False
    show ?thesis
    proof (cases "getOwn marathiTranslation (trim (toLowerCase S))")
      case None
      from convertToMarathi_working_cases [where toLowerCase = toLowerCase,
          OF False None assms]
      show ?thesis
        by auto
    next
      case (Some v)
      from convertToMarathi_working_exact [where toLowerCase = toLowerCase, OF assms Some]
      show ?thesis by simp
    qed
  qed
qed

section \<open>C7: totality\<close>

text \<open>
  C7. The engines terminate on every input (the loops are total functions, with their
  termination proved above) and no branch throws. The claim that the result is always a
  string fails: for the input \<open>constructor\<close> the name converter and the improved input
  both return the function inherited from \<open>Object.prototype\<close>, where their signature
  promises a string. The input is lower-case already: \<open>toLowerCase\<close> returns it as it is.
  By \<open>string_or_inherited\<close> the inherited names are the only inputs for which the result
  is not a string.
\<close>

theorem totality_fails_on_inherited_name:
  assumes "toLowerCase (ascii ''constructor'') = ascii ''constructor''"
  shows "convertToMarathi toLowerCase (ascii ''constructor'') = Inherited (ascii ''constructor'')
   \<and> transliterateToMarathi toLowerCase (ascii ''constructor'')
       = Inherited (ascii ''constructor'')
   \<and> (\<forall>out. convertToMarathi toLowerCase (ascii ''constructor'') \<noteq> Str out)
   \<and> (\<forall>out. transliterateToMarathi toLowerCase (ascii ''constructor'') \<noteq> Str out)"
  by (simp add: convertToMarathi_constructor [where toLowerCase = toLowerCase, OF assms]
      transliterateToMarathi_constructor [where toLowerCase = toLowerCase, OF assms])

theorem totality_fails_on_inherited_name_witness:
  "asciiToLowerCase (ascii ''constructor'') = ascii ''constructor''
   \<and> convertToMarathi asciiToLowerCase (ascii ''constructor'')
       = Inherited (ascii ''constructor'')
   \<and> transliterateToMarathi asciiToLowerCase (ascii ''constructor'')
       = Inherited (ascii ''constructor'')
   \<and> (\<forall>out. convertToMarathi asciiToLowerCase (ascii ''constructor'') \<noteq> Str out)
   \<and> (\<forall>out. transliterateToMarathi asciiToLowerCase (ascii ''constructor'') \<noteq> Str out)"
  using totality_fails_on_inherited_name [where toLowerCase = asciiToLowerCase,
      OF asciiToLowerCase_constructor]
    asciiToLowerCase_constructor
  by blast

section \<open>C8: applying an engine to its own result\<close>

text \<open>
  C8. For the input \<open>constructor\<close> the first application returns the inherited function
  and the second application, on that function, throws a TypeError: the result of the
  second call is not the result of the first. This holds for the three engines. The
  input is lower-case already: \<open>toLowerCase\<close> returns it as it is. Wherever the first
  application returns a string that \<open>toLowerCase\<close> leaves as it is, the second returns
  the same string (the three lemmas above).
\<close>

theorem second_application_throws:
  assumes "toLowerCase (ascii ''constructor'') = ascii ''constructor''"
  shows "callWithValue (convertToMarathi toLowerCase)
        (convertToMarathi toLowerCase (ascii ''constructor'')) = Inl TypeError
   \<and> callWithValue (transliterateToMarathi toLowerCase)
        (transliterateToMarathi toLowerCase (ascii ''constructor'')) = Inl TypeError
   \<and> callWithValue (convertToMarathi_working toLowerCase)
        (convertToMarathi_working toLowerCase (ascii ''constructor'')) = Inl TypeError"
  by (simp add: callWithValue_def convertToMarathi_constructor [where toLowerCase
      = toLowerCase, OF assms]
      transliterateToMarathi_constructor [where toLowerCase = toLowerCase, OF assms]
      convertToMarathi_working_constructor [where toLowerCase = toLowerCase, OF assms])

theorem second_application_throws_witness:
  "asciiToLowerCase (ascii ''constructor'') = ascii ''constructor''
   \<and> callWithValue (convertToMarathi asciiToLowerCase)
        (convertToMarathi asciiToLowerCase (ascii ''constructor'')) = Inl TypeError
   \<and> callWithValue (transliterateToMarathi asciiToLowerCase)
        (transliterateToMarathi asciiToLowerCase (ascii ''constructor'')) = Inl TypeError
   \<and> callWithValue (convertToMarathi_working asciiToLowerCase)
        (convertToMarathi_working asciiToLowerCase (ascii ''constructor'')) = Inl TypeError"
  using second_application_throws [where toLowerCase = asciiToLowerCase,
      OF asciiToLowerCase_constructor]
    asciiToLowerCase_constructor
  by blast

end
